theory Spec2Isabelle
  imports Complex_Main "HOL-Library.Monad_Syntax"
begin

section \<open>The orchestrator script (scripts/orchestrator.py)\<close>

text \<open>
  The theory embeds the class \<open>KubernetesOrchestrator\<close>. A method keeps its name; the
  leading underscore of a private method is dropped (\<open>_isPodReady\<close> is \<open>isPodReady\<close>).
  Logging is left out, except in \<open>validateNodeCount\<close>, where the warning is what a
  property speaks about. The attribute \<open>_collectedTestCases\<close> is written and never
  read, so it is not part of the state.
\<close>

subsection \<open>Python strings\<close>

text \<open>
  A string is the list of its characters, each a code point from 0 to 255 (the range of
  the type \<open>char\<close>). On these code points the white space of \<open>str.isspace\<close>, which
  \<open>str.strip\<close> removes, is 9 to 13, 28 to 32, 133 (the next-line control) and 160 (the
  no-break space); \<open>str.lower\<close> maps \<open>A\<close> to \<open>Z\<close> and the accented capitals 192 to 222,
  the multiplication sign 215 apart, to the letter 32 places further on, and leaves
  every other code point as it is.
\<close>

fun py_join :: "string \<Rightarrow> string list \<Rightarrow> string" where
  "py_join sep [] = []"
| "py_join sep [x] = x"
| "py_join sep (x # y # ys) = x @ sep @ py_join sep (y # ys)"

fun py_startswith :: "string \<Rightarrow> string \<Rightarrow> bool" where
  "py_startswith s [] = True"
| "py_startswith [] (p # ps) = False"
| "py_startswith (c # cs) (p # ps) = (c = p \<and> py_startswith cs ps)"

text \<open>\<open>py_in needle s\<close> is Python's \<open>needle in s\<close> on strings.\<close>

fun py_in :: "string \<Rightarrow> string \<Rightarrow> bool" where
  "py_in needle [] = (needle = [])"
| "py_in needle (c # cs) = (py_startswith (c # cs) needle \<or> py_in needle cs)"

definition py_isspace :: "char \<Rightarrow> bool" where
  "py_isspace c =
     (let n = of_char c :: nat
      in (9 \<le> n \<and> n \<le> 13) \<or> (28 \<le> n \<and> n \<le> 32) \<or> n = 133 \<or> n = 160)"

definition py_strip :: "string \<Rightarrow> string" where
  "py_strip s = rev (dropWhile py_isspace (rev (dropWhile py_isspace s)))"

definition upper_case :: string where
  "upper_case = ''ABCDEFGHIJKLMNOPQRSTUVWXYZ'' @
     [
      CHR 0xC0, CHR 0xC1, CHR 0xC2, CHR 0xC3, CHR 0xC4, CHR 0xC5, CHR 0xC6, CHR 0xC7, CHR 0xC8, CHR 0xC9,
      CHR 0xCA, CHR 0xCB, CHR 0xCC, CHR 0xCD, CHR 0xCE, CHR 0xCF, CHR 0xD0, CHR 0xD1, CHR 0xD2, CHR 0xD3,
      CHR 0xD4, CHR 0xD5, CHR 0xD6, CHR 0xD8, CHR 0xD9, CHR 0xDA, CHR 0xDB, CHR 0xDC, CHR 0xDD, CHR 0xDE]"

definition lower_case :: string where
  "lower_case = ''abcdefghijklmnopqrstuvwxyz'' @
     [
      CHR 0xE0, CHR 0xE1, CHR 0xE2, CHR 0xE3, CHR 0xE4, CHR 0xE5, CHR 0xE6, CHR 0xE7, CHR 0xE8, CHR 0xE9,
      CHR 0xEA, CHR 0xEB, CHR 0xEC, CHR 0xED, CHR 0xEE, CHR 0xEF, CHR 0xF0, CHR 0xF1, CHR 0xF2, CHR 0xF3,
      CHR 0xF4, CHR 0xF5, CHR 0xF6, CHR 0xF8, CHR 0xF9, CHR 0xFA, CHR 0xFB, CHR 0xFC, CHR 0xFD, CHR 0xFE]"

definition py_lower_char :: "char \<Rightarrow> char" where
  "py_lower_char c =
     (case map_of (zip upper_case lower_case) c of
        Some l \<Rightarrow> l
      | None \<Rightarrow> c)"

definition py_lower :: "string \<Rightarrow> string" where
  "py_lower s = map py_lower_char s"

text \<open>\<open>s.split("\n")\<close>: the pieces between line feeds; never the empty list.\<close>

fun py_split_lines :: "string \<Rightarrow> string list" where
  "py_split_lines [] = [[]]"
| "py_split_lines (c # cs) =
     (if c = CHR 0x0A then [] # py_split_lines cs
      else (case py_split_lines cs of
              [] \<Rightarrow> [[c]]
            | l # ls \<Rightarrow> (c # l) # ls))"

text \<open>\<open>str(n)\<close> for an integer, as the f-strings print it.\<close>

definition digit_char :: "nat \<Rightarrow> char" where
  "digit_char d = ''0123456789'' ! d"

fun str_nat :: "nat \<Rightarrow> string" where
  "str_nat n = (if n < 10 then [digit_char n] else str_nat (n div 10) @ [digit_char (n mod 10)])"

definition str_int :: "int \<Rightarrow> string" where
  "str_int i = (if i < 0 then CHR ''-'' # str_nat (nat (- i)) else str_nat (nat i))"

subsection \<open>Configuration\<close>

text \<open>
  The module reads its settings from the process environment when it is imported
  (lines 25 to 37); the record holds them, and \<open>default_config\<close> is what an empty
  environment gives. The three node-count bounds are constants of the module.
\<close>

record config =
  NAMESPACE :: string
  CONTROLLER_POD_LABEL :: string
  CHROME_NODE_POD_LABEL :: string
  CHROME_NODE_HEADLESS_SVC :: string
  HELM_RELEASE_NAME :: string
  HELM_VALUES_FILE :: string
  READINESS_TIMEOUT :: int
  READINESS_CHECK_INTERVAL :: int
  MAX_RETRIES :: int
  RETRY_DELAY :: int

definition default_config :: config where
  "default_config =
     \<lparr> NAMESPACE = ''insider-testops'',
       CONTROLLER_POD_LABEL = ''app=test-case-controller'',
       CHROME_NODE_POD_LABEL = ''app=chrome-node'',
       CHROME_NODE_HEADLESS_SVC = ''chrome-node-headless'',
       HELM_RELEASE_NAME = ''insider-testops'',
       HELM_VALUES_FILE = '''',
       READINESS_TIMEOUT = 300,
       READINESS_CHECK_INTERVAL = 5,
       MAX_RETRIES = 3,
       RETRY_DELAY = 10 \<rparr>"

definition DEFAULT_NODE_COUNT :: int where "DEFAULT_NODE_COUNT = 1"
definition MIN_NODE_COUNT :: int where "MIN_NODE_COUNT = 1"
definition MAX_NODE_COUNT :: int where "MAX_NODE_COUNT = 5"

subsection \<open>Replica count validation\<close>

text \<open>
  \<open>_validateNodeCount\<close> (lines 85 to 92). The second component is the list of
  warnings the call logs, in order.
\<close>

definition validateNodeCount :: "int \<Rightarrow> int \<times> string list" where
  "validateNodeCount nodeCount =
     (if nodeCount < MIN_NODE_COUNT then
        (MIN_NODE_COUNT,
         [''node_count '' @ str_int nodeCount @ '' below minimum, using '' @ str_int MIN_NODE_COUNT])
      else if nodeCount > MAX_NODE_COUNT then
        (MAX_NODE_COUNT,
         [''node_count '' @ str_int nodeCount @ '' above maximum, using '' @ str_int MAX_NODE_COUNT])
      else (nodeCount, []))"

subsection \<open>Python values\<close>

text \<open>
  The values that the JSON decoder produces and that a wrapped operation may return.
  A dictionary is the list of its items (keys are strings, each key once). A float is
  only ever tested for truth, so it is kept as a rational or one of the three special
  values.
\<close>

datatype pyfloat = Finite rat | PosInf | NegInf | NaN

datatype pyval =
    PNone
  | PBool bool
  | PInt int
  | PFloat pyfloat
  | PStr string
  | PList "pyval list"
  | PTuple "pyval list"
  | PDict "(string \<times> pyval) list"

text \<open>Truth value testing, as \<open>if x:\<close> and \<open>x and y\<close> do it.\<close>

fun py_truthy :: "pyval \<Rightarrow> bool" where
  "py_truthy PNone = False"
| "py_truthy (PBool b) = b"
| "py_truthy (PInt i) = (i \<noteq> 0)"
| "py_truthy (PFloat f) = (f \<noteq> Finite 0)"
| "py_truthy (PStr s) = (s \<noteq> [])"
| "py_truthy (PList xs) = (xs \<noteq> [])"
| "py_truthy (PTuple xs) = (xs \<noteq> [])"
| "py_truthy (PDict kvs) = (kvs \<noteq> [])"

definition py_and :: "pyval \<Rightarrow> pyval \<Rightarrow> pyval" where
  "py_and x y = (if py_truthy x then y else x)"

text \<open>
  The three operations below raise on the wrong kind of value (\<open>AttributeError\<close>,
  \<open>TypeError\<close>); \<open>None\<close> is the raise. \<open>py_get d k dflt\<close> is \<open>d.get(k, dflt)\<close>.
\<close>

fun py_get :: "pyval \<Rightarrow> string \<Rightarrow> pyval \<Rightarrow> pyval option" where
  "py_get (PDict kvs) k dflt = Some (case map_of kvs k of None \<Rightarrow> dflt | Some v \<Rightarrow> v)"
| "py_get _ k dflt = None"

fun py_iter :: "pyval \<Rightarrow> pyval list option" where
  "py_iter (PList xs) = Some xs"
| "py_iter (PTuple xs) = Some xs"
| "py_iter (PDict kvs) = Some (map (\<lambda>kv. PStr (fst kv)) kvs)"
| "py_iter (PStr s) = Some (map (\<lambda>c. PStr [c]) s)"
| "py_iter _ = None"

fun py_len :: "pyval \<Rightarrow> nat option" where
  "py_len (PList xs) = Some (length xs)"
| "py_len (PTuple xs) = Some (length xs)"
| "py_len (PDict kvs) = Some (length kvs)"
| "py_len (PStr s) = Some (length s)"
| "py_len _ = None"

subsection \<open>The cluster and the other external services\<close>

text \<open>
  A pod as the cluster API lists it: \<open>metadata.name\<close>, \<open>status.phase\<close>,
  \<open>status.container_statuses\<close> (absent, or the \<open>ready\<close> flag of each container) and
  \<open>status.pod_ip\<close>.
\<close>

record pod =
  pod_name :: string
  phase :: string
  container_statuses :: "bool list option"
  pod_ip :: "string option"

text \<open>What a call of \<open>list_namespaced_pod\<close> gives: the items, or an \<open>ApiException\<close>.\<close>

datatype list_outcome = Pod_Items "pod list" | Api_Exception string

text \<open>
  What the exec stream gives once it is closed: the return code if the response carries
  one, the collected standard output and standard error; or an exception, with its text.
\<close>

datatype exec_outcome = Exec_Done "int option" string string | Exec_Raised string

text \<open>What \<open>subprocess.run\<close> gives: return code, output and errors; a time-out; another exception.\<close>

datatype proc_outcome = Proc_Done int string string | Proc_Timeout | Proc_Raised string

text \<open>
  Everything outside the script is a parameter: the state \<open>'w\<close> of the world (cluster,
  file system, clock) and the operations on it. Each operation returns its outcome and
  the world after it. \<open>now\<close> is \<open>time.time()\<close> in seconds, \<open>sleep\<close> is \<open>time.sleep\<close>,
  \<open>path_exists\<close> is \<open>os.path.exists\<close>, and \<open>json_loads\<close> is \<open>json.loads\<close>, with \<open>None\<close>
  for a \<open>JSONDecodeError\<close>. The operations fail in the ways the script has a handler
  for; \<open>time.sleep\<close> and \<open>os.path.exists\<close> have none and do not fail here
  (\<open>time.sleep\<close> rejects a negative delay: the delays of the configuration are taken
  to be non-negative). The clock is read as a real number of seconds; the rounding of
  floating point numbers is left out.
\<close>

record 'w env =
  list_namespaced_pod :: "string \<Rightarrow> string \<Rightarrow> 'w \<Rightarrow> list_outcome \<times> 'w"
  pod_exec :: "string \<Rightarrow> string \<Rightarrow> string list \<Rightarrow> string option \<Rightarrow> 'w \<Rightarrow> exec_outcome \<times> 'w"
  subprocess_run :: "string list \<Rightarrow> 'w \<Rightarrow> proc_outcome \<times> 'w"
  path_exists :: "string \<Rightarrow> 'w \<Rightarrow> bool"
  now :: "'w \<Rightarrow> real"
  sleep :: "int \<Rightarrow> 'w \<Rightarrow> 'w"
  json_loads :: "string \<Rightarrow> pyval option"

subsection \<open>Commands and pods\<close>

text \<open>\<open>_runCommand\<close> (lines 68 to 83).\<close>

definition runCommand :: "'w env \<Rightarrow> string list \<Rightarrow> 'w \<Rightarrow> (int \<times> string \<times> string) \<times> 'w" where
  "runCommand env command w =
     (case subprocess_run env command w of
        (Proc_Done returncode out err, w') \<Rightarrow> ((returncode, out, err), w')
      | (Proc_Timeout, w') \<Rightarrow> ((1, [], ''Command timed out''), w')
      | (Proc_Raised e, w') \<Rightarrow> ((1, [], e), w'))"

text \<open>\<open>_getPodsByLabel\<close> (lines 94 to 103) and \<open>_getPodName\<close> (lines 105 to 109).\<close>

definition getPodsByLabel :: "'w env \<Rightarrow> config \<Rightarrow> string \<Rightarrow> 'w \<Rightarrow> pod list \<times> 'w" where
  "getPodsByLabel env cfg labelSelector w =
     (case list_namespaced_pod env (NAMESPACE cfg) labelSelector w of
        (Pod_Items items, w') \<Rightarrow> (items, w')
      | (Api_Exception e, w') \<Rightarrow> ([], w'))"

definition getPodName :: "'w env \<Rightarrow> config \<Rightarrow> string \<Rightarrow> 'w \<Rightarrow> string option \<times> 'w" where
  "getPodName env cfg labelSelector w =
     (case getPodsByLabel env cfg labelSelector w of
        ([], w') \<Rightarrow> (None, w')
      | (p # ps, w') \<Rightarrow> (Some (pod_name p), w'))"

text \<open>\<open>if not name\<close> on the result of \<open>_getPodName\<close>: no pod, or an empty name.\<close>

fun name_missing :: "string option \<Rightarrow> bool" where
  "name_missing None = True"
| "name_missing (Some n) = (n = [])"

text \<open>The name itself, once \<open>name_missing\<close> has been excluded.\<close>

fun name_of :: "string option \<Rightarrow> string" where
  "name_of None = []"
| "name_of (Some n) = n"

text \<open>\<open>_isPodReady\<close> (lines 111 to 116).\<close>

definition isPodReady :: "pod \<Rightarrow> bool" where
  "isPodReady p =
     (if phase p \<noteq> ''Running'' then False
      else (case container_statuses p of
              None \<Rightarrow> False
            | Some [] \<Rightarrow> False
            | Some (c # cs) \<Rightarrow> list_all (\<lambda>r. r) (c # cs)))"

text \<open>\<open>_getChromeNodeDns\<close> (lines 118 to 119).\<close>

definition getChromeNodeDns :: "config \<Rightarrow> string \<Rightarrow> string" where
  "getChromeNodeDns cfg podName =
     podName @ ''.'' @ CHROME_NODE_HEADLESS_SVC cfg @ ''.'' @ NAMESPACE cfg @ ''.svc.cluster.local''"

text \<open>
  \<open>_execInPod\<close> (lines 197 to 246). The loop that drains the stream is inside
  \<open>pod_exec\<close>. A missing or empty \<open>envVars\<close> gives the plain command; a missing or
  empty \<open>container\<close> is not passed on.
\<close>

definition execInPod ::
  "'w env \<Rightarrow> config \<Rightarrow> string \<Rightarrow> string list \<Rightarrow> string option \<Rightarrow> (string \<times> string) list option
     \<Rightarrow> 'w \<Rightarrow> (int \<times> string \<times> string) \<times> 'w" where
  "execInPod env cfg podName command container envVars w =
     (let execCommand =
            (case envVars of
               Some (kv # kvs) \<Rightarrow>
                 [''/bin/sh'', ''-c'',
                  py_join '' '' (map (\<lambda>(k, v). k @ ''='' @ v) (kv # kvs)) @ '' '' @ py_join '' '' command]
             | _ \<Rightarrow> [''/bin/sh'', ''-c'', py_join '' '' command]);
          containerArg = (case container of Some (c # cs) \<Rightarrow> Some (c # cs) | _ \<Rightarrow> None)
      in case pod_exec env podName (NAMESPACE cfg) execCommand containerArg w of
           (Exec_Done rc out err, w') \<Rightarrow> (((case rc of None \<Rightarrow> 0 | Some c \<Rightarrow> c), out, err), w')
         | (Exec_Raised e, w') \<Rightarrow> ((1, [], e), w'))"

subsection \<open>Node selector\<close>

text \<open>The dictionary that \<open>_checkChromeNodeStatus\<close> returns.\<close>

record node_status =
  available :: pyval
  ready :: pyval
  sessions :: nat
  maxSessions :: nat

definition unavailable_status :: node_status where
  "unavailable_status = \<lparr> available = PBool False, ready = PBool False, sessions = 0, maxSessions = 0 \<rparr>"

text \<open>
  The inner loop of lines 143 to 145 over the slots of one node, and the outer loop of
  lines 140 to 145 over the nodes. The state of the outer loop is the pair of
  \<open>activeSessions\<close> and \<open>maxSessions\<close> (here \<open>maxS\<close>); \<open>None\<close> is an exception.
\<close>

fun count_sessions :: "pyval list \<Rightarrow> nat \<Rightarrow> nat option" where
  "count_sessions [] activeSessions = Some activeSessions"
| "count_sessions (slot # rest) activeSessions =
     (case py_get slot ''session'' PNone of
        None \<Rightarrow> None
      | Some s \<Rightarrow> count_sessions rest (if s \<noteq> PNone then activeSessions + 1 else activeSessions))"

fun scan_nodes :: "pyval list \<Rightarrow> nat \<times> nat \<Rightarrow> (nat \<times> nat) option" where
  "scan_nodes [] st = Some st"
| "scan_nodes (node # rest) (activeSessions, maxS) =
     do {
       slots \<leftarrow> py_get node ''slots'' (PList []);
       n \<leftarrow> py_len slots;
       items \<leftarrow> py_iter slots;
       a \<leftarrow> count_sessions items activeSessions;
       scan_nodes rest (a, n)
     }"

text \<open>Lines 132 to 154: the status computed from the decoded body.\<close>

definition status_of_body :: "pyval \<Rightarrow> node_status option" where
  "status_of_body data =
     do {
       value \<leftarrow> py_get data ''value'' (PDict []);
       rdy \<leftarrow> py_get value ''ready'' (PBool False);
       nodes \<leftarrow> py_get value ''nodes'' (PList []);
       items \<leftarrow> py_iter nodes;
       (activeSessions, maxS) \<leftarrow> scan_nodes items (0, 1);
       Some \<lparr> available = py_and rdy (PBool (activeSessions < maxS)),
              ready = rdy, sessions = activeSessions, maxSessions = maxS \<rparr>
     }"

text \<open>Lines 122 to 123: the probe command.\<close>

definition curlCommand :: "string \<Rightarrow> int \<Rightarrow> string list" where
  "curlCommand dnsName port =
     [''curl'', ''-s'', ''--connect-timeout'', ''3'', ''http://'' @ dnsName @ '':'' @ str_int port @ ''/status'']"

text \<open>\<open>_checkChromeNodeStatus\<close> (lines 121 to 160).\<close>

definition checkChromeNodeStatus ::
  "'w env \<Rightarrow> config \<Rightarrow> string \<Rightarrow> string \<Rightarrow> int \<Rightarrow> 'w \<Rightarrow> node_status \<times> 'w" where
  "checkChromeNodeStatus env cfg dnsName controllerPodName port w =
     (case execInPod env cfg controllerPodName (curlCommand dnsName port) None None w of
        ((returnCode, out, err), w') \<Rightarrow>
          if returnCode \<noteq> 0 \<or> py_strip out = [] then (unavailable_status, w')
          else (case json_loads env out of
                  None \<Rightarrow> (unavailable_status, w')
                | Some data \<Rightarrow>
                    (case status_of_body data of
                       None \<Rightarrow> (unavailable_status, w')
                     | Some st \<Rightarrow> (st, w'))))"

text \<open>The loop of lines 179 to 195 over the listed worker pods.\<close>

fun scanChromeNodes :: "'w env \<Rightarrow> config \<Rightarrow> string \<Rightarrow> pod list \<Rightarrow> 'w \<Rightarrow> string option \<times> 'w" where
  "scanChromeNodes env cfg controllerPodName [] w = (None, w)"
| "scanChromeNodes env cfg controllerPodName (p # rest) w =
     (if \<not> isPodReady p then scanChromeNodes env cfg controllerPodName rest w
      else (let dnsName = getChromeNodeDns cfg (pod_name p)
            in case checkChromeNodeStatus env cfg dnsName controllerPodName 4444 w of
                 (status, w') \<Rightarrow>
                   if py_truthy (available status) then (Some dnsName, w')
                   else scanChromeNodes env cfg controllerPodName rest w'))"

text \<open>\<open>_getAvailableChromeNode\<close> (lines 162 to 195).\<close>

definition getAvailableChromeNode :: "'w env \<Rightarrow> config \<Rightarrow> 'w \<Rightarrow> string option \<times> 'w" where
  "getAvailableChromeNode env cfg w =
     (case getPodName env cfg (CONTROLLER_POD_LABEL cfg) w of
        (controllerPodName, w1) \<Rightarrow>
          if name_missing controllerPodName then (None, w1)
          else (case getPodsByLabel env cfg (CHROME_NODE_POD_LABEL cfg) w1 of
                  (pods, w2) \<Rightarrow>
                    if pods = [] then (None, w2)
                    else scanChromeNodes env cfg (name_of controllerPodName) pods w2))"

subsection \<open>Retry loops\<close>

text \<open>\<open>range(1, MAX_RETRIES + 1)\<close>: the attempt numbers a retry loop runs through.\<close>

definition attempts :: "config \<Rightarrow> int list" where
  "attempts cfg = [1..MAX_RETRIES cfg]"

text \<open>
  The end of a failed attempt, in every retry loop:
  \<open>if attempt < MAX_RETRIES: time.sleep(RETRY_DELAY)\<close>.
\<close>

definition retry_pause :: "'w env \<Rightarrow> config \<Rightarrow> int \<Rightarrow> 'w \<Rightarrow> 'w" where
  "retry_pause env cfg attempt w =
     (if attempt < MAX_RETRIES cfg then sleep env (RETRY_DELAY cfg) w else w)"

subsection \<open>Deployment driver\<close>

text \<open>Lines 265 to 282: the Helm command line, given the values file to pass, if any.\<close>

definition helmCommand :: "config \<Rightarrow> string \<Rightarrow> string option \<Rightarrow> int \<Rightarrow> string list" where
  "helmCommand cfg helmChartPath valuesArg nodeCount =
     [''helm'', ''upgrade'', ''--install'', HELM_RELEASE_NAME cfg, helmChartPath,
      ''--namespace'', NAMESPACE cfg, ''--create-namespace'']
     @ (case valuesArg of None \<Rightarrow> [] | Some f \<Rightarrow> [''-f'', f])
     @ [''--set'', ''chromeNode.replicaCount='' @ str_int nodeCount,
        ''--set'', ''chromeNode.autoscaling.minReplicas='' @ str_int nodeCount,
        ''--set'', ''chromeNode.autoscaling.maxReplicas='' @ str_int MAX_NODE_COUNT,
        ''--wait'', ''--timeout'', ''5m'']"

text \<open>The loop of lines 286 to 310.\<close>

fun deploy_attempts :: "'w env \<Rightarrow> config \<Rightarrow> string list \<Rightarrow> int list \<Rightarrow> 'w \<Rightarrow> bool \<times> 'w" where
  "deploy_attempts env cfg command [] w = (False, w)"
| "deploy_attempts env cfg command (attempt # rest) w =
     (case runCommand env command w of
        ((returnCode, out, err), w') \<Rightarrow>
          if returnCode = 0 then (True, w')
          else deploy_attempts env cfg command rest (retry_pause env cfg attempt w'))"

text \<open>\<open>deploy\<close> (lines 248 to 310). \<open>valuesFile or HELM_VALUES_FILE\<close> is \<open>effectiveValuesFile\<close>.\<close>

definition deploy :: "'w env \<Rightarrow> config \<Rightarrow> string \<Rightarrow> int \<Rightarrow> string option \<Rightarrow> 'w \<Rightarrow> bool \<times> 'w" where
  "deploy env cfg helmChartPath nodeCount valuesFile w =
     (let validated = fst (validateNodeCount nodeCount);
          effectiveValuesFile = (if name_missing valuesFile then HELM_VALUES_FILE cfg else name_of valuesFile)
      in if \<not> path_exists env helmChartPath w then (False, w)
         else deploy_attempts env cfg
                (helmCommand cfg helmChartPath
                   (if effectiveValuesFile \<noteq> [] \<and> path_exists env effectiveValuesFile w
                    then Some effectiveValuesFile else None)
                   validated)
                (attempts cfg) w)"

subsection \<open>Readiness poller\<close>

text \<open>
  The loop of lines 316 to 329. Nothing in the script bounds the number of rounds: the
  loop ends when the clock of the world says so. A run that never ends is \<open>None\<close>.
\<close>

partial_function (option) checkReadiness_loop ::
  "'w env \<Rightarrow> config \<Rightarrow> string \<Rightarrow> int \<Rightarrow> real \<Rightarrow> 'w \<Rightarrow> (bool \<times> 'w) option" where
  "checkReadiness_loop env cfg labelSelector minReady startTime w =
     (if now env w - startTime < real_of_int (READINESS_TIMEOUT cfg) then
        (case getPodsByLabel env cfg labelSelector w of
           (pods, w') \<Rightarrow>
             if int (length (filter isPodReady pods)) \<ge> minReady then Some (True, w')
             else checkReadiness_loop env cfg labelSelector minReady startTime
                    (sleep env (READINESS_CHECK_INTERVAL cfg) w'))
      else Some (False, w))"

text \<open>\<open>checkReadiness\<close> (lines 312 to 329).\<close>

definition checkReadiness :: "'w env \<Rightarrow> config \<Rightarrow> string \<Rightarrow> int \<Rightarrow> 'w \<Rightarrow> (bool \<times> 'w) option" where
  "checkReadiness env cfg labelSelector minReady w =
     checkReadiness_loop env cfg labelSelector minReady (now env w) w"

subsection \<open>Test runner\<close>

text \<open>Lines 354 to 358: the test identifiers among the lines of the collection output.\<close>

definition collect_test_ids :: "string \<Rightarrow> string list" where
  "collect_test_ids out =
     filter (\<lambda>line. line \<noteq> [] \<and> py_in ''::'' line
                 \<and> \<not> (py_startswith line ''='' \<or> py_startswith line ''-'' \<or> py_startswith line '' ''))
       (map py_strip (py_split_lines out))"

text \<open>Line 351: the collection command.\<close>

definition collectCommand :: "string list" where
  "collectCommand = [''python'', ''-m'', ''pytest'', ''tests/'', ''--collect-only'', ''-q'']"

text \<open>The loop of lines 334 to 378.\<close>

fun passTestCases_attempts :: "'w env \<Rightarrow> config \<Rightarrow> int list \<Rightarrow> 'w \<Rightarrow> string list \<times> 'w" where
  "passTestCases_attempts env cfg [] w = ([], w)"
| "passTestCases_attempts env cfg (attempt # rest) w =
     (case getPodName env cfg (CONTROLLER_POD_LABEL cfg) w of
        (controllerPodName, w1) \<Rightarrow>
          if name_missing controllerPodName then
            (if attempt < MAX_RETRIES cfg
             then passTestCases_attempts env cfg rest (sleep env (RETRY_DELAY cfg) w1)
             else ([], w1))
          else
            (case execInPod env cfg (name_of controllerPodName) collectCommand None None w1 of
               ((returnCode, out, err), w2) \<Rightarrow>
                 (let testCases = collect_test_ids out
                  in if testCases \<noteq> [] then (testCases, w2)
                     else passTestCases_attempts env cfg rest (retry_pause env cfg attempt w2))))"

text \<open>\<open>passTestCases\<close> (lines 331 to 378).\<close>

definition passTestCases :: "'w env \<Rightarrow> config \<Rightarrow> 'w \<Rightarrow> string list \<times> 'w" where
  "passTestCases env cfg w = passTestCases_attempts env cfg (attempts cfg) w"

text \<open>
  An error that leaves a method. The last line of \<open>executeTests\<close> reads \<open>stdout\<close> and
  \<open>stderr\<close>, which are bound by the first round of the loop only.
\<close>

datatype py_error = UnboundLocalError string

text \<open>
  The loop of lines 409 to 441. \<open>prev\<close> is the output and the errors of the round
  before, if there was one.
\<close>

fun executeTests_attempts ::
  "'w env \<Rightarrow> config \<Rightarrow> string \<Rightarrow> string list \<Rightarrow> (string \<times> string) list \<Rightarrow> int list
     \<Rightarrow> (string \<times> string) option \<Rightarrow> 'w \<Rightarrow> (py_error + bool \<times> string) \<times> 'w" where
  "executeTests_attempts env cfg controllerPodName command envVars [] prev w =
     (case prev of
        None \<Rightarrow> (Inl (UnboundLocalError ''stdout''), w)
      | Some (out, err) \<Rightarrow> (Inr (False, if out \<noteq> [] then out else err), w))"
| "executeTests_attempts env cfg controllerPodName command envVars (attempt # rest) prev w =
     (case execInPod env cfg controllerPodName command None (Some envVars) w of
        ((returnCode, out, err), w') \<Rightarrow>
          if returnCode = 0 then (Inr (True, out), w')
          else if py_in ''passed'' (py_lower out) \<and> \<not> py_in ''failed'' (py_lower out)
          then (Inr (True, out), w')
          else executeTests_attempts env cfg controllerPodName command envVars rest
                 (Some (out, err)) (retry_pause env cfg attempt w'))"

text \<open>Lines 398 to 401: the test command.\<close>

definition testCommand :: "string \<Rightarrow> string list option \<Rightarrow> string list" where
  "testCommand testPath specificTests =
     (case specificTests of
        Some (t # ts) \<Rightarrow>
          [''python'', ''-m'', ''pytest''] @ (t # ts) @ [''-v'', ''--tb=short'', ''-p'', ''no:cacheprovider'']
      | _ \<Rightarrow> [''python'', ''-m'', ''pytest'', testPath, ''-v'', ''--tb=short'', ''-p'', ''no:cacheprovider''])"

text \<open>\<open>executeTests\<close> (lines 380 to 441).\<close>

definition executeTests ::
  "'w env \<Rightarrow> config \<Rightarrow> string \<Rightarrow> string list option \<Rightarrow> 'w \<Rightarrow> (py_error + bool \<times> string) \<times> 'w" where
  "executeTests env cfg testPath specificTests w =
     (case getPodName env cfg (CONTROLLER_POD_LABEL cfg) w of
        (controllerPodName, w1) \<Rightarrow>
          if name_missing controllerPodName then (Inr (False, ''Test Controller Pod not found''), w1)
          else
            (case getAvailableChromeNode env cfg w1 of
               (availableNode, w2) \<Rightarrow>
                 if name_missing availableNode then (Inr (False, ''No available Chrome Node''), w2)
                 else
                   (let remoteUrl = ''http://'' @ name_of availableNode @ '':4444'';
                        envVars = [(''HEADLESS'', ''true''), (''REMOTE_URL'', remoteUrl)]
                    in executeTests_attempts env cfg (name_of controllerPodName)
                         (testCommand testPath specificTests) envVars (attempts cfg) None w2)))"

subsection \<open>Generic retry wrapper\<close>

text \<open>
  What a call of the wrapped operation does: it returns a value or raises an exception
  (an instance of \<open>Exception\<close>, the kind that the wrapper catches).
\<close>

datatype outcome = Returned pyval | Raised string

text \<open>
  Lines 456 to 473, the body of the \<open>try\<close>: the value that the round returns with
  \<open>True\<close>, or \<open>None\<close> when the round ends in the \<open>except\<close> branch.
\<close>

fun try_round :: "outcome \<Rightarrow> pyval option" where
  "try_round (Raised e) = None"
| "try_round (Returned (PBool b)) = (if b then Some (PBool b) else None)"
| "try_round (Returned (PTuple (x # xs))) = (if py_truthy x then Some (PTuple (x # xs)) else None)"
| "try_round (Returned r) = Some r"

text \<open>The loop of lines 452 to 483.\<close>

fun handleErrors_attempts ::
  "'w env \<Rightarrow> config \<Rightarrow> ('w \<Rightarrow> outcome \<times> 'w) \<Rightarrow> int list \<Rightarrow> 'w \<Rightarrow> (bool \<times> pyval) \<times> 'w" where
  "handleErrors_attempts env cfg operationFunc [] w = ((False, PNone), w)"
| "handleErrors_attempts env cfg operationFunc (attempt # rest) w =
     (case operationFunc w of
        (res, w') \<Rightarrow>
          (case try_round res of
             Some r \<Rightarrow> ((True, r), w')
           | None \<Rightarrow> handleErrors_attempts env cfg operationFunc rest (retry_pause env cfg attempt w')))"

text \<open>\<open>handleErrors\<close> (lines 443 to 483); the arguments of the operation are inside \<open>operationFunc\<close>.\<close>

definition handleErrors ::
  "'w env \<Rightarrow> config \<Rightarrow> ('w \<Rightarrow> outcome \<times> 'w) \<Rightarrow> 'w \<Rightarrow> (bool \<times> pyval) \<times> 'w" where
  "handleErrors env cfg operationFunc w = handleErrors_attempts env cfg operationFunc (attempts cfg) w"

subsection \<open>Orchestration driver\<close>

text \<open>\<open>getPodStatus\<close> (lines 485 to 510).\<close>

record pod_summary =
  summary_name :: string
  summary_phase :: string
  summary_ready :: bool
  summary_ip :: "string option"

record pod_status =
  status_namespace :: string
  testCaseController :: "pod_summary list"
  chromeNodes :: "pod_summary list"

definition summary :: "pod \<Rightarrow> pod_summary" where
  "summary p = \<lparr> summary_name = pod_name p, summary_phase = phase p,
                 summary_ready = isPodReady p, summary_ip = pod_ip p \<rparr>"

definition getPodStatus :: "'w env \<Rightarrow> config \<Rightarrow> 'w \<Rightarrow> pod_status \<times> 'w" where
  "getPodStatus env cfg w =
     (case getPodsByLabel env cfg (CONTROLLER_POD_LABEL cfg) w of
        (controllerPods, w1) \<Rightarrow>
          (case getPodsByLabel env cfg (CHROME_NODE_POD_LABEL cfg) w1 of
             (chromePods, w2) \<Rightarrow>
               (\<lparr> status_namespace = NAMESPACE cfg,
                   testCaseController = map summary controllerPods,
                   chromeNodes = map summary chromePods \<rparr>, w2)))"

text \<open>Line 513: \<open>nodeCount or DEFAULT_NODE_COUNT\<close>.\<close>

fun effectiveNodeCount :: "int option \<Rightarrow> int" where
  "effectiveNodeCount None = DEFAULT_NODE_COUNT"
| "effectiveNodeCount (Some n) = (if n = 0 then DEFAULT_NODE_COUNT else n)"

text \<open>The operation that \<open>run\<close> hands to the retry wrapper: \<open>deploy\<close> with its arguments.\<close>

definition deploy_operation ::
  "'w env \<Rightarrow> config \<Rightarrow> string \<Rightarrow> int \<Rightarrow> string option \<Rightarrow> 'w \<Rightarrow> outcome \<times> 'w" where
  "deploy_operation env cfg helmChartPath nodeCount valuesFile w =
     (case deploy env cfg helmChartPath nodeCount valuesFile w of
        (success, w') \<Rightarrow> (Returned (PBool success), w'))"

text \<open>
  Lines 526 to 539, step 1 of \<open>run\<close>: whether the driver goes on, and the world then.
  A skipped deployment goes on.
\<close>

definition run_deploy ::
  "'w env \<Rightarrow> config \<Rightarrow> string option \<Rightarrow> int \<Rightarrow> bool \<Rightarrow> string option \<Rightarrow> 'w \<Rightarrow> bool \<times> 'w" where
  "run_deploy env cfg helmChartPath nodeCount skipDeploy valuesFile w =
     (if \<not> skipDeploy \<and> \<not> name_missing helmChartPath then
        (case handleErrors env cfg
                (deploy_operation env cfg (name_of helmChartPath) nodeCount valuesFile) w of
           ((success, r), w') \<Rightarrow> (success, w'))
      else (True, w))"

text \<open>Lines 560 to 575, steps 4 and 5 of \<open>run\<close>.\<close>

definition run_tests :: "'w env \<Rightarrow> config \<Rightarrow> 'w \<Rightarrow> (py_error + bool) \<times> 'w" where
  "run_tests env cfg w =
     (case passTestCases env cfg w of
        (testCases, w1) \<Rightarrow>
          (case executeTests env cfg ''tests/'' None w1 of
             (Inl e, w2) \<Rightarrow> (Inl e, w2)
           | (Inr (success, out), w2) \<Rightarrow> (Inr success, w2)))"

text \<open>
  \<open>run\<close> (lines 512 to 575). \<open>None\<close> is a run that never ends; \<open>Inl\<close> is an error that
  leaves the method; \<open>Inr\<close> is the returned flag.
\<close>

definition run ::
  "'w env \<Rightarrow> config \<Rightarrow> string option \<Rightarrow> int option \<Rightarrow> bool \<Rightarrow> string option \<Rightarrow> 'w
     \<Rightarrow> ((py_error + bool) \<times> 'w) option" where
  "run env cfg helmChartPath nodeCount skipDeploy valuesFile w =
     (case run_deploy env cfg helmChartPath (effectiveNodeCount nodeCount) skipDeploy valuesFile w of
        (False, w1) \<Rightarrow> Some (Inr False, w1)
      | (True, w1) \<Rightarrow>
          (case checkReadiness env cfg (CHROME_NODE_POD_LABEL cfg) (effectiveNodeCount nodeCount) w1 of
             None \<Rightarrow> None
           | Some (False, w2) \<Rightarrow> Some (Inr False, w2)
           | Some (True, w2) \<Rightarrow>
               (case checkReadiness env cfg (CONTROLLER_POD_LABEL cfg) 1 w2 of
                  None \<Rightarrow> None
                | Some (False, w3) \<Rightarrow> Some (Inr False, w3)
                | Some (True, w3) \<Rightarrow>
                    (case getPodStatus env cfg w3 of
                       (status, w4) \<Rightarrow> Some (run_tests env cfg w4)))))"

section \<open>Vocabulary of the properties\<close>

subsection \<open>Slots of a status body\<close>

text \<open>
  The slots that a decoded status body lists, read off the body itself and not off the
  selector: the nodes of the body, the slots of a node, whether a slot holds a session.
  \<open>occupied_slots\<close> is the number of occupied slots summed over the body, and
  \<open>total_slots\<close> the number of slots of the body.
\<close>

definition slot_occupied :: "pyval \<Rightarrow> bool" where
  "slot_occupied slot = (case py_get slot ''session'' PNone of None \<Rightarrow> False | Some s \<Rightarrow> s \<noteq> PNone)"

definition node_slots :: "pyval \<Rightarrow> pyval list" where
  "node_slots node =
     (case py_get node ''slots'' (PList []) of
        None \<Rightarrow> []
      | Some slots \<Rightarrow> (case py_iter slots of None \<Rightarrow> [] | Some items \<Rightarrow> items))"

definition body_nodes :: "pyval \<Rightarrow> pyval list" where
  "body_nodes data =
     (case py_get data ''value'' (PDict []) of
        None \<Rightarrow> []
      | Some v \<Rightarrow>
          (case py_get v ''nodes'' (PList []) of
             None \<Rightarrow> []
           | Some nodes \<Rightarrow> (case py_iter nodes of None \<Rightarrow> [] | Some items \<Rightarrow> items)))"

definition occupied_slots :: "pyval \<Rightarrow> nat" where
  "occupied_slots data = sum_list (map (\<lambda>node. length (filter slot_occupied (node_slots node))) (body_nodes data))"

definition total_slots :: "pyval \<Rightarrow> nat" where
  "total_slots data = sum_list (map (\<lambda>node. length (node_slots node)) (body_nodes data))"

subsection \<open>Failing operations and attempts\<close>

text \<open>
  An operation fails when it returns a false boolean, returns a tuple whose first element
  is false, or raises.
\<close>

fun op_fails :: "outcome \<Rightarrow> bool" where
  "op_fails (Raised e) = True"
| "op_fails (Returned (PBool b)) = (\<not> b)"
| "op_fails (Returned (PTuple (x # xs))) = (\<not> py_truthy x)"
| "op_fails (Returned r) = False"

text \<open>
  \<open>attempt_world env cfg operationFunc w j\<close> is the world in which attempt \<open>j + 1\<close>
  starts when the attempts before it have failed: each of them was one call of the
  operation followed by the retry delay.
\<close>

primrec attempt_world :: "'w env \<Rightarrow> config \<Rightarrow> ('w \<Rightarrow> outcome \<times> 'w) \<Rightarrow> 'w \<Rightarrow> nat \<Rightarrow> 'w" where
  "attempt_world env cfg operationFunc w 0 = w"
| "attempt_world env cfg operationFunc w (Suc j) =
     sleep env (RETRY_DELAY cfg) (snd (operationFunc (attempt_world env cfg operationFunc w j)))"

text \<open>
  To count calls, the world gets a counter: \<open>counted operationFunc\<close> is the operation
  that also adds one to the counter, and \<open>counted_env env\<close> is the environment that
  leaves the counter alone.
\<close>

definition counted :: "('w \<Rightarrow> 'a \<times> 'w) \<Rightarrow> 'w \<times> nat \<Rightarrow> 'a \<times> ('w \<times> nat)" where
  "counted f = (\<lambda>(w, n). case f w of (r, w') \<Rightarrow> (r, (w', Suc n)))"

definition uncounted :: "('w \<Rightarrow> 'a \<times> 'w) \<Rightarrow> 'w \<times> nat \<Rightarrow> 'a \<times> ('w \<times> nat)" where
  "uncounted f = (\<lambda>(w, n). case f w of (r, w') \<Rightarrow> (r, (w', n)))"

definition counted_env :: "'w env \<Rightarrow> ('w \<times> nat) env" where
  "counted_env env =
     \<lparr> list_namespaced_pod = (\<lambda>ns label. uncounted (list_namespaced_pod env ns label)),
       pod_exec = (\<lambda>name ns command container. uncounted (pod_exec env name ns command container)),
       subprocess_run = (\<lambda>command. uncounted (subprocess_run env command)),
       path_exists = (\<lambda>path (w, n). path_exists env path w),
       now = (\<lambda>(w, n). now env w),
       sleep = (\<lambda>d (w, n). (sleep env d w, n)),
       json_loads = json_loads env \<rparr>"

subsection \<open>Test attempts\<close>

text \<open>
  An attempt of the test command succeeds when the exit code is zero, or the output
  contains \<open>passed\<close> and does not contain \<open>failed\<close>, in any letter case.
\<close>

definition attempt_succeeds :: "int \<Rightarrow> string \<Rightarrow> bool" where
  "attempt_succeeds returnCode out =
     (returnCode = 0 \<or> (py_in ''passed'' (py_lower out) \<and> \<not> py_in ''failed'' (py_lower out)))"

text \<open>
  \<open>test_world \<dots> w j\<close> is the world in which attempt \<open>j + 1\<close> of the test command starts
  when the attempts before it have failed: each was one exec followed by the retry delay.
  \<open>attempt_ok\<close> says that the exec in a given world is a successful attempt.
\<close>

primrec test_world ::
  "'w env \<Rightarrow> config \<Rightarrow> string \<Rightarrow> string list \<Rightarrow> (string \<times> string) list \<Rightarrow> 'w \<Rightarrow> nat \<Rightarrow> 'w" where
  "test_world env cfg controllerPodName command envVars w 0 = w"
| "test_world env cfg controllerPodName command envVars w (Suc j) =
     sleep env (RETRY_DELAY cfg)
       (snd (execInPod env cfg controllerPodName command None (Some envVars)
               (test_world env cfg controllerPodName command envVars w j)))"

definition attempt_ok ::
  "'w env \<Rightarrow> config \<Rightarrow> string \<Rightarrow> string list \<Rightarrow> (string \<times> string) list \<Rightarrow> 'w \<Rightarrow> bool" where
  "attempt_ok env cfg controllerPodName command envVars w =
     (case execInPod env cfg controllerPodName command None (Some envVars) w of
        ((returnCode, out, err), w') \<Rightarrow> attempt_succeeds returnCode out)"

subsection \<open>Rounds of the readiness poller\<close>

text \<open>
  \<open>poll_world \<dots> w j\<close> is the world in which round \<open>j + 1\<close> of the poller starts when
  the rounds before it did not end the loop: each was one listing of the pods followed by
  the sleep of one poll interval. \<open>in_window\<close> is the guard of the loop, the elapsed time
  being below the timeout; \<open>ready_count\<close> is the number of ready pods that the poll in a
  given world finds.
\<close>

primrec poll_world :: "'w env \<Rightarrow> config \<Rightarrow> string \<Rightarrow> 'w \<Rightarrow> nat \<Rightarrow> 'w" where
  "poll_world env cfg labelSelector w 0 = w"
| "poll_world env cfg labelSelector w (Suc j) =
     sleep env (READINESS_CHECK_INTERVAL cfg)
       (snd (getPodsByLabel env cfg labelSelector (poll_world env cfg labelSelector w j)))"

definition in_window :: "'w env \<Rightarrow> config \<Rightarrow> real \<Rightarrow> 'w \<Rightarrow> bool" where
  "in_window env cfg startTime w = (now env w - startTime < real_of_int (READINESS_TIMEOUT cfg))"

definition ready_count :: "'w env \<Rightarrow> config \<Rightarrow> string \<Rightarrow> 'w \<Rightarrow> int" where
  "ready_count env cfg labelSelector w =
     int (length (filter isPodReady (fst (getPodsByLabel env cfg labelSelector w))))"

text \<open>
  What a result \<open>y\<close> of the loop started in \<open>w\<close> says about the rounds: there is a round
  \<open>k + 1\<close> that all rounds before it lead to, and that ends the loop with \<open>y\<close>.
\<close>

definition poll_outcome ::
  "'w env \<Rightarrow> config \<Rightarrow> string \<Rightarrow> int \<Rightarrow> real \<Rightarrow> 'w \<Rightarrow> bool \<times> 'w \<Rightarrow> bool" where
  "poll_outcome env cfg labelSelector minReady startTime w y =
     (\<exists>k. (\<forall>j<k. in_window env cfg startTime (poll_world env cfg labelSelector w j)
                   \<and> ready_count env cfg labelSelector (poll_world env cfg labelSelector w j) < minReady)
          \<and> (if fst y
              then in_window env cfg startTime (poll_world env cfg labelSelector w k)
                     \<and> ready_count env cfg labelSelector (poll_world env cfg labelSelector w k) \<ge> minReady
                     \<and> snd y = snd (getPodsByLabel env cfg labelSelector (poll_world env cfg labelSelector w k))
              else \<not> in_window env cfg startTime (poll_world env cfg labelSelector w k)
                     \<and> snd y = poll_world env cfg labelSelector w k))"

subsection \<open>Rounds of the test collection\<close>

text \<open>
  \<open>collect_round env cfg w\<close> is what one round of the collection loop sees in the world
  \<open>w\<close>: the output of the collection command, or nothing when the controller pod is
  missing, and the world after it. \<open>collect_world env cfg w j\<close> is the world in which
  round \<open>j + 1\<close> starts when the rounds before it found no test: each was one such round
  followed by the retry delay. \<open>round_empty\<close> says that the round in a given world finds
  no test identifier.
\<close>

definition collect_round :: "'w env \<Rightarrow> config \<Rightarrow> 'w \<Rightarrow> string option \<times> 'w" where
  "collect_round env cfg w =
     (case getPodName env cfg (CONTROLLER_POD_LABEL cfg) w of
        (controllerPodName, w1) \<Rightarrow>
          if name_missing controllerPodName then (None, w1)
          else (case execInPod env cfg (name_of controllerPodName) collectCommand None None w1 of
                  ((returnCode, out, err), w2) \<Rightarrow> (Some out, w2)))"

primrec collect_world :: "'w env \<Rightarrow> config \<Rightarrow> 'w \<Rightarrow> nat \<Rightarrow> 'w" where
  "collect_world env cfg w 0 = w"
| "collect_world env cfg w (Suc j) =
     sleep env (RETRY_DELAY cfg) (snd (collect_round env cfg (collect_world env cfg w j)))"

definition round_empty :: "'w env \<Rightarrow> config \<Rightarrow> 'w \<Rightarrow> bool" where
  "round_empty env cfg w =
     (case fst (collect_round env cfg w) of
        None \<Rightarrow> True
      | Some out \<Rightarrow> collect_test_ids out = [])"

subsection \<open>Commands run\<close>

text \<open>
  To see which commands a run hands to \<open>subprocess.run\<close>, the world gets a log of them:
  \<open>logging_env env\<close> is the environment \<open>env\<close> that also appends each command it is asked
  to run to the log, and leaves the log alone otherwise.
\<close>

definition logging_env :: "'w env \<Rightarrow> ('w \<times> string list list) env" where
  "logging_env env =
     \<lparr> list_namespaced_pod =
         (\<lambda>ns label (w, cmds). case list_namespaced_pod env ns label w of (r, w') \<Rightarrow> (r, (w', cmds))),
       pod_exec =
         (\<lambda>name ns command container (w, cmds).
            case pod_exec env name ns command container w of (r, w') \<Rightarrow> (r, (w', cmds))),
       subprocess_run =
         (\<lambda>command (w, cmds). case subprocess_run env command w of (r, w') \<Rightarrow> (r, (w', cmds @ [command]))),
       path_exists = (\<lambda>path (w, cmds). path_exists env path w),
       now = (\<lambda>(w, cmds). now env w),
       sleep = (\<lambda>d (w, cmds). (sleep env d w, cmds)),
       json_loads = json_loads env \<rparr>"

section \<open>A small cluster\<close>

text \<open>
  A concrete world for the examples: one controller pod, a list of worker pods, a table
  of replies of the exec channel by command line, and a table that stands for the JSON
  decoder on the bodies used (they are written without the quotation marks of JSON).
  Nothing changes in this world, so its state is the unit value.
\<close>

definition controller_pod :: pod where
  "controller_pod = \<lparr> pod_name = ''test-case-controller-0'', phase = ''Running'',
                       container_statuses = Some [True], pod_ip = Some ''10.0.0.2'' \<rparr>"

definition worker :: "string \<Rightarrow> bool \<Rightarrow> pod" where
  "worker name up = \<lparr> pod_name = name, phase = ''Running'',
                       container_statuses = Some [up], pod_ip = None \<rparr>"

definition probe_line :: "string \<Rightarrow> string" where
  "probe_line name =
     py_join '' '' (curlCommand (getChromeNodeDns default_config name) 4444)"

definition fleet_env :: "pod list \<Rightarrow> (string \<times> exec_outcome) list \<Rightarrow> (string \<times> pyval) list \<Rightarrow> unit env" where
  "fleet_env workers replies bodies =
     \<lparr> list_namespaced_pod =
         (\<lambda>ns label w.
            (if label = ''app=test-case-controller'' then Pod_Items [controller_pod]
             else if label = ''app=chrome-node'' then Pod_Items workers
             else Api_Exception ''no such label'', w)),
       pod_exec =
         (\<lambda>name ns command container w.
            (case command of
               [sh, c, line] \<Rightarrow>
                 (case map_of replies line of
                    Some r \<Rightarrow> r
                  | None \<Rightarrow> Exec_Raised ''connection refused'')
             | _ \<Rightarrow> Exec_Raised ''connection refused'', w)),
       subprocess_run = (\<lambda>command w. (Proc_Done 0 [] [], w)),
       path_exists = (\<lambda>path w. True),
       now = (\<lambda>w. 0),
       sleep = (\<lambda>d w. w),
       json_loads = map_of bodies \<rparr>"

definition body_of_slots :: "pyval list \<Rightarrow> pyval" where
  "body_of_slots slots =
     PDict [(''value'', PDict [(''ready'', PBool True), (''nodes'', PList [PDict [(''slots'', PList slots)]])])]"

definition body_no_nodes :: pyval where
  "body_no_nodes = PDict [(''value'', PDict [(''ready'', PBool True), (''nodes'', PList [])])]"

definition busy_slot :: pyval where
  "busy_slot = PDict [(''session'', PDict [(''sessionId'', PStr ''4f2a'')])]"

definition free_slot :: pyval where
  "free_slot = PDict [(''session'', PNone)]"

definition bodies :: "(string \<times> pyval) list" where
  "bodies =
     [(''{value: {ready: true, nodes: []}}'', body_no_nodes),
      (''{value: {ready: true, nodes: [{slots: [{session: {sessionId: 4f2a}}]}]}}'', body_of_slots [busy_slot]),
      (''{value: {ready: true, nodes: [{slots: [{session: null}]}]}}'', body_of_slots [free_slot])]"

definition no_nodes_env :: "unit env" where
  "no_nodes_env =
     fleet_env [worker ''chrome-node-0'' True]
       [(probe_line ''chrome-node-0'', Exec_Done (Some 0) ''{value: {ready: true, nodes: []}}'' [])]
       bodies"

definition pod_full :: pod where "pod_full = worker ''chrome-node-0'' True"

definition pod_free :: pod where "pod_free = worker ''chrome-node-1'' True"

definition pod_down :: pod where "pod_down = worker ''chrome-node-2'' False"

definition scenario_env :: "pod list \<Rightarrow> unit env" where
  "scenario_env workers =
     fleet_env workers
       [(probe_line ''chrome-node-0'',
           Exec_Done (Some 0) ''{value: {ready: true, nodes: [{slots: [{session: {sessionId: 4f2a}}]}]}}'' []),
        (probe_line ''chrome-node-1'',
           Exec_Done (Some 0) ''{value: {ready: true, nodes: [{slots: [{session: null}]}]}}'' [])]
       bodies"

text \<open>
  A world without a cluster, whose state is the number of calls of an operation, and two
  operations on it: one fails twice and then succeeds, the other always raises.
\<close>

definition idle_env :: "'w env" where
  "idle_env =
     \<lparr> list_namespaced_pod = (\<lambda>ns label w. (Api_Exception ''no cluster'', w)),
       pod_exec = (\<lambda>name ns command container w. (Exec_Raised ''no cluster'', w)),
       subprocess_run = (\<lambda>command w. (Proc_Raised ''no helm'', w)),
       path_exists = (\<lambda>path w. False),
       now = (\<lambda>w. 0),
       sleep = (\<lambda>d w. w),
       json_loads = (\<lambda>s. None) \<rparr>"

definition third_time_lucky :: "nat \<Rightarrow> outcome \<times> nat" where
  "third_time_lucky n =
     (if n = 0 then Returned (PBool False)
      else if n = 1 then Returned (PTuple [PBool False, PStr ''not yet''])
      else Returned (PTuple [PBool True, PStr ''done'']), Suc n)"

definition always_raises :: "nat \<Rightarrow> outcome \<times> nat" where
  "always_raises n = (Raised ''boom'', Suc n)"

text \<open>
  The small cluster with one free worker, where the test command gets a given reply.
  \<open>test_line\<close> is the shell line of the test command, and \<open>test_env_vars\<close> the
  environment variables that \<open>executeTests\<close> passes along.
\<close>

definition test_env_vars :: "string \<Rightarrow> (string \<times> string) list" where
  "test_env_vars name =
     [(''HEADLESS'', ''true''), (''REMOTE_URL'', ''http://'' @ getChromeNodeDns default_config name @ '':4444'')]"

definition test_line :: "string \<Rightarrow> string" where
  "test_line name =
     ''HEADLESS=true REMOTE_URL=http://'' @ getChromeNodeDns default_config name @ '':4444 ''
       @ py_join '' '' (testCommand ''tests/'' None)"

definition tests_env :: "exec_outcome \<Rightarrow> unit env" where
  "tests_env reply =
     fleet_env [worker ''chrome-node-1'' True]
       [(probe_line ''chrome-node-1'',
           Exec_Done (Some 0) ''{value: {ready: true, nodes: [{slots: [{session: null}]}]}}'' []),
        (test_line ''chrome-node-1'', reply)]
       bodies"

text \<open>
  A world that is a clock, in seconds: a listing of pods takes a given time and gives a
  given list of pods, whatever the label; a sleep takes exactly the time asked for.
\<close>

definition clock_env :: "int \<Rightarrow> pod list \<Rightarrow> int env" where
  "clock_env listing_time pods =
     \<lparr> list_namespaced_pod = (\<lambda>ns label w. (Pod_Items pods, w + listing_time)),
       pod_exec = (\<lambda>name ns command container w. (Exec_Raised ''no cluster'', w)),
       subprocess_run = (\<lambda>command w. (Proc_Raised ''no helm'', w)),
       path_exists = (\<lambda>path w. False),
       now = (\<lambda>w. real_of_int w),
       sleep = (\<lambda>d w. w + d),
       json_loads = (\<lambda>s. None) \<rparr>"

text \<open>
  The small cluster with one free worker, where the collection command and the test
  command get given replies. Helm succeeds at once in this world.
\<close>

definition run_env :: "exec_outcome \<Rightarrow> exec_outcome \<Rightarrow> unit env" where
  "run_env collected tested =
     fleet_env [worker ''chrome-node-1'' True]
       [(probe_line ''chrome-node-1'',
           Exec_Done (Some 0) ''{value: {ready: true, nodes: [{slots: [{session: null}]}]}}'' []),
        (py_join '' '' collectCommand, collected),
        (test_line ''chrome-node-1'', tested)]
       bodies"


text \<open>
  The clock world once more, now with Helm: the chart \<open>./helm/insider-testops\<close> is the
  only path that exists, every command succeeds at once, and every listing gives the
  given pods.
\<close>

definition helm_clock_env :: "pod list \<Rightarrow> int env" where
  "helm_clock_env pods =
     \<lparr> list_namespaced_pod = (\<lambda>ns label w. (Pod_Items pods, w)),
       pod_exec = (\<lambda>name ns command container w. (Exec_Raised ''no cluster'', w)),
       subprocess_run = (\<lambda>command w. (Proc_Done 0 ''Release has been upgraded'' [], w)),
       path_exists = (\<lambda>path w. path = ''./helm/insider-testops''),
       now = (\<lambda>w. real_of_int w),
       sleep = (\<lambda>d w. w + d),
       json_loads = (\<lambda>s. None) \<rparr>"

section \<open>Properties\<close>

subsection \<open>Strings\<close>

lemma py_startswith_iff: "py_startswith s p \<longleftrightarrow> (\<exists>post. s = p @ post)"
  by (induction s p rule: py_startswith.induct) auto

lemma py_in_iff: "py_in needle s \<longleftrightarrow> (\<exists>pre post. s = pre @ needle @ post)"
proof (induction s)
  case Nil
  then show ?case by auto
next
  case (Cons c cs)
  show ?case
  proof
    assume "py_in needle (c # cs)"
    then consider "py_startswith (c # cs) needle" | "py_in needle cs" by auto
    then show "\<exists>pre post. c # cs = pre @ needle @ post"
    proof cases
      case 1
      then obtain post where "c # cs = [] @ needle @ post" by (auto simp: py_startswith_iff)
      then show ?thesis by blast
    next
      case 2
      with Cons.IH obtain pre post where "cs = pre @ needle @ post" by blast
      then have "c # cs = (c # pre) @ needle @ post" by simp
      then show ?thesis by blast
    qed
  next
    assume "\<exists>pre post. c # cs = pre @ needle @ post"
    then obtain pre post where e: "c # cs = pre @ needle @ post" by blast
    show "py_in needle (c # cs)"
    proof (cases pre)
      case Nil
      with e have "py_startswith (c # cs) needle" by (auto simp: py_startswith_iff)
      then show ?thesis by simp
    next
      case (Cons d pre')
      with e have "cs = pre' @ needle @ post" by simp
      with Cons.IH have "py_in needle cs" by blast
      then show ?thesis by simp
    qed
  qed
qed

lemma py_in_lower: "py_in a b \<Longrightarrow> py_in (py_lower a) (py_lower b)"
  unfolding py_in_iff py_lower_def by (metis map_append)

lemma py_in_trans: "py_in a b \<Longrightarrow> py_in b c \<Longrightarrow> py_in a c"
  unfolding py_in_iff by (metis append.assoc)
lemma py_isspace_codes:
  "py_isspace c \<longleftrightarrow> of_char c \<in> {9, 10, 11, 12, 13, 28, 29, 30, 31, 32, 133, 160 :: nat}"
  by (auto simp: py_isspace_def Let_def)

lemma py_strip_spec:
  "\<exists>l r. line = l @ py_strip line @ r
         \<and> (\<forall>c\<in>set l. py_isspace c) \<and> (\<forall>c\<in>set r. py_isspace c)
         \<and> (py_strip line \<noteq> [] \<longrightarrow> \<not> py_isspace (hd (py_strip line)) \<and> \<not> py_isspace (last (py_strip line)))"
proof -
  define m where "m = dropWhile py_isspace line"
  define d where "d = dropWhile py_isspace (rev m)"
  define t where "t = takeWhile py_isspace (rev m)"
  have s: "py_strip line = rev d" by (simp add: py_strip_def d_def m_def)
  have "rev m = t @ d" by (simp add: t_def d_def)
  then have m: "m = rev d @ rev t" by (metis rev_append rev_rev_ident)
  have line: "line = takeWhile py_isspace line @ rev d @ rev t"
    unfolding m[symmetric] m_def by simp
  have l: "\<forall>c\<in>set (takeWhile py_isspace line). py_isspace c"
    by (auto dest: set_takeWhileD)
  have r: "\<forall>c\<in>set (rev t). py_isspace c"
    by (auto simp: t_def dest: set_takeWhileD)
  have ends: "\<not> py_isspace (hd (rev d)) \<and> \<not> py_isspace (last (rev d))" if "rev d \<noteq> []"
  proof -
    from that have d: "d \<noteq> []" by simp
    then have "\<not> py_isspace (hd d)" unfolding d_def by (rule hd_dropWhile)
    then have la: "\<not> py_isspace (last (rev d))" using d by (simp add: last_rev)
    from d m have "m \<noteq> []" by simp
    then have "\<not> py_isspace (hd m)" unfolding m_def by (rule hd_dropWhile)
    moreover have "hd m = hd (rev d)" using m that by simp
    ultimately show ?thesis using la by simp
  qed
  from line l r ends show ?thesis unfolding s by blast
qed

lemma py_split_lines_nonempty: "py_split_lines s \<noteq> []"
  by (cases s) (auto split: list.splits)

lemma py_split_lines_spec:
  "py_join [CHR 0x0A] (py_split_lines out) = out \<and> (\<forall>l\<in>set (py_split_lines out). CHR 0x0A \<notin> set l)"
proof (induction out)
  case Nil
  then show ?case by simp
next
  case (Cons c cs)
  obtain l ls where s: "py_split_lines cs = l # ls"
    using py_split_lines_nonempty[of cs] by (cases "py_split_lines cs") auto
  show ?case
  proof (cases "c = CHR 0x0A")
    case True
    with Cons s show ?thesis by simp
  next
    case False
    with Cons s show ?thesis by (cases ls) auto
  qed
qed

lemma collect_test_ids_spec:
  "collect_test_ids out
     = filter (\<lambda>line. (\<exists>pre post. line = pre @ ''::'' @ post)
                     \<and> (\<forall>rest. line \<noteq> CHR ''='' # rest \<and> line \<noteq> CHR ''-'' # rest \<and> line \<noteq> CHR '' '' # rest))
         (map py_strip (py_split_lines out))"
  unfolding collect_test_ids_def
  by (rule filter_cong[OF refl]) (auto simp: py_in_iff py_startswith_iff)

lemma py_lower_char_other:
  assumes "(of_char c :: nat) < 65 \<or> (90 < (of_char c :: nat) \<and> (of_char c :: nat) < 192)"
  shows "py_lower_char c = c"
proof -
  have "c \<notin> set upper_case" using assms by (auto simp: upper_case_def)
  moreover have "length upper_case = length lower_case" by (simp add: upper_case_def lower_case_def)
  ultimately have "map_of (zip upper_case lower_case) c = None" by (simp add: map_of_zip_is_None)
  then show ?thesis by (simp add: py_lower_char_def)
qed

lemma py_lower_char_upper:
  "py_lower_char CHR ''A'' = CHR ''a''" "py_lower_char CHR ''B'' = CHR ''b''"
  "py_lower_char CHR ''C'' = CHR ''c''" "py_lower_char CHR ''D'' = CHR ''d''"
  "py_lower_char CHR ''E'' = CHR ''e''" "py_lower_char CHR ''F'' = CHR ''f''"
  "py_lower_char CHR ''G'' = CHR ''g''" "py_lower_char CHR ''H'' = CHR ''h''"
  "py_lower_char CHR ''I'' = CHR ''i''" "py_lower_char CHR ''J'' = CHR ''j''"
  "py_lower_char CHR ''K'' = CHR ''k''" "py_lower_char CHR ''L'' = CHR ''l''"
  "py_lower_char CHR ''M'' = CHR ''m''" "py_lower_char CHR ''N'' = CHR ''n''"
  "py_lower_char CHR ''O'' = CHR ''o''" "py_lower_char CHR ''P'' = CHR ''p''"
  "py_lower_char CHR ''Q'' = CHR ''q''" "py_lower_char CHR ''R'' = CHR ''r''"
  "py_lower_char CHR ''S'' = CHR ''s''" "py_lower_char CHR ''T'' = CHR ''t''"
  "py_lower_char CHR ''U'' = CHR ''u''" "py_lower_char CHR ''V'' = CHR ''v''"
  "py_lower_char CHR ''W'' = CHR ''w''" "py_lower_char CHR ''X'' = CHR ''x''"
  "py_lower_char CHR ''Y'' = CHR ''y''" "py_lower_char CHR ''Z'' = CHR ''z''"
  by (simp_all add: py_lower_char_def upper_case_def lower_case_def)

lemmas py_lower_simps = py_lower_def py_lower_char_other py_lower_char_upper

subsection \<open>Node selector\<close>

lemma count_sessions_eq:
  "count_sessions items a = Some a' \<Longrightarrow> a' = a + length (filter slot_occupied items)"
proof (induction items arbitrary: a)
  case Nil
  then show ?case by simp
next
  case (Cons slot rest)
  from Cons.prems obtain s where
    g: "py_get slot ''session'' PNone = Some s" and
    r: "count_sessions rest (if s \<noteq> PNone then a + 1 else a) = Some a'"
    by (auto split: option.splits)
  have occ: "slot_occupied slot = (s \<noteq> PNone)" using g by (simp add: slot_occupied_def)
  from Cons.IH[OF r] occ show ?case by simp
qed

lemma py_len_iter: "py_len v = Some n \<Longrightarrow> py_iter v = Some items \<Longrightarrow> length items = n"
  by (cases v) auto

lemma scan_nodes_eq:
  "scan_nodes nodes (a, m) = Some (a', m') \<Longrightarrow>
     a' = a + sum_list (map (\<lambda>node. length (filter slot_occupied (node_slots node))) nodes)
     \<and> m' = (if nodes = [] then m else length (node_slots (last nodes)))"
proof (induction nodes arbitrary: a m)
  case Nil
  then show ?case by simp
next
  case (Cons node rest)
  from Cons.prems obtain slots n items a1 where
    s: "py_get node ''slots'' (PList []) = Some slots" and
    n: "py_len slots = Some n" and
    i: "py_iter slots = Some items" and
    c: "count_sessions items a = Some a1" and
    r: "scan_nodes rest (a1, n) = Some (a', m')"
    by (auto simp: bind_eq_Some_conv)
  have ns: "node_slots node = items" using s i by (simp add: node_slots_def)
  have len: "length items = n" using n i by (rule py_len_iter)
  from Cons.IH[OF r] count_sessions_eq[OF c] ns len show ?case by auto
qed

lemma last_le_sum: "nodes \<noteq> [] \<Longrightarrow> f (last nodes) \<le> sum_list (map f nodes)" for f :: "'a \<Rightarrow> nat"
  by (induction nodes) auto

lemma status_of_body_facts:
  assumes "status_of_body data = Some st"
  shows "sessions st = occupied_slots data"
    and "maxSessions st = (if body_nodes data = [] then 1 else length (node_slots (last (body_nodes data))))"
    and "body_nodes data \<noteq> [] \<Longrightarrow> maxSessions st \<le> total_slots data"
    and "py_truthy (available st) \<longleftrightarrow> py_truthy (ready st) \<and> sessions st < maxSessions st"
proof -
  from assms obtain v rdy nodes items a m where
    v: "py_get data ''value'' (PDict []) = Some v" and
    rd: "py_get v ''ready'' (PBool False) = Some rdy" and
    nd: "py_get v ''nodes'' (PList []) = Some nodes" and
    it: "py_iter nodes = Some items" and
    sc: "scan_nodes items (0, 1) = Some (a, m)" and
    st: "st = \<lparr> available = py_and rdy (PBool (a < m)), ready = rdy, sessions = a, maxSessions = m \<rparr>"
    by (auto simp: status_of_body_def bind_eq_Some_conv)
  have bn: "body_nodes data = items" using v nd it by (simp add: body_nodes_def)
  note sn = scan_nodes_eq[OF sc]
  show "sessions st = occupied_slots data" using sn st bn by (simp add: occupied_slots_def)
  show m: "maxSessions st = (if body_nodes data = [] then 1 else length (node_slots (last (body_nodes data))))"
    using sn st bn by simp
  show "body_nodes data \<noteq> [] \<Longrightarrow> maxSessions st \<le> total_slots data"
    using m last_le_sum[of "body_nodes data" "\<lambda>node. length (node_slots node)"] by (simp add: total_slots_def)
  show "py_truthy (available st) \<longleftrightarrow> py_truthy (ready st) \<and> sessions st < maxSessions st"
    using st by (simp add: py_and_def)
qed

lemma checkChromeNodeStatus_available:
  assumes "checkChromeNodeStatus env cfg dnsName ctrl port w = (st, w')" "py_truthy (available st)"
  shows "\<exists>out err data.
           execInPod env cfg ctrl
             (curlCommand dnsName port)
             None None w = ((0, out, err), w')
           \<and> py_strip out \<noteq> [] \<and> json_loads env out = Some data \<and> status_of_body data = Some st"
  using assms
  by (auto simp: checkChromeNodeStatus_def unavailable_status_def split: prod.splits if_splits option.splits)

lemma scanChromeNodes_Some:
  "scanChromeNodes env cfg ctrl pods w = (Some dns, w') \<Longrightarrow>
     \<exists>p\<in>set pods. \<exists>w1 st. isPodReady p \<and> dns = getChromeNodeDns cfg (pod_name p)
        \<and> checkChromeNodeStatus env cfg dns ctrl 4444 w1 = (st, w') \<and> py_truthy (available st)"
proof (induction pods arbitrary: w)
  case Nil
  then show ?case by simp
next
  case (Cons p rest)
  show ?case
  proof (cases "isPodReady p")
    case False
    with Cons.prems have "scanChromeNodes env cfg ctrl rest w = (Some dns, w')" by simp
    from Cons.IH[OF this] show ?thesis by auto
  next
    case True
    obtain st w1 where c: "checkChromeNodeStatus env cfg (getChromeNodeDns cfg (pod_name p)) ctrl 4444 w = (st, w1)"
      by (cases "checkChromeNodeStatus env cfg (getChromeNodeDns cfg (pod_name p)) ctrl 4444 w")
    show ?thesis
    proof (cases "py_truthy (available st)")
      case True
      with Cons.prems \<open>isPodReady p\<close> c have "dns = getChromeNodeDns cfg (pod_name p)" "w' = w1"
        by (simp_all add: Let_def)
      with c True \<open>isPodReady p\<close> show ?thesis by auto
    next
      case False
      with Cons.prems \<open>isPodReady p\<close> c have "scanChromeNodes env cfg ctrl rest w1 = (Some dns, w')"
        by (simp add: Let_def)
      from Cons.IH[OF this] show ?thesis by auto
    qed
  qed
qed

lemmas scenario_defs =
  getPodName_def getPodsByLabel_def fleet_env_def
  default_config_def controller_pod_def worker_def isPodReady_def getChromeNodeDns_def
  checkChromeNodeStatus_def curlCommand_def execInPod_def probe_line_def str_int_def digit_char_def
  py_strip_def py_isspace_def bodies_def body_no_nodes_def body_of_slots_def busy_slot_def free_slot_def
  status_of_body_def py_and_def unavailable_status_def

lemma getAvailableChromeNode_scan:
  assumes "getPodName env cfg (CONTROLLER_POD_LABEL cfg) w = (Some ctrl, w1)" "ctrl \<noteq> []"
    and "getPodsByLabel env cfg (CHROME_NODE_POD_LABEL cfg) w1 = (pods, w2)"
  shows "getAvailableChromeNode env cfg w = scanChromeNodes env cfg ctrl pods w2"
  using assms by (simp add: getAvailableChromeNode_def)

lemma scanChromeNodes_append_None:
  "scanChromeNodes env cfg ctrl pre w = (None, w1) \<Longrightarrow>
     scanChromeNodes env cfg ctrl (pre @ rest) w = scanChromeNodes env cfg ctrl rest w1"
  by (induction pre arbitrary: w) (auto simp: Let_def split: prod.splits if_splits)

lemma scanChromeNodes_first_fit:
  assumes "scanChromeNodes env cfg ctrl pre w = (None, w1)" "isPodReady p"
    and "checkChromeNodeStatus env cfg (getChromeNodeDns cfg (pod_name p)) ctrl 4444 w1 = (st, w2)"
    and "py_truthy (available st)"
  shows "scanChromeNodes env cfg ctrl (pre @ p # post) w = (Some (getChromeNodeDns cfg (pod_name p)), w2)"
  using assms by (simp add: scanChromeNodes_append_None Let_def)

lemma scanChromeNodes_none:
  "(\<forall>p\<in>set pods. \<forall>w1. isPodReady p \<longrightarrow>
       \<not> py_truthy (available (fst (checkChromeNodeStatus env cfg (getChromeNodeDns cfg (pod_name p)) ctrl 4444 w1))))
    \<Longrightarrow> fst (scanChromeNodes env cfg ctrl pods w) = None"
proof (induction pods arbitrary: w)
  case Nil
  then show ?case by simp
next
  case (Cons p rest)
  obtain st w1 where c: "checkChromeNodeStatus env cfg (getChromeNodeDns cfg (pod_name p)) ctrl 4444 w = (st, w1)"
    by (cases "checkChromeNodeStatus env cfg (getChromeNodeDns cfg (pod_name p)) ctrl 4444 w")
  have rest: "fst (scanChromeNodes env cfg ctrl rest w') = None" for w'
    using Cons.IH Cons.prems by simp
  show ?case
  proof (cases "isPodReady p")
    case True
    with Cons.prems have "\<not> py_truthy (available (fst (checkChromeNodeStatus env cfg (getChromeNodeDns cfg (pod_name p)) ctrl 4444 w)))"
      by simp
    with c have "\<not> py_truthy (available st)" by simp
    with True c rest show ?thesis by (simp add: Let_def)
  next
    case False
    with rest show ?thesis by simp
  qed
qed

lemma probe_failure_unavailable:
  assumes "execInPod env cfg ctrl
             (curlCommand dnsName port)
             None None w = ((rc, out, err), w')"
    and "rc \<noteq> 0 \<or> py_strip out = [] \<or> Option.bind (json_loads env out) status_of_body = None"
  shows "checkChromeNodeStatus env cfg dnsName ctrl port w = (unavailable_status, w')"
  using assms by (auto simp: checkChromeNodeStatus_def bind_eq_None_conv split: option.splits)

lemma exec_raised:
  assumes "pod_exec env podName (NAMESPACE cfg) [''/bin/sh'', ''-c'', py_join '' '' command] None w = (Exec_Raised e, w')"
  shows "execInPod env cfg podName command None None w = ((1, [], e), w')"
  using assms by (simp add: execInPod_def)

lemma scenario_status:
  "checkChromeNodeStatus (scenario_env ps0) default_config
      (getChromeNodeDns default_config ''chrome-node-0'') ''test-case-controller-0'' 4444 ()
     = (\<lparr> available = PBool False, ready = PBool True, sessions = 1, maxSessions = 1 \<rparr>, ())"
  "checkChromeNodeStatus (scenario_env ps0) default_config
      (getChromeNodeDns default_config ''chrome-node-1'') ''test-case-controller-0'' 4444 ()
     = (\<lparr> available = PBool True, ready = PBool True, sessions = 0, maxSessions = 1 \<rparr>, ())"
  by (simp_all add: scenario_env_def scenario_defs)

lemma scenario_scan:
  "set ps \<subseteq> {pod_full, pod_free, pod_down} \<Longrightarrow>
     scanChromeNodes (scenario_env ps0) default_config ''test-case-controller-0'' ps ()
       = (if pod_free \<in> set ps then Some (getChromeNodeDns default_config ''chrome-node-1'') else None, ())"
proof (induction ps)
  case Nil
  then show ?case by simp
next
  case (Cons p rest)
  then consider "p = pod_full" | "p = pod_free" | "p = pod_down" by auto
  then show ?case
  proof cases
    case 1
    have "isPodReady pod_full" "pod_name pod_full = ''chrome-node-0''" "pod_full \<noteq> pod_free"
      by (simp_all add: pod_full_def pod_free_def worker_def isPodReady_def)
    with 1 Cons show ?thesis by (simp add: scenario_status)
  next
    case 2
    have "isPodReady pod_free" "pod_name pod_free = ''chrome-node-1''"
      by (simp_all add: pod_free_def worker_def isPodReady_def)
    with 2 Cons show ?thesis by (simp add: scenario_status)
  next
    case 3
    have "\<not> isPodReady pod_down" "pod_down \<noteq> pod_free"
      by (simp_all add: pod_down_def pod_free_def worker_def isPodReady_def)
    with 3 Cons show ?thesis by simp
  qed
qed

lemma scenario_select:
  assumes "set ps \<subseteq> {pod_full, pod_free, pod_down}" "pod_free \<in> set ps"
  shows "getAvailableChromeNode (scenario_env ps) default_config ()
           = (Some (getChromeNodeDns default_config ''chrome-node-1''), ())"
proof -
  have "getAvailableChromeNode (scenario_env ps) default_config ()
          = scanChromeNodes (scenario_env ps) default_config ''test-case-controller-0'' ps ()"
    by (rule getAvailableChromeNode_scan)
       (simp_all add: scenario_env_def getPodName_def getPodsByLabel_def fleet_env_def default_config_def controller_pod_def)
  with assms show ?thesis by (simp add: scenario_scan)
qed

lemma getAvailableChromeNode_Some:
  assumes "getAvailableChromeNode env cfg w = (Some dns, w')"
  shows "\<exists>ctrl w1 pods w2. getPodName env cfg (CONTROLLER_POD_LABEL cfg) w = (Some ctrl, w1) \<and> ctrl \<noteq> []
           \<and> getPodsByLabel env cfg (CHROME_NODE_POD_LABEL cfg) w1 = (pods, w2)
           \<and> scanChromeNodes env cfg ctrl pods w2 = (Some dns, w')"
proof -
  obtain c w1 where c: "getPodName env cfg (CONTROLLER_POD_LABEL cfg) w = (c, w1)"
    by (cases "getPodName env cfg (CONTROLLER_POD_LABEL cfg) w")
  obtain pods w2 where p: "getPodsByLabel env cfg (CHROME_NODE_POD_LABEL cfg) w1 = (pods, w2)"
    by (cases "getPodsByLabel env cfg (CHROME_NODE_POD_LABEL cfg) w1")
  from assms c have nm: "\<not> name_missing c"
    by (auto simp: getAvailableChromeNode_def)
  then obtain ctrl where ctrl: "c = Some ctrl" "ctrl \<noteq> []" by (cases c) auto
  from assms c p nm ctrl have "scanChromeNodes env cfg ctrl pods w2 = (Some dns, w')"
    by (auto simp: getAvailableChromeNode_def split: if_splits)
  with c p ctrl show ?thesis by blast
qed

text \<open>
  C1, as amended. Whenever the node selector returns a node, that node is the DNS name of
  a listed worker pod that is cluster-ready (phase Running, all containers ready); its
  probe ended with exit code zero and a body that decodes; the body says ready; and the
  number of active sessions, which is the number of occupied slots summed over the body,
  is below the capacity that the selector computes: the number of slots of the last node
  of the body, or 1 when the body lists no node. When the body lists at least one node,
  the number of occupied slots is also below the total number of slots of the body.
\<close>

theorem selector_returns_ready_pod_with_room:
  assumes "getAvailableChromeNode env cfg w = (Some dns, w')"
  shows "\<exists>ctrl w1 pods w2 p w3 out err data st.
           getPodName env cfg (CONTROLLER_POD_LABEL cfg) w = (Some ctrl, w1)
         \<and> getPodsByLabel env cfg (CHROME_NODE_POD_LABEL cfg) w1 = (pods, w2)
         \<and> p \<in> set pods \<and> isPodReady p \<and> dns = getChromeNodeDns cfg (pod_name p)
         \<and> execInPod env cfg ctrl (curlCommand dns 4444) None None w3 = ((0, out, err), w')
         \<and> json_loads env out = Some data \<and> status_of_body data = Some st
         \<and> py_truthy (ready st)
         \<and> sessions st = occupied_slots data
         \<and> sessions st < maxSessions st
         \<and> maxSessions st = (if body_nodes data = [] then 1 else length (node_slots (last (body_nodes data))))
         \<and> (body_nodes data \<noteq> [] \<longrightarrow> occupied_slots data < total_slots data)"
proof -
  from getAvailableChromeNode_Some[OF assms] obtain ctrl w1 pods w2 where
    c: "getPodName env cfg (CONTROLLER_POD_LABEL cfg) w = (Some ctrl, w1)" and
    p: "getPodsByLabel env cfg (CHROME_NODE_POD_LABEL cfg) w1 = (pods, w2)" and
    sc: "scanChromeNodes env cfg ctrl pods w2 = (Some dns, w')"
    by blast
  from scanChromeNodes_Some[OF sc] obtain q w3 st where
    q: "q \<in> set pods" "isPodReady q" "dns = getChromeNodeDns cfg (pod_name q)" and
    ch: "checkChromeNodeStatus env cfg dns ctrl 4444 w3 = (st, w')" and
    av: "py_truthy (available st)"
    by blast
  from checkChromeNodeStatus_available[OF ch av] obtain out err data where
    ex: "execInPod env cfg ctrl (curlCommand dns 4444) None None w3 = ((0, out, err), w')" and
    js: "json_loads env out = Some data" and
    sb: "status_of_body data = Some st"
    by blast
  note f = status_of_body_facts[OF sb]
  from av f(4) have rd: "py_truthy (ready st)" and lt: "sessions st < maxSessions st" by simp_all
  have room: "body_nodes data \<noteq> [] \<longrightarrow> occupied_slots data < total_slots data"
    using f(1) f(3) lt by auto
  from c p q ex js sb rd f(1) lt f(2) room show ?thesis by blast
qed

lemma scenario_example:
  "getAvailableChromeNode (scenario_env [pod_full, pod_free, pod_down]) default_config ()
     = (Some (getChromeNodeDns default_config ''chrome-node-1''), ())"
  by (rule scenario_select) simp_all

theorem selector_returns_ready_pod_with_room_witness:
  "getAvailableChromeNode (scenario_env [pod_full, pod_free, pod_down]) default_config ()
     = (Some (getChromeNodeDns default_config ''chrome-node-1''), ())
   \<and> (\<exists>p data st. p \<in> set [pod_full, pod_free, pod_down] \<and> isPodReady p
         \<and> getChromeNodeDns default_config ''chrome-node-1'' = getChromeNodeDns default_config (pod_name p)
         \<and> status_of_body data = Some st \<and> sessions st = occupied_slots data
         \<and> sessions st < maxSessions st)"
proof -
  from selector_returns_ready_pod_with_room[OF scenario_example]
  obtain w1 pods w2 p data st where
    l: "getPodsByLabel (scenario_env [pod_full, pod_free, pod_down]) default_config
          (CHROME_NODE_POD_LABEL default_config) w1 = (pods, w2)" and
    r: "p \<in> set pods" "isPodReady p"
       "getChromeNodeDns default_config ''chrome-node-1'' = getChromeNodeDns default_config (pod_name p)"
       "status_of_body data = Some st" "sessions st = occupied_slots data" "sessions st < maxSessions st"
    by blast
  from l have "pods = [pod_full, pod_free, pod_down]"
    by (simp add: scenario_env_def getPodsByLabel_def fleet_env_def default_config_def)
  with r scenario_example show ?thesis by blast
qed

text \<open>
  C1 as stated fails on a body that is ready and lists no node: no slot is occupied, the
  body has no slot at all, and the selector returns the pod.
\<close>

theorem selector_returns_pod_without_slots:
  "getAvailableChromeNode no_nodes_env default_config ()
     = (Some (getChromeNodeDns default_config ''chrome-node-0''), ())
   \<and> isPodReady (worker ''chrome-node-0'' True)
   \<and> execInPod no_nodes_env default_config ''test-case-controller-0''
        (curlCommand (getChromeNodeDns default_config ''chrome-node-0'') 4444) None None ()
       = ((0, ''{value: {ready: true, nodes: []}}'', []), ())
   \<and> json_loads no_nodes_env ''{value: {ready: true, nodes: []}}'' = Some body_no_nodes
   \<and> occupied_slots body_no_nodes = 0 \<and> total_slots body_no_nodes = 0
   \<and> \<not> occupied_slots body_no_nodes < total_slots body_no_nodes"
  by (simp add: getAvailableChromeNode_def no_nodes_env_def scenario_defs
       occupied_slots_def total_slots_def body_nodes_def)

lemma scanChromeNodes_skip:
  assumes "checkChromeNodeStatus env cfg (getChromeNodeDns cfg (pod_name p)) ctrl 4444 w = (unavailable_status, w')"
  shows "scanChromeNodes env cfg ctrl (p # rest) w
           = scanChromeNodes env cfg ctrl rest (if isPodReady p then w' else w)"
  using assms by (simp add: Let_def unavailable_status_def)

text \<open>
  C4. With the controller pod found and the worker pods listed, the selector goes through
  the pods in listing order. First fit: if the scan of the pods before \<open>p\<close> selects none,
  and \<open>p\<close> is cluster-ready and its probe reports it available, the selector returns \<open>p\<close>,
  whatever comes after. A probe that exits non-zero, prints nothing, or prints a body
  that does not decode to a status makes the candidate unavailable, and the scan goes on with the
  next pod; so does a probe whose exec raises (a time-out included). If no ready pod is
  ever reported available, the selector returns none. In the cluster of three worker
  pods, one ready and full (1 of 1), one ready and free (0 of 1) and one not ready, in
  any order, the selector chooses the free one.
\<close>

theorem selector_first_fit:
  assumes "getPodName env cfg (CONTROLLER_POD_LABEL cfg) w = (Some ctrl, w1)" "ctrl \<noteq> []"
    and "getPodsByLabel env cfg (CHROME_NODE_POD_LABEL cfg) w1 = (pods, w2)"
  shows
    "(\<forall>pre p post w3 st w4.
        pods = pre @ p # post
        \<and> scanChromeNodes env cfg ctrl pre w2 = (None, w3)
        \<and> isPodReady p
        \<and> checkChromeNodeStatus env cfg (getChromeNodeDns cfg (pod_name p)) ctrl 4444 w3 = (st, w4)
        \<and> py_truthy (available st)
        \<longrightarrow> getAvailableChromeNode env cfg w = (Some (getChromeNodeDns cfg (pod_name p)), w4))
     \<and> (\<forall>p rest w3 rc out err w4.
          execInPod env cfg ctrl (curlCommand (getChromeNodeDns cfg (pod_name p)) 4444) None None w3
             = ((rc, out, err), w4)
          \<and> (rc \<noteq> 0 \<or> py_strip out = [] \<or> Option.bind (json_loads env out) status_of_body = None)
          \<longrightarrow> checkChromeNodeStatus env cfg (getChromeNodeDns cfg (pod_name p)) ctrl 4444 w3
                = (unavailable_status, w4)
              \<and> scanChromeNodes env cfg ctrl (p # rest) w3
                = scanChromeNodes env cfg ctrl rest (if isPodReady p then w4 else w3))
     \<and> (\<forall>dnsName w3 e w4.
          pod_exec env ctrl (NAMESPACE cfg) [''/bin/sh'', ''-c'', py_join '' '' (curlCommand dnsName 4444)] None w3
             = (Exec_Raised e, w4)
          \<longrightarrow> checkChromeNodeStatus env cfg dnsName ctrl 4444 w3 = (unavailable_status, w4))
     \<and> ((\<forall>p\<in>set pods. \<forall>w3. isPodReady p \<longrightarrow>
            \<not> py_truthy (available (fst (checkChromeNodeStatus env cfg (getChromeNodeDns cfg (pod_name p)) ctrl 4444 w3))))
          \<longrightarrow> fst (getAvailableChromeNode env cfg w) = None)
     \<and> (\<forall>ps. set ps \<subseteq> {pod_full, pod_free, pod_down} \<and> pod_free \<in> set ps
          \<longrightarrow> getAvailableChromeNode (scenario_env ps) default_config ()
                = (Some (getChromeNodeDns default_config (pod_name pod_free)), ()))"
proof -
  note sel = getAvailableChromeNode_scan[OF assms]
  have first: "\<forall>pre p post w3 st w4.
        pods = pre @ p # post
        \<and> scanChromeNodes env cfg ctrl pre w2 = (None, w3)
        \<and> isPodReady p
        \<and> checkChromeNodeStatus env cfg (getChromeNodeDns cfg (pod_name p)) ctrl 4444 w3 = (st, w4)
        \<and> py_truthy (available st)
        \<longrightarrow> getAvailableChromeNode env cfg w = (Some (getChromeNodeDns cfg (pod_name p)), w4)"
    using sel scanChromeNodes_first_fit by metis
  have fail: "\<forall>p rest w3 rc out err w4.
          execInPod env cfg ctrl (curlCommand (getChromeNodeDns cfg (pod_name p)) 4444) None None w3
             = ((rc, out, err), w4)
          \<and> (rc \<noteq> 0 \<or> py_strip out = [] \<or> Option.bind (json_loads env out) status_of_body = None)
          \<longrightarrow> checkChromeNodeStatus env cfg (getChromeNodeDns cfg (pod_name p)) ctrl 4444 w3
                = (unavailable_status, w4)
              \<and> scanChromeNodes env cfg ctrl (p # rest) w3
                = scanChromeNodes env cfg ctrl rest (if isPodReady p then w4 else w3)"
  proof (intro allI impI)
    fix p :: pod and rest w3 rc out err w4
    assume a: "execInPod env cfg ctrl (curlCommand (getChromeNodeDns cfg (pod_name p)) 4444) None None w3
             = ((rc, out, err), w4)
          \<and> (rc \<noteq> 0 \<or> py_strip out = [] \<or> Option.bind (json_loads env out) status_of_body = None)"
    then have u: "checkChromeNodeStatus env cfg (getChromeNodeDns cfg (pod_name p)) ctrl 4444 w3
                = (unavailable_status, w4)"
      by (intro probe_failure_unavailable) auto
    from u scanChromeNodes_skip[OF u]
    show "checkChromeNodeStatus env cfg (getChromeNodeDns cfg (pod_name p)) ctrl 4444 w3
                = (unavailable_status, w4)
              \<and> scanChromeNodes env cfg ctrl (p # rest) w3
                = scanChromeNodes env cfg ctrl rest (if isPodReady p then w4 else w3)"
      by simp
  qed
  have raised: "\<forall>dnsName w3 e w4.
          pod_exec env ctrl (NAMESPACE cfg) [''/bin/sh'', ''-c'', py_join '' '' (curlCommand dnsName 4444)] None w3
             = (Exec_Raised e, w4)
          \<longrightarrow> checkChromeNodeStatus env cfg dnsName ctrl 4444 w3 = (unavailable_status, w4)"
  proof (intro allI impI)
    fix dnsName w3 e w4
    assume "pod_exec env ctrl (NAMESPACE cfg) [''/bin/sh'', ''-c'', py_join '' '' (curlCommand dnsName 4444)] None w3
             = (Exec_Raised e, w4)"
    from exec_raised[OF this]
    show "checkChromeNodeStatus env cfg dnsName ctrl 4444 w3 = (unavailable_status, w4)"
      by (intro probe_failure_unavailable) auto
  qed
  have none: "(\<forall>p\<in>set pods. \<forall>w3. isPodReady p \<longrightarrow>
            \<not> py_truthy (available (fst (checkChromeNodeStatus env cfg (getChromeNodeDns cfg (pod_name p)) ctrl 4444 w3))))
          \<longrightarrow> fst (getAvailableChromeNode env cfg w) = None"
    using sel scanChromeNodes_none[of pods env cfg ctrl w2] by simp
  have scen: "\<forall>ps. set ps \<subseteq> {pod_full, pod_free, pod_down} \<and> pod_free \<in> set ps
          \<longrightarrow> getAvailableChromeNode (scenario_env ps) default_config ()
                = (Some (getChromeNodeDns default_config (pod_name pod_free)), ())"
    using scenario_select by (simp add: pod_free_def worker_def)
  from first fail raised none scen show ?thesis by blast
qed

lemma scenario_listing:
  "getPodName (scenario_env ps) default_config (CONTROLLER_POD_LABEL default_config) ()
     = (Some ''test-case-controller-0'', ())"
  "getPodsByLabel (scenario_env ps) default_config (CHROME_NODE_POD_LABEL default_config) () = (ps, ())"
  by (simp_all add: scenario_env_def getPodName_def getPodsByLabel_def fleet_env_def default_config_def controller_pod_def)

theorem selector_first_fit_witness:
  "getPodName (scenario_env [pod_full, pod_down, pod_free]) default_config
      (CONTROLLER_POD_LABEL default_config) () = (Some ''test-case-controller-0'', ())
   \<and> getPodsByLabel (scenario_env [pod_full, pod_down, pod_free]) default_config
      (CHROME_NODE_POD_LABEL default_config) () = ([pod_full, pod_down, pod_free], ())
   \<and> scanChromeNodes (scenario_env [pod_full, pod_down, pod_free]) default_config
        ''test-case-controller-0'' [pod_full, pod_down] () = (None, ())
   \<and> isPodReady pod_free
   \<and> getAvailableChromeNode (scenario_env [pod_full, pod_down, pod_free]) default_config ()
       = (Some ''chrome-node-1.chrome-node-headless.insider-testops.svc.cluster.local'', ())"
proof -
  let ?env = "scenario_env [pod_full, pod_down, pod_free]"
  have pre: "scanChromeNodes ?env default_config ''test-case-controller-0'' [pod_full, pod_down] () = (None, ())"
    using scenario_scan[of "[pod_full, pod_down]" "[pod_full, pod_down, pod_free]"]
    by (simp add: pod_full_def pod_free_def pod_down_def worker_def)
  have rdy: "isPodReady pod_free" by (simp add: pod_free_def worker_def isPodReady_def)
  have st: "checkChromeNodeStatus ?env default_config (getChromeNodeDns default_config (pod_name pod_free))
              ''test-case-controller-0'' 4444 ()
            = (\<lparr> available = PBool True, ready = PBool True, sessions = 0, maxSessions = 1 \<rparr>, ())"
    using scenario_status(2) by (simp add: pod_free_def worker_def)
  have "getAvailableChromeNode ?env default_config ()
          = (Some (getChromeNodeDns default_config (pod_name pod_free)), ())"
    using selector_first_fit[OF scenario_listing(1) _ scenario_listing(2), THEN conjunct1, rule_format,
            of "[pod_full, pod_down, pod_free]" "[pod_full, pod_down]" pod_free "[]" "()"
               "\<lparr> available = PBool True, ready = PBool True, sessions = 0, maxSessions = 1 \<rparr>" "()"]
      pre rdy st by simp
  then have "getAvailableChromeNode ?env default_config ()
       = (Some ''chrome-node-1.chrome-node-headless.insider-testops.svc.cluster.local'', ())"
    by (simp add: pod_free_def worker_def getChromeNodeDns_def default_config_def)
  with pre rdy scenario_listing show ?thesis by simp
qed

subsection \<open>Readiness poller\<close>

lemma checkReadiness_loop_unfold:
  "checkReadiness_loop env cfg labelSelector minReady startTime w =
     (if in_window env cfg startTime w then
        (if ready_count env cfg labelSelector w \<ge> minReady
         then Some (True, snd (getPodsByLabel env cfg labelSelector w))
         else checkReadiness_loop env cfg labelSelector minReady startTime
                (sleep env (READINESS_CHECK_INTERVAL cfg) (snd (getPodsByLabel env cfg labelSelector w))))
      else Some (False, w))"
  by (subst checkReadiness_loop.simps)
     (simp add: in_window_def ready_count_def case_prod_unfold)

lemma poll_world_shift:
  "poll_world env cfg labelSelector w (Suc j)
     = poll_world env cfg labelSelector (poll_world env cfg labelSelector w (Suc 0)) j"
  by (induction j) simp_all

lemma checkReadiness_loop_skip:
  assumes "\<forall>j<k. in_window env cfg startTime (poll_world env cfg labelSelector w j)
               \<and> ready_count env cfg labelSelector (poll_world env cfg labelSelector w j) < minReady"
  shows "checkReadiness_loop env cfg labelSelector minReady startTime w
           = checkReadiness_loop env cfg labelSelector minReady startTime (poll_world env cfg labelSelector w k)"
  using assms
proof (induction k)
  case 0
  then show ?case by simp
next
  case (Suc k)
  then have "checkReadiness_loop env cfg labelSelector minReady startTime w
          = checkReadiness_loop env cfg labelSelector minReady startTime (poll_world env cfg labelSelector w k)"
    by simp
  also have "\<dots> = checkReadiness_loop env cfg labelSelector minReady startTime
                     (poll_world env cfg labelSelector w (Suc k))"
  proof -
    from Suc.prems have "in_window env cfg startTime (poll_world env cfg labelSelector w k)"
      and "\<not> ready_count env cfg labelSelector (poll_world env cfg labelSelector w k) \<ge> minReady"
      by (auto simp: not_le)
    then show ?thesis
      by (subst checkReadiness_loop_unfold) (simp only: if_True if_False poll_world.simps)
  qed
  finally show ?case .
qed

lemma poll_outcome_now:
  assumes "if fst y
           then in_window env cfg startTime w \<and> ready_count env cfg labelSelector w \<ge> minReady
                  \<and> snd y = snd (getPodsByLabel env cfg labelSelector w)
           else \<not> in_window env cfg startTime w \<and> snd y = w"
  shows "poll_outcome env cfg labelSelector minReady startTime w y"
  unfolding poll_outcome_def using assms by (intro exI[of _ 0]) simp

lemma poll_outcome_later:
  assumes "in_window env cfg startTime w" "ready_count env cfg labelSelector w < minReady"
    and "poll_outcome env cfg labelSelector minReady startTime
           (sleep env (READINESS_CHECK_INTERVAL cfg) (snd (getPodsByLabel env cfg labelSelector w))) y"
  shows "poll_outcome env cfg labelSelector minReady startTime w y"
proof -
  let ?w1 = "sleep env (READINESS_CHECK_INTERVAL cfg) (snd (getPodsByLabel env cfg labelSelector w))"
  have sh: "poll_world env cfg labelSelector ?w1 j = poll_world env cfg labelSelector w (Suc j)" for j
    using poll_world_shift[of env cfg labelSelector w j] by simp
  from assms(3) have "\<exists>k. (\<forall>j<k. in_window env cfg startTime (poll_world env cfg labelSelector ?w1 j)
                   \<and> ready_count env cfg labelSelector (poll_world env cfg labelSelector ?w1 j) < minReady)
          \<and> (if fst y
              then in_window env cfg startTime (poll_world env cfg labelSelector ?w1 k)
                     \<and> ready_count env cfg labelSelector (poll_world env cfg labelSelector ?w1 k) \<ge> minReady
                     \<and> snd y = snd (getPodsByLabel env cfg labelSelector (poll_world env cfg labelSelector ?w1 k))
              else \<not> in_window env cfg startTime (poll_world env cfg labelSelector ?w1 k)
                     \<and> snd y = poll_world env cfg labelSelector ?w1 k)"
    by (simp only: poll_outcome_def)
  then obtain k where
    k1: "\<forall>j<k. in_window env cfg startTime (poll_world env cfg labelSelector ?w1 j)
                 \<and> ready_count env cfg labelSelector (poll_world env cfg labelSelector ?w1 j) < minReady" and
    k2: "if fst y
         then in_window env cfg startTime (poll_world env cfg labelSelector ?w1 k)
                \<and> ready_count env cfg labelSelector (poll_world env cfg labelSelector ?w1 k) \<ge> minReady
                \<and> snd y = snd (getPodsByLabel env cfg labelSelector (poll_world env cfg labelSelector ?w1 k))
         else \<not> in_window env cfg startTime (poll_world env cfg labelSelector ?w1 k)
                \<and> snd y = poll_world env cfg labelSelector ?w1 k"
    by (elim exE conjE)
  have before: "in_window env cfg startTime (poll_world env cfg labelSelector w j)
                 \<and> ready_count env cfg labelSelector (poll_world env cfg labelSelector w j) < minReady"
    if "j < Suc k" for j
  proof (cases j)
    case 0
    with assms(1,2) show ?thesis by simp
  next
    case (Suc i)
    with that have "i < k" by simp
    with k1 have "in_window env cfg startTime (poll_world env cfg labelSelector ?w1 i)
                 \<and> ready_count env cfg labelSelector (poll_world env cfg labelSelector ?w1 i) < minReady"
      by simp
    then show ?thesis by (simp only: sh Suc)
  qed
  show ?thesis
    unfolding poll_outcome_def
  proof (rule exI[of _ "Suc k"], rule conjI)
    show "\<forall>j<Suc k. in_window env cfg startTime (poll_world env cfg labelSelector w j)
                 \<and> ready_count env cfg labelSelector (poll_world env cfg labelSelector w j) < minReady"
      using before by simp
    show "if fst y
         then in_window env cfg startTime (poll_world env cfg labelSelector w (Suc k))
                \<and> ready_count env cfg labelSelector (poll_world env cfg labelSelector w (Suc k)) \<ge> minReady
                \<and> snd y = snd (getPodsByLabel env cfg labelSelector (poll_world env cfg labelSelector w (Suc k)))
         else \<not> in_window env cfg startTime (poll_world env cfg labelSelector w (Suc k))
                \<and> snd y = poll_world env cfg labelSelector w (Suc k)"
      using k2 by (simp only: sh)
  qed
qed

lemma checkReadiness_loop_result:
  assumes "checkReadiness_loop env cfg labelSelector minReady startTime w = Some y"
  shows "poll_outcome env cfg labelSelector minReady startTime w y"
proof (rule checkReadiness_loop.raw_induct[where P = poll_outcome, OF _ assms])
  fix loop :: "'a env \<Rightarrow> config \<Rightarrow> string \<Rightarrow> int \<Rightarrow> real \<Rightarrow> 'a \<Rightarrow> (bool \<times> 'a) option"
    and env cfg labelSelector minReady startTime w y
  assume IH: "\<And>env cfg labelSelector minReady startTime w y.
                loop env cfg labelSelector minReady startTime w = Some y \<Longrightarrow>
                poll_outcome env cfg labelSelector minReady startTime w y"
    and body: "(if now env w - startTime < real_of_int (READINESS_TIMEOUT cfg)
                then case getPodsByLabel env cfg labelSelector w of
                       (pods, w') \<Rightarrow>
                         if minReady \<le> int (length (filter isPodReady pods)) then Some (True, w')
                         else loop env cfg labelSelector minReady startTime
                                (sleep env (READINESS_CHECK_INTERVAL cfg) w')
                else Some (False, w)) = Some y"
  show "poll_outcome env cfg labelSelector minReady startTime w y"
  proof (cases "in_window env cfg startTime w")
    case False
    with body have "y = (False, w)" by (simp add: in_window_def)
    with False show ?thesis by (intro poll_outcome_now) simp
  next
    case True
    show ?thesis
    proof (cases "ready_count env cfg labelSelector w \<ge> minReady")
      case r: True
      with True body have "y = (True, snd (getPodsByLabel env cfg labelSelector w))"
        by (simp add: in_window_def ready_count_def case_prod_unfold)
      with True r show ?thesis by (intro poll_outcome_now) simp
    next
      case r: False
      with True body have
        "loop env cfg labelSelector minReady startTime
           (sleep env (READINESS_CHECK_INTERVAL cfg) (snd (getPodsByLabel env cfg labelSelector w))) = Some y"
        by (simp add: in_window_def ready_count_def case_prod_unfold)
      from IH[OF this] have later: "poll_outcome env cfg labelSelector minReady startTime
           (sleep env (READINESS_CHECK_INTERVAL cfg) (snd (getPodsByLabel env cfg labelSelector w))) y" .
      from r have less: "ready_count env cfg labelSelector w < minReady" by simp
      from True less later show ?thesis by (rule poll_outcome_later)
    qed
  qed
qed

lemma checkReadiness_loop_true:
  assumes "\<forall>j\<le>k. in_window env cfg startTime (poll_world env cfg labelSelector w j)"
    and "ready_count env cfg labelSelector (poll_world env cfg labelSelector w k) \<ge> minReady"
  shows "\<exists>w'. checkReadiness_loop env cfg labelSelector minReady startTime w = Some (True, w')"
proof -
  define P where "P j \<longleftrightarrow> ready_count env cfg labelSelector (poll_world env cfg labelSelector w j) \<ge> minReady" for j
  from assms(2) have "\<exists>j. P j" unfolding P_def by (rule exI)
  then obtain m where m: "P m" "\<forall>j<m. \<not> P j" by (auto simp: exists_least_iff[of P])
  have "m \<le> k" using m(2) assms(2) by (metis P_def not_le)
  have skip: "\<forall>j<m. in_window env cfg startTime (poll_world env cfg labelSelector w j)
               \<and> ready_count env cfg labelSelector (poll_world env cfg labelSelector w j) < minReady"
    using m(2) assms(1) \<open>m \<le> k\<close> by (auto simp: P_def not_le)
  have "in_window env cfg startTime (poll_world env cfg labelSelector w m)"
    using assms(1) \<open>m \<le> k\<close> by simp
  moreover have "ready_count env cfg labelSelector (poll_world env cfg labelSelector w m) \<ge> minReady"
    using m(1) by (simp add: P_def)
  ultimately have "checkReadiness_loop env cfg labelSelector minReady startTime (poll_world env cfg labelSelector w m)
          = Some (True, snd (getPodsByLabel env cfg labelSelector (poll_world env cfg labelSelector w m)))"
    by (subst checkReadiness_loop_unfold) (simp only: if_True)
  with checkReadiness_loop_skip[OF skip] show ?thesis by simp
qed

lemma checkReadiness_loop_false:
  assumes "\<forall>j<n. in_window env cfg startTime (poll_world env cfg labelSelector w j)
               \<and> ready_count env cfg labelSelector (poll_world env cfg labelSelector w j) < minReady"
    and "\<not> in_window env cfg startTime (poll_world env cfg labelSelector w n)"
  shows "checkReadiness_loop env cfg labelSelector minReady startTime w
           = Some (False, poll_world env cfg labelSelector w n)"
proof -
  have "checkReadiness_loop env cfg labelSelector minReady startTime (poll_world env cfg labelSelector w n)
          = Some (False, poll_world env cfg labelSelector w n)"
    using assms(2) by (subst checkReadiness_loop_unfold) (simp only: if_False)
  with checkReadiness_loop_skip[OF assms(1)] show ?thesis by simp
qed

lemma checkReadiness_loop_elapsed:
  assumes "checkReadiness_loop env cfg labelSelector minReady startTime w = Some (False, w')"
    and "now env w - startTime \<le> real_of_int (READINESS_TIMEOUT cfg) + real_of_int (READINESS_CHECK_INTERVAL cfg) + D"
    and "\<forall>w0. now env (sleep env (READINESS_CHECK_INTERVAL cfg) (snd (getPodsByLabel env cfg labelSelector w0)))
              \<le> now env w0 + real_of_int (READINESS_CHECK_INTERVAL cfg) + D"
  shows "now env w' - startTime
           \<le> real_of_int (READINESS_TIMEOUT cfg) + real_of_int (READINESS_CHECK_INTERVAL cfg) + D"
proof -
  from checkReadiness_loop_result[OF assms(1)] obtain k where
    before: "\<forall>j<k. in_window env cfg startTime (poll_world env cfg labelSelector w j)
                  \<and> ready_count env cfg labelSelector (poll_world env cfg labelSelector w j) < minReady" and
    at: "w' = poll_world env cfg labelSelector w k"
    by (auto simp: poll_outcome_def)
  show ?thesis
  proof (cases k)
    case 0
    with at assms(2) show ?thesis by simp
  next
    case (Suc m)
    with before have "now env (poll_world env cfg labelSelector w m) - startTime < real_of_int (READINESS_TIMEOUT cfg)"
      by (simp add: in_window_def)
    moreover have "now env (poll_world env cfg labelSelector w (Suc m))
                     \<le> now env (poll_world env cfg labelSelector w m) + real_of_int (READINESS_CHECK_INTERVAL cfg) + D"
      using assms(3) by simp
    ultimately show ?thesis using at Suc by simp
  qed
qed

lemma poll_world_clock:
  assumes "\<forall>w0. now env (sleep env (READINESS_CHECK_INTERVAL cfg) (snd (getPodsByLabel env cfg labelSelector w0)))
              \<ge> now env w0 + d"
  shows "now env (poll_world env cfg labelSelector w j) \<ge> now env w + real j * d"
proof (induction j)
  case 0
  then show ?case by simp
next
  case (Suc j)
  have "now env (poll_world env cfg labelSelector w (Suc j))
          \<ge> now env (poll_world env cfg labelSelector w j) + d"
    using assms by simp
  with Suc show ?case by (simp add: algebra_simps)
qed

lemma checkReadiness_loop_terminates:
  assumes "0 < d"
    and "\<forall>w0. now env (sleep env (READINESS_CHECK_INTERVAL cfg) (snd (getPodsByLabel env cfg labelSelector w0)))
              \<ge> now env w0 + d"
  shows "\<exists>y. checkReadiness_loop env cfg labelSelector minReady startTime w = Some y"
proof -
  define P where "P j \<longleftrightarrow> \<not> in_window env cfg startTime (poll_world env cfg labelSelector w j)
                       \<or> ready_count env cfg labelSelector (poll_world env cfg labelSelector w j) \<ge> minReady" for j
  obtain n :: nat where n: "real_of_int (READINESS_TIMEOUT cfg) + startTime - now env w < real n * d"
    using reals_Archimedean3[OF assms(1)] by blast
  have "now env (poll_world env cfg labelSelector w n) \<ge> now env w + real n * d"
    using assms(2) by (rule poll_world_clock)
  with n have "\<not> in_window env cfg startTime (poll_world env cfg labelSelector w n)"
    by (simp add: in_window_def)
  then have "\<exists>j. P j" unfolding P_def by blast
  then obtain k where k: "P k" "\<forall>j<k. \<not> P j" by (auto simp: exists_least_iff[of P])
  have before: "\<forall>j<k. in_window env cfg startTime (poll_world env cfg labelSelector w j)
               \<and> ready_count env cfg labelSelector (poll_world env cfg labelSelector w j) < minReady"
    using k(2) by (auto simp: P_def not_le)
  show ?thesis
  proof (cases "in_window env cfg startTime (poll_world env cfg labelSelector w k)")
    case False
    from checkReadiness_loop_false[OF before False] show ?thesis by (intro exI)
  next
    case True
    with k(1) have "ready_count env cfg labelSelector (poll_world env cfg labelSelector w k) \<ge> minReady"
      by (simp add: P_def)
    with True have "checkReadiness_loop env cfg labelSelector minReady startTime (poll_world env cfg labelSelector w k)
          = Some (True, snd (getPodsByLabel env cfg labelSelector (poll_world env cfg labelSelector w k)))"
      by (subst checkReadiness_loop_unfold) (simp only: if_True)
    with checkReadiness_loop_skip[OF before]
    have "checkReadiness_loop env cfg labelSelector minReady startTime w
          = Some (True, snd (getPodsByLabel env cfg labelSelector (poll_world env cfg labelSelector w k)))"
      by simp
    then show ?thesis by (intro exI)
  qed
qed

text \<open>
  C2, as amended. The poller returns true if and only if some round, reached with the
  elapsed time below the timeout at the start of it and of every round before it, finds
  a count of ready pods that is at least the threshold. If the rounds find fewer ready
  pods until a round starts with the timeout elapsed, the poller returns false in the
  world of that round. When it returns false, the elapsed time is at most the timeout
  plus one poll interval plus \<open>D\<close>, where one round of listing and sleeping lasts at most
  the poll interval plus \<open>D\<close>: the time a listing takes (and any oversleeping) comes
  on top of the claimed bound. A poll that lists no pods counts zero ready pods, and with
  a positive threshold the loop goes on to the next round. The poller does return, with
  true or with false, in every world where a round of listing and sleeping takes at
  least some fixed positive time.
\<close>

theorem checkReadiness_polls:
  "((\<exists>w'. checkReadiness env cfg labelSelector minReady w = Some (True, w'))
      \<longleftrightarrow> (\<exists>k. (\<forall>j\<le>k. in_window env cfg (now env w) (poll_world env cfg labelSelector w j))
              \<and> ready_count env cfg labelSelector (poll_world env cfg labelSelector w k) \<ge> minReady))
   \<and> (\<forall>n. (\<forall>j<n. in_window env cfg (now env w) (poll_world env cfg labelSelector w j)
                   \<and> ready_count env cfg labelSelector (poll_world env cfg labelSelector w j) < minReady)
            \<and> \<not> in_window env cfg (now env w) (poll_world env cfg labelSelector w n)
          \<longrightarrow> checkReadiness env cfg labelSelector minReady w
                = Some (False, poll_world env cfg labelSelector w n))
   \<and> (\<forall>w' D. checkReadiness env cfg labelSelector minReady w = Some (False, w')
            \<and> 0 \<le> real_of_int (READINESS_TIMEOUT cfg) + real_of_int (READINESS_CHECK_INTERVAL cfg) + D
            \<and> (\<forall>w0. now env (sleep env (READINESS_CHECK_INTERVAL cfg) (snd (getPodsByLabel env cfg labelSelector w0)))
                      \<le> now env w0 + real_of_int (READINESS_CHECK_INTERVAL cfg) + D)
          \<longrightarrow> now env w' - now env w
                \<le> real_of_int (READINESS_TIMEOUT cfg) + real_of_int (READINESS_CHECK_INTERVAL cfg) + D)
   \<and> (\<forall>w0. fst (getPodsByLabel env cfg labelSelector w0) = [] \<longrightarrow> ready_count env cfg labelSelector w0 = 0)
   \<and> (\<forall>w0 startTime.
          in_window env cfg startTime w0 \<and> fst (getPodsByLabel env cfg labelSelector w0) = [] \<and> 0 < minReady
          \<longrightarrow> checkReadiness_loop env cfg labelSelector minReady startTime w0
                = checkReadiness_loop env cfg labelSelector minReady startTime
                    (sleep env (READINESS_CHECK_INTERVAL cfg) (snd (getPodsByLabel env cfg labelSelector w0))))
   \<and> (\<forall>d. 0 < d
            \<and> (\<forall>w0. now env (sleep env (READINESS_CHECK_INTERVAL cfg) (snd (getPodsByLabel env cfg labelSelector w0)))
                      \<ge> now env w0 + d)
          \<longrightarrow> (\<exists>y. checkReadiness env cfg labelSelector minReady w = Some y))"
proof -
  have iff: "(\<exists>w'. checkReadiness env cfg labelSelector minReady w = Some (True, w'))
      \<longleftrightarrow> (\<exists>k. (\<forall>j\<le>k. in_window env cfg (now env w) (poll_world env cfg labelSelector w j))
              \<and> ready_count env cfg labelSelector (poll_world env cfg labelSelector w k) \<ge> minReady)"
    (is "?L \<longleftrightarrow> ?R")
  proof
    assume ?L
    then obtain w' where "checkReadiness_loop env cfg labelSelector minReady (now env w) w = Some (True, w')"
      by (auto simp: checkReadiness_def)
    from checkReadiness_loop_result[OF this] obtain k where
      "\<forall>j<k. in_window env cfg (now env w) (poll_world env cfg labelSelector w j)"
      "in_window env cfg (now env w) (poll_world env cfg labelSelector w k)"
      "ready_count env cfg labelSelector (poll_world env cfg labelSelector w k) \<ge> minReady"
      by (auto simp: poll_outcome_def)
    then have "(\<forall>j\<le>k. in_window env cfg (now env w) (poll_world env cfg labelSelector w j))
              \<and> ready_count env cfg labelSelector (poll_world env cfg labelSelector w k) \<ge> minReady"
      by (auto simp: le_less)
    then show ?R by (rule exI)
  next
    assume ?R
    then obtain k where
      "\<forall>j\<le>k. in_window env cfg (now env w) (poll_world env cfg labelSelector w j)"
      "ready_count env cfg labelSelector (poll_world env cfg labelSelector w k) \<ge> minReady"
      by (elim exE conjE)
    from checkReadiness_loop_true[OF this] show ?L by (simp add: checkReadiness_def)
  qed
  have no: "\<forall>n. (\<forall>j<n. in_window env cfg (now env w) (poll_world env cfg labelSelector w j)
                   \<and> ready_count env cfg labelSelector (poll_world env cfg labelSelector w j) < minReady)
            \<and> \<not> in_window env cfg (now env w) (poll_world env cfg labelSelector w n)
          \<longrightarrow> checkReadiness env cfg labelSelector minReady w
                = Some (False, poll_world env cfg labelSelector w n)"
    using checkReadiness_loop_false[of _ env cfg "now env w" labelSelector w minReady]
    by (simp add: checkReadiness_def)
  have bound: "\<forall>w' D. checkReadiness env cfg labelSelector minReady w = Some (False, w')
            \<and> 0 \<le> real_of_int (READINESS_TIMEOUT cfg) + real_of_int (READINESS_CHECK_INTERVAL cfg) + D
            \<and> (\<forall>w0. now env (sleep env (READINESS_CHECK_INTERVAL cfg) (snd (getPodsByLabel env cfg labelSelector w0)))
                      \<le> now env w0 + real_of_int (READINESS_CHECK_INTERVAL cfg) + D)
          \<longrightarrow> now env w' - now env w
                \<le> real_of_int (READINESS_TIMEOUT cfg) + real_of_int (READINESS_CHECK_INTERVAL cfg) + D"
  proof (intro allI impI)
    fix w' D
    assume a: "checkReadiness env cfg labelSelector minReady w = Some (False, w')
            \<and> 0 \<le> real_of_int (READINESS_TIMEOUT cfg) + real_of_int (READINESS_CHECK_INTERVAL cfg) + D
            \<and> (\<forall>w0. now env (sleep env (READINESS_CHECK_INTERVAL cfg) (snd (getPodsByLabel env cfg labelSelector w0)))
                      \<le> now env w0 + real_of_int (READINESS_CHECK_INTERVAL cfg) + D)"
    then have "checkReadiness_loop env cfg labelSelector minReady (now env w) w = Some (False, w')"
      by (simp add: checkReadiness_def)
    moreover from a have "now env w - now env w
        \<le> real_of_int (READINESS_TIMEOUT cfg) + real_of_int (READINESS_CHECK_INTERVAL cfg) + D"
      by simp
    moreover from a have "\<forall>w0. now env (sleep env (READINESS_CHECK_INTERVAL cfg) (snd (getPodsByLabel env cfg labelSelector w0)))
                      \<le> now env w0 + real_of_int (READINESS_CHECK_INTERVAL cfg) + D"
      by simp
    ultimately show "now env w' - now env w
                \<le> real_of_int (READINESS_TIMEOUT cfg) + real_of_int (READINESS_CHECK_INTERVAL cfg) + D"
      by (rule checkReadiness_loop_elapsed)
  qed
  have zero: "\<forall>w0. fst (getPodsByLabel env cfg labelSelector w0) = [] \<longrightarrow> ready_count env cfg labelSelector w0 = 0"
    by (simp add: ready_count_def)
  have goes_on: "\<forall>w0 startTime.
          in_window env cfg startTime w0 \<and> fst (getPodsByLabel env cfg labelSelector w0) = [] \<and> 0 < minReady
          \<longrightarrow> checkReadiness_loop env cfg labelSelector minReady startTime w0
                = checkReadiness_loop env cfg labelSelector minReady startTime
                    (sleep env (READINESS_CHECK_INTERVAL cfg) (snd (getPodsByLabel env cfg labelSelector w0)))"
  proof (intro allI impI)
    fix w0 startTime
    assume a: "in_window env cfg startTime w0 \<and> fst (getPodsByLabel env cfg labelSelector w0) = [] \<and> 0 < minReady"
    then have "\<not> ready_count env cfg labelSelector w0 \<ge> minReady" by (simp add: ready_count_def)
    with a show "checkReadiness_loop env cfg labelSelector minReady startTime w0
                = checkReadiness_loop env cfg labelSelector minReady startTime
                    (sleep env (READINESS_CHECK_INTERVAL cfg) (snd (getPodsByLabel env cfg labelSelector w0)))"
      by (subst checkReadiness_loop_unfold) (simp only: if_True if_False)
  qed
  have returns: "\<forall>d. 0 < d
            \<and> (\<forall>w0. now env (sleep env (READINESS_CHECK_INTERVAL cfg) (snd (getPodsByLabel env cfg labelSelector w0)))
                      \<ge> now env w0 + d)
          \<longrightarrow> (\<exists>y. checkReadiness env cfg labelSelector minReady w = Some y)"
  proof (intro allI impI)
    fix d :: real
    assume a: "0 < d
            \<and> (\<forall>w0. now env (sleep env (READINESS_CHECK_INTERVAL cfg) (snd (getPodsByLabel env cfg labelSelector w0)))
                      \<ge> now env w0 + d)"
    then have "0 < d"
      and "\<forall>w0. now env (sleep env (READINESS_CHECK_INTERVAL cfg) (snd (getPodsByLabel env cfg labelSelector w0)))
                      \<ge> now env w0 + d"
      by simp_all
    then show "\<exists>y. checkReadiness env cfg labelSelector minReady w = Some y"
      unfolding checkReadiness_def by (rule checkReadiness_loop_terminates)
  qed
  from iff no bound zero goes_on returns show ?thesis by (intro conjI)
qed

lemma clock_env_rounds:
  "poll_world (clock_env d pods) cfg labelSelector w j = w + int j * (d + READINESS_CHECK_INTERVAL cfg)"
  by (induction j) (simp_all add: clock_env_def getPodsByLabel_def algebra_simps)

lemma clock_env_ready_count:
  "ready_count (clock_env d pods) cfg labelSelector w = int (length (filter isPodReady pods))"
  by (simp add: ready_count_def clock_env_def getPodsByLabel_def)

lemma clock_env_now: "now (clock_env d pods) w = real_of_int w"
  by (simp add: clock_env_def)

theorem checkReadiness_polls_witness:
  "(\<exists>w'. checkReadiness (clock_env 0 [worker ''chrome-node-0'' True]) default_config ''app=chrome-node'' 1 0
            = Some (True, w'))
   \<and> checkReadiness (clock_env 0 []) (default_config\<lparr>READINESS_TIMEOUT := 10\<rparr>) ''app=chrome-node'' 1 0
       = Some (False, 10)
   \<and> now (clock_env 0 []) 10 - now (clock_env 0 []) 0 \<le> 10 + 5
   \<and> (\<exists>y. checkReadiness (clock_env 0 []) default_config ''app=chrome-node'' 1 0 = Some y)"
proof -
  let ?up = "clock_env 0 [worker ''chrome-node-0'' True]"
  let ?cfg = "default_config\<lparr>READINESS_TIMEOUT := 10\<rparr>"
  have up: "\<exists>k. (\<forall>j\<le>k. in_window ?up default_config (now ?up 0) (poll_world ?up default_config ''app=chrome-node'' 0 j))
              \<and> ready_count ?up default_config ''app=chrome-node'' (poll_world ?up default_config ''app=chrome-node'' 0 k) \<ge> 1"
    by (rule exI[of _ 0])
       (simp add: clock_env_ready_count clock_env_now worker_def isPodReady_def in_window_def default_config_def)
  have T: "READINESS_TIMEOUT ?cfg = 10" and I: "READINESS_CHECK_INTERVAL ?cfg = 5"
    by (simp_all add: default_config_def)
  have down: "(\<forall>j<2. in_window (clock_env 0 []) ?cfg (now (clock_env 0 []) 0)
                        (poll_world (clock_env 0 []) ?cfg ''app=chrome-node'' 0 j)
                   \<and> ready_count (clock_env 0 []) ?cfg ''app=chrome-node''
                        (poll_world (clock_env 0 []) ?cfg ''app=chrome-node'' 0 j) < 1)
            \<and> \<not> in_window (clock_env 0 []) ?cfg (now (clock_env 0 []) 0)
                  (poll_world (clock_env 0 []) ?cfg ''app=chrome-node'' 0 2)"
    unfolding clock_env_rounds clock_env_ready_count clock_env_now in_window_def T I
    by (auto simp: less_Suc_eq numeral_2_eq_2)
  have false: "checkReadiness (clock_env 0 []) ?cfg ''app=chrome-node'' 1 0 = Some (False, 10)"
    using checkReadiness_polls[of "clock_env 0 []" ?cfg "''app=chrome-node''" 1 0,
            THEN conjunct2, THEN conjunct1, THEN spec[where x = 2], THEN mp, OF down]
    by (simp add: clock_env_rounds I)
  have round: "\<forall>w0. now (clock_env 0 []) (sleep (clock_env 0 []) (READINESS_CHECK_INTERVAL ?cfg)
                          (snd (getPodsByLabel (clock_env 0 []) ?cfg ''app=chrome-node'' w0)))
                 \<le> now (clock_env 0 []) w0 + real_of_int (READINESS_CHECK_INTERVAL ?cfg) + 0"
    unfolding I by (simp add: clock_env_def getPodsByLabel_def)
  have hyp: "checkReadiness (clock_env 0 []) ?cfg ''app=chrome-node'' 1 0 = Some (False, 10)
            \<and> 0 \<le> real_of_int (READINESS_TIMEOUT ?cfg) + real_of_int (READINESS_CHECK_INTERVAL ?cfg) + 0
            \<and> (\<forall>w0. now (clock_env 0 []) (sleep (clock_env 0 []) (READINESS_CHECK_INTERVAL ?cfg)
                          (snd (getPodsByLabel (clock_env 0 []) ?cfg ''app=chrome-node'' w0)))
                 \<le> now (clock_env 0 []) w0 + real_of_int (READINESS_CHECK_INTERVAL ?cfg) + 0)"
    using false round unfolding T I by simp
  have bound: "now (clock_env 0 []) 10 - now (clock_env 0 []) 0 \<le> 10 + 5"
    using checkReadiness_polls[of "clock_env 0 []" ?cfg "''app=chrome-node''" 1 0,
            THEN conjunct2, THEN conjunct2, THEN conjunct1,
            THEN spec[where x = 10], THEN spec[where x = 0], THEN mp, OF hyp]
    unfolding T I by simp
  have pace: "0 < (5::real)
            \<and> (\<forall>w0. now (clock_env 0 []) (sleep (clock_env 0 []) (READINESS_CHECK_INTERVAL default_config)
                          (snd (getPodsByLabel (clock_env 0 []) default_config ''app=chrome-node'' w0)))
                 \<ge> now (clock_env 0 []) w0 + 5)"
    by (simp add: clock_env_def getPodsByLabel_def default_config_def)
  note returns = checkReadiness_polls[of "clock_env 0 []" default_config "''app=chrome-node''" 1 0,
            THEN conjunct2, THEN conjunct2, THEN conjunct2, THEN conjunct2, THEN conjunct2,
            THEN spec[where x = 5], THEN mp, OF pace]
  from checkReadiness_polls[of ?up default_config "''app=chrome-node''" 1 0, THEN conjunct1, THEN iffD2, OF up]
       false bound returns
  show ?thesis by (intro conjI)
qed

text \<open>
  C2 as stated fails on the bound: with the timeout of 300 seconds and the poll interval
  of 5 seconds, one listing that takes 400 seconds and finds no pod is followed by a sleep
  of exactly 5 seconds, and the poller returns false after 405 seconds.
\<close>

theorem checkReadiness_slow_listing:
  "checkReadiness (clock_env 400 []) default_config ''app=chrome-node'' 1 0 = Some (False, 405)
   \<and> sleep (clock_env 400 []) (READINESS_CHECK_INTERVAL default_config) 400 = 405
   \<and> \<not> now (clock_env 400 []) 405 - now (clock_env 400 []) 0
         \<le> real_of_int (READINESS_TIMEOUT default_config) + real_of_int (READINESS_CHECK_INTERVAL default_config)"
proof -
  have T: "READINESS_TIMEOUT default_config = 300" and I: "READINESS_CHECK_INTERVAL default_config = 5"
    by (simp_all add: default_config_def)
  have rounds: "(\<forall>j<1. in_window (clock_env 400 []) default_config 0
                        (poll_world (clock_env 400 []) default_config ''app=chrome-node'' 0 j)
                   \<and> ready_count (clock_env 400 []) default_config ''app=chrome-node''
                        (poll_world (clock_env 400 []) default_config ''app=chrome-node'' 0 j) < 1)"
    and out: "\<not> in_window (clock_env 400 []) default_config 0
                  (poll_world (clock_env 400 []) default_config ''app=chrome-node'' 0 1)"
    unfolding clock_env_rounds clock_env_ready_count clock_env_now in_window_def T I
    by auto
  have "checkReadiness_loop (clock_env 400 []) default_config ''app=chrome-node'' 1 0 0
          = Some (False, poll_world (clock_env 400 []) default_config ''app=chrome-node'' 0 1)"
    using rounds out by (rule checkReadiness_loop_false)
  then have "checkReadiness (clock_env 400 []) default_config ''app=chrome-node'' 1 0 = Some (False, 405)"
    unfolding clock_env_rounds I by (simp add: checkReadiness_def clock_env_def)
  moreover have "sleep (clock_env 400 []) (READINESS_CHECK_INTERVAL default_config) 400 = 405"
    unfolding I by (simp add: clock_env_def)
  moreover have "\<not> now (clock_env 400 []) 405 - now (clock_env 400 []) 0
         \<le> real_of_int (READINESS_TIMEOUT default_config) + real_of_int (READINESS_CHECK_INTERVAL default_config)"
    unfolding T I by (simp add: clock_env_def)
  ultimately show ?thesis by (intro conjI)
qed

subsection \<open>Generic retry wrapper\<close>

lemma try_round_fails: "try_round res = None \<longleftrightarrow> op_fails res"
  by (induction res rule: op_fails.induct) auto

lemma try_round_succeeds: "\<not> op_fails (Returned r) \<Longrightarrow> try_round (Returned r) = Some r"
  by (induction "Returned r" arbitrary: r rule: op_fails.induct) auto

lemma handleErrors_attempts_fail:
  assumes "i \<le> MAX_RETRIES cfg" "op_fails (fst (operationFunc w))"
  shows "handleErrors_attempts env cfg operationFunc [i..MAX_RETRIES cfg] w
           = handleErrors_attempts env cfg operationFunc [i + 1..MAX_RETRIES cfg]
               (retry_pause env cfg i (snd (operationFunc w)))"
proof -
  have "[i..MAX_RETRIES cfg] = i # [i + 1..MAX_RETRIES cfg]"
    using assms(1) by (simp add: upto_rec1)
  moreover have "try_round (fst (operationFunc w)) = None"
    using assms(2) by (simp add: try_round_fails)
  ultimately show ?thesis by (simp add: case_prod_unfold)
qed

lemma handleErrors_attempts_succeed:
  assumes "i \<le> MAX_RETRIES cfg" "fst (operationFunc w) = Returned r" "\<not> op_fails (Returned r)"
  shows "handleErrors_attempts env cfg operationFunc [i..MAX_RETRIES cfg] w = ((True, r), snd (operationFunc w))"
proof -
  have "[i..MAX_RETRIES cfg] = i # [i + 1..MAX_RETRIES cfg]"
    using assms(1) by (simp add: upto_rec1)
  then show ?thesis
    using assms(2) try_round_succeeds[OF assms(3)] by (simp add: case_prod_unfold)
qed

lemma handleErrors_attempts_skip:
  assumes "int k < MAX_RETRIES cfg"
    and "\<forall>j<k. op_fails (fst (operationFunc (attempt_world env cfg operationFunc w j)))"
  shows "handleErrors_attempts env cfg operationFunc [1..MAX_RETRIES cfg] w
           = handleErrors_attempts env cfg operationFunc [int k + 1..MAX_RETRIES cfg]
               (attempt_world env cfg operationFunc w k)"
  using assms
proof (induction k)
  case 0
  then show ?case by simp
next
  case (Suc k)
  have "handleErrors_attempts env cfg operationFunc [1..MAX_RETRIES cfg] w
          = handleErrors_attempts env cfg operationFunc [int k + 1..MAX_RETRIES cfg]
              (attempt_world env cfg operationFunc w k)"
    using Suc by simp
  also have "\<dots> = handleErrors_attempts env cfg operationFunc [int k + 1 + 1..MAX_RETRIES cfg]
              (retry_pause env cfg (int k + 1) (snd (operationFunc (attempt_world env cfg operationFunc w k))))"
    using Suc.prems by (intro handleErrors_attempts_fail) auto
  also have "retry_pause env cfg (int k + 1) (snd (operationFunc (attempt_world env cfg operationFunc w k)))
          = attempt_world env cfg operationFunc w (Suc k)"
    using Suc.prems(1) by (simp add: retry_pause_def)
  finally show ?case by (simp add: add.commute)
qed

lemma handleErrors_success_at:
  assumes "1 \<le> K" "int K \<le> MAX_RETRIES cfg"
    and "\<forall>j<K - 1. op_fails (fst (operationFunc (attempt_world env cfg operationFunc w j)))"
    and "fst (operationFunc (attempt_world env cfg operationFunc w (K - 1))) = Returned r"
    and "\<not> op_fails (Returned r)"
  shows "handleErrors env cfg operationFunc w
           = ((True, r), snd (operationFunc (attempt_world env cfg operationFunc w (K - 1))))"
proof -
  have k: "int (K - 1) < MAX_RETRIES cfg" "int (K - 1) + 1 = int K" using assms(1,2) by auto
  have "handleErrors env cfg operationFunc w
          = handleErrors_attempts env cfg operationFunc [int K..MAX_RETRIES cfg]
              (attempt_world env cfg operationFunc w (K - 1))"
    using handleErrors_attempts_skip[OF k(1) assms(3)] k(2) by (simp add: handleErrors_def attempts_def)
  also have "\<dots> = ((True, r), snd (operationFunc (attempt_world env cfg operationFunc w (K - 1))))"
    using assms(2,4,5) by (intro handleErrors_attempts_succeed)
  finally show ?thesis .
qed

lemma handleErrors_all_fail:
  assumes "\<forall>j<nat (MAX_RETRIES cfg). op_fails (fst (operationFunc (attempt_world env cfg operationFunc w j)))"
  shows "handleErrors env cfg operationFunc w
           = ((False, PNone),
              if MAX_RETRIES cfg \<le> 0 then w
              else snd (operationFunc (attempt_world env cfg operationFunc w (nat (MAX_RETRIES cfg) - 1))))"
proof (cases "MAX_RETRIES cfg \<le> 0")
  case True
  then show ?thesis by (simp add: handleErrors_def attempts_def)
next
  case False
  define k where "k = nat (MAX_RETRIES cfg) - 1"
  have k: "int k < MAX_RETRIES cfg" "int k + 1 = MAX_RETRIES cfg" "k < nat (MAX_RETRIES cfg)"
    using False by (auto simp: k_def)
  have prefix: "\<forall>j<k. op_fails (fst (operationFunc (attempt_world env cfg operationFunc w j)))"
    using assms k(3) by auto
  have last: "op_fails (fst (operationFunc (attempt_world env cfg operationFunc w k)))"
    using assms k(3) by blast
  have "handleErrors env cfg operationFunc w
          = handleErrors_attempts env cfg operationFunc [MAX_RETRIES cfg..MAX_RETRIES cfg]
              (attempt_world env cfg operationFunc w k)"
    using handleErrors_attempts_skip[OF k(1) prefix] k(2) by (simp add: handleErrors_def attempts_def)
  also have "\<dots> = handleErrors_attempts env cfg operationFunc [MAX_RETRIES cfg + 1..MAX_RETRIES cfg]
              (retry_pause env cfg (MAX_RETRIES cfg) (snd (operationFunc (attempt_world env cfg operationFunc w k))))"
    using last by (intro handleErrors_attempts_fail) auto
  also have "\<dots> = ((False, PNone), snd (operationFunc (attempt_world env cfg operationFunc w k)))"
    by (simp add: retry_pause_def)
  finally show ?thesis using False by (simp add: k_def)
qed

lemma counted_fst: "fst (counted f (w, n)) = fst (f w)"
  by (simp add: counted_def case_prod_unfold)

lemma counted_snd: "snd (counted f (w, n)) = (snd (f w), Suc n)"
  by (simp add: counted_def case_prod_unfold)

lemma attempt_world_counted:
  "attempt_world (counted_env env) cfg (counted operationFunc) (w, n) j
     = (attempt_world env cfg operationFunc w j, n + j)"
  by (induction j) (simp_all add: counted_snd counted_env_def)

text \<open>
  C3. Let the operation fail on each of the first \<open>K - 1\<close> attempts and succeed on attempt
  \<open>K\<close> with result \<open>r\<close>, for \<open>1 \<le> K \<le> MAX_RETRIES\<close>: the wrapper returns success
  together with \<open>r\<close>, in the world that the \<open>K\<close>-th call leaves, and it has called the
  operation exactly \<open>K\<close> times. Let the operation fail on every attempt: the wrapper
  returns failure, and it has called the operation exactly \<open>MAX_RETRIES\<close> times (no time
  when \<open>MAX_RETRIES\<close> is not positive).
\<close>

theorem handleErrors_retries:
  "(\<forall>K r. 1 \<le> K \<and> int K \<le> MAX_RETRIES cfg
       \<and> (\<forall>j<K - 1. op_fails (fst (operationFunc (attempt_world env cfg operationFunc w j))))
       \<and> fst (operationFunc (attempt_world env cfg operationFunc w (K - 1))) = Returned r
       \<and> \<not> op_fails (Returned r)
     \<longrightarrow> handleErrors env cfg operationFunc w
           = ((True, r), snd (operationFunc (attempt_world env cfg operationFunc w (K - 1))))
         \<and> snd (snd (handleErrors (counted_env env) cfg (counted operationFunc) (w, 0))) = K)
   \<and> ((\<forall>j<nat (MAX_RETRIES cfg). op_fails (fst (operationFunc (attempt_world env cfg operationFunc w j))))
     \<longrightarrow> fst (handleErrors env cfg operationFunc w) = (False, PNone)
         \<and> snd (snd (handleErrors (counted_env env) cfg (counted operationFunc) (w, 0)))
             = nat (MAX_RETRIES cfg))"
proof (intro conjI allI impI)
  fix K r
  assume a: "1 \<le> K \<and> int K \<le> MAX_RETRIES cfg
       \<and> (\<forall>j<K - 1. op_fails (fst (operationFunc (attempt_world env cfg operationFunc w j))))
       \<and> fst (operationFunc (attempt_world env cfg operationFunc w (K - 1))) = Returned r
       \<and> \<not> op_fails (Returned r)"
  then show "handleErrors env cfg operationFunc w
           = ((True, r), snd (operationFunc (attempt_world env cfg operationFunc w (K - 1))))"
    by (intro handleErrors_success_at) auto
  have "handleErrors (counted_env env) cfg (counted operationFunc) (w, 0)
          = ((True, r), snd (counted operationFunc
               (attempt_world (counted_env env) cfg (counted operationFunc) (w, 0) (K - 1))))"
    using a by (intro handleErrors_success_at) (auto simp: attempt_world_counted counted_fst)
  then show "snd (snd (handleErrors (counted_env env) cfg (counted operationFunc) (w, 0))) = K"
    using a by (simp add: attempt_world_counted counted_snd)
next
  assume a: "\<forall>j<nat (MAX_RETRIES cfg). op_fails (fst (operationFunc (attempt_world env cfg operationFunc w j)))"
  from handleErrors_all_fail[OF a]
  show "fst (handleErrors env cfg operationFunc w) = (False, PNone)" by simp
  have "\<forall>j<nat (MAX_RETRIES cfg). op_fails (fst (counted operationFunc
          (attempt_world (counted_env env) cfg (counted operationFunc) (w, 0) j)))"
    using a by (simp add: attempt_world_counted counted_fst)
  from handleErrors_all_fail[OF this]
  show "snd (snd (handleErrors (counted_env env) cfg (counted operationFunc) (w, 0))) = nat (MAX_RETRIES cfg)"
    by (auto simp: attempt_world_counted counted_snd)
qed

theorem handleErrors_retries_witness:
  "handleErrors idle_env default_config third_time_lucky 0
     = ((True, PTuple [PBool True, PStr ''done'']), 3)
   \<and> snd (snd (handleErrors (counted_env idle_env) default_config (counted third_time_lucky) (0, 0))) = 3
   \<and> fst (handleErrors idle_env default_config always_raises 0) = (False, PNone)
   \<and> snd (snd (handleErrors (counted_env idle_env) default_config (counted always_raises) (0, 0))) = 3"
proof -
  have w: "attempt_world idle_env default_config third_time_lucky 0 j = j" for j
    by (induction j) (simp_all add: idle_env_def third_time_lucky_def)
  have hyp: "1 \<le> (3::nat) \<and> int 3 \<le> MAX_RETRIES default_config
       \<and> (\<forall>j<3 - 1. op_fails (fst (third_time_lucky (attempt_world idle_env default_config third_time_lucky 0 j))))
       \<and> fst (third_time_lucky (attempt_world idle_env default_config third_time_lucky 0 (3 - 1)))
           = Returned (PTuple [PBool True, PStr ''done''])
       \<and> \<not> op_fails (Returned (PTuple [PBool True, PStr ''done'']))"
    unfolding w by (auto simp: default_config_def third_time_lucky_def)
  have m: "nat (MAX_RETRIES default_config) = 3" by (simp add: default_config_def)
  have v: "attempt_world idle_env default_config always_raises 0 j = j" for j
    by (induction j) (simp_all add: idle_env_def always_raises_def)
  have hyp2: "\<forall>j<nat (MAX_RETRIES default_config).
      op_fails (fst (always_raises (attempt_world idle_env default_config always_raises 0 j)))"
    unfolding v by (simp add: always_raises_def)
  from handleErrors_retries[of default_config third_time_lucky idle_env 0, THEN conjunct1,
         THEN spec[where x = "3::nat"], THEN spec[where x = "PTuple [PBool True, PStr ''done'']"],
         THEN mp, OF hyp]
       handleErrors_retries[of default_config always_raises idle_env 0, THEN conjunct2, THEN mp, OF hyp2]
  show ?thesis
    by (simp add: w third_time_lucky_def m)
qed

subsection \<open>Test execution\<close>

lemma executeTests_attempts_step:
  assumes "execInPod env cfg controllerPodName command None (Some envVars) w = ((returnCode, out, err), w')"
  shows "executeTests_attempts env cfg controllerPodName command envVars (attempt # rest) prev w
           = (if attempt_succeeds returnCode out then (Inr (True, out), w')
              else executeTests_attempts env cfg controllerPodName command envVars rest
                     (Some (out, err)) (retry_pause env cfg attempt w'))"
  using assms by (auto simp: attempt_succeeds_def)

lemma executeTests_attempts_skip:
  assumes "int k < MAX_RETRIES cfg"
    and "\<forall>j<k. \<not> attempt_ok env cfg controllerPodName command envVars
                    (test_world env cfg controllerPodName command envVars w j)"
  shows "\<exists>prev'. executeTests_attempts env cfg controllerPodName command envVars [1..MAX_RETRIES cfg] prev w
           = executeTests_attempts env cfg controllerPodName command envVars [int k + 1..MAX_RETRIES cfg]
               prev' (test_world env cfg controllerPodName command envVars w k)"
  using assms
proof (induction k)
  case 0
  then show ?case by auto
next
  case (Suc k)
  let ?w = "test_world env cfg controllerPodName command envVars w k"
  obtain rc out err w' where
    e: "execInPod env cfg controllerPodName command None (Some envVars) ?w = ((rc, out, err), w')"
    by (metis prod_cases3 surj_pair)
  from Suc.prems(2) e have no: "\<not> attempt_succeeds rc out" by (auto simp: attempt_ok_def)
  from Suc obtain prev' where
    "executeTests_attempts env cfg controllerPodName command envVars [1..MAX_RETRIES cfg] prev w
       = executeTests_attempts env cfg controllerPodName command envVars [int k + 1..MAX_RETRIES cfg] prev' ?w"
    by auto
  also have "[int k + 1..MAX_RETRIES cfg] = (int k + 1) # [int k + 1 + 1..MAX_RETRIES cfg]"
    using Suc.prems(1) by (simp add: upto_rec1)
  also have "executeTests_attempts env cfg controllerPodName command envVars
               ((int k + 1) # [int k + 1 + 1..MAX_RETRIES cfg]) prev' ?w
             = executeTests_attempts env cfg controllerPodName command envVars [int k + 1 + 1..MAX_RETRIES cfg]
                 (Some (out, err)) (retry_pause env cfg (int k + 1) w')"
    using executeTests_attempts_step[OF e] no by simp
  also have "retry_pause env cfg (int k + 1) w' = test_world env cfg controllerPodName command envVars w (Suc k)"
    using Suc.prems(1) e by (simp add: retry_pause_def)
  finally show ?case by (auto simp: add.commute)
qed

lemma executeTests_attempts_success:
  assumes "int k < MAX_RETRIES cfg"
    and "\<forall>j<k. \<not> attempt_ok env cfg controllerPodName command envVars
                    (test_world env cfg controllerPodName command envVars w j)"
    and "attempt_ok env cfg controllerPodName command envVars
           (test_world env cfg controllerPodName command envVars w k)"
  shows "\<exists>out. fst (executeTests_attempts env cfg controllerPodName command envVars [1..MAX_RETRIES cfg] prev w)
           = Inr (True, out)"
proof -
  let ?w = "test_world env cfg controllerPodName command envVars w k"
  obtain rc out err w' where
    e: "execInPod env cfg controllerPodName command None (Some envVars) ?w = ((rc, out, err), w')"
    by (metis prod_cases3 surj_pair)
  from assms(3) e have yes: "attempt_succeeds rc out" by (auto simp: attempt_ok_def)
  from executeTests_attempts_skip[OF assms(1,2)] obtain prev' where
    "executeTests_attempts env cfg controllerPodName command envVars [1..MAX_RETRIES cfg] prev w
       = executeTests_attempts env cfg controllerPodName command envVars [int k + 1..MAX_RETRIES cfg] prev' ?w"
    by blast
  also have "[int k + 1..MAX_RETRIES cfg] = (int k + 1) # [int k + 1 + 1..MAX_RETRIES cfg]"
    using assms(1) by (simp add: upto_rec1)
  also have "executeTests_attempts env cfg controllerPodName command envVars
               ((int k + 1) # [int k + 1 + 1..MAX_RETRIES cfg]) prev' ?w = (Inr (True, out), w')"
    using executeTests_attempts_step[OF e] yes by simp
  finally show ?thesis by simp
qed

lemma executeTests_attempts_exhausted:
  assumes "\<forall>j<nat (MAX_RETRIES cfg). \<not> attempt_ok env cfg controllerPodName command envVars
                    (test_world env cfg controllerPodName command envVars w j)"
  shows "fst (executeTests_attempts env cfg controllerPodName command envVars [1..MAX_RETRIES cfg] prev w)
           \<noteq> Inr (True, out)"
proof (cases "MAX_RETRIES cfg \<le> 0")
  case True
  then show ?thesis by (cases prev) (auto simp: case_prod_unfold)
next
  case False
  define k where "k = nat (MAX_RETRIES cfg) - 1"
  have k: "int k < MAX_RETRIES cfg" "int k + 1 = MAX_RETRIES cfg" "k < nat (MAX_RETRIES cfg)"
    using False by (auto simp: k_def)
  let ?w = "test_world env cfg controllerPodName command envVars w k"
  obtain rc out' err w' where
    e: "execInPod env cfg controllerPodName command None (Some envVars) ?w = ((rc, out', err), w')"
    by (metis prod_cases3 surj_pair)
  from assms k(3) e have no: "\<not> attempt_succeeds rc out'" by (auto simp: attempt_ok_def)
  have prefix: "\<forall>j<k. \<not> attempt_ok env cfg controllerPodName command envVars
                    (test_world env cfg controllerPodName command envVars w j)"
    using assms k(3) by auto
  from executeTests_attempts_skip[OF k(1) prefix] k(2) obtain prev' where
    "executeTests_attempts env cfg controllerPodName command envVars [1..MAX_RETRIES cfg] prev w
       = executeTests_attempts env cfg controllerPodName command envVars [MAX_RETRIES cfg..MAX_RETRIES cfg] prev' ?w"
    by auto
  also have "\<dots> = executeTests_attempts env cfg controllerPodName command envVars []
                     (Some (out', err)) (retry_pause env cfg (MAX_RETRIES cfg) w')"
    using executeTests_attempts_step[OF e] no by simp
  finally show ?thesis by simp
qed

lemma executeTests_attempts_at:
  assumes "int k < MAX_RETRIES cfg"
    and "\<forall>j<k. \<not> attempt_ok env cfg controllerPodName command envVars
                    (test_world env cfg controllerPodName command envVars w j)"
    and "execInPod env cfg controllerPodName command None (Some envVars)
           (test_world env cfg controllerPodName command envVars w k) = ((returnCode, out, err), w')"
  shows "executeTests_attempts env cfg controllerPodName command envVars [1..MAX_RETRIES cfg] prev w
           = (if attempt_succeeds returnCode out then (Inr (True, out), w')
              else if int k + 1 < MAX_RETRIES cfg
              then executeTests_attempts env cfg controllerPodName command envVars [int k + 2..MAX_RETRIES cfg]
                     (Some (out, err)) (sleep env (RETRY_DELAY cfg) w')
              else (Inr (False, if out \<noteq> [] then out else err), w'))"
proof -
  let ?w = "test_world env cfg controllerPodName command envVars w k"
  from executeTests_attempts_skip[OF assms(1,2)] obtain prev' where
    "executeTests_attempts env cfg controllerPodName command envVars [1..MAX_RETRIES cfg] prev w
       = executeTests_attempts env cfg controllerPodName command envVars [int k + 1..MAX_RETRIES cfg] prev' ?w"
    by blast
  also have "[int k + 1..MAX_RETRIES cfg] = (int k + 1) # [int k + 1 + 1..MAX_RETRIES cfg]"
    using assms(1) by (simp add: upto_rec1)
  also have "int k + 1 + 1 = int k + 2" by simp
  also have "executeTests_attempts env cfg controllerPodName command envVars
               ((int k + 1) # [int k + 2..MAX_RETRIES cfg]) prev' ?w
             = (if attempt_succeeds returnCode out then (Inr (True, out), w')
                else executeTests_attempts env cfg controllerPodName command envVars [int k + 2..MAX_RETRIES cfg]
                       (Some (out, err)) (retry_pause env cfg (int k + 1) w'))"
    by (rule executeTests_attempts_step[OF assms(3)])
  also have "\<dots> = (if attempt_succeeds returnCode out then (Inr (True, out), w')
              else if int k + 1 < MAX_RETRIES cfg
              then executeTests_attempts env cfg controllerPodName command envVars [int k + 2..MAX_RETRIES cfg]
                     (Some (out, err)) (sleep env (RETRY_DELAY cfg) w')
              else (Inr (False, if out \<noteq> [] then out else err), w'))"
    using assms(1) by (simp add: retry_pause_def)
  finally show ?thesis .
qed

lemma executeTests_attempts_iff:
  "(\<exists>payload. fst (executeTests_attempts env cfg controllerPodName command envVars (attempts cfg) None w0)
                  = Inr (True, payload))
     \<longleftrightarrow> (\<exists>k<nat (MAX_RETRIES cfg).
            attempt_ok env cfg controllerPodName command envVars
              (test_world env cfg controllerPodName command envVars w0 k))"
  (is "?L \<longleftrightarrow> ?R")
proof
  assume ?L
  then show ?R using executeTests_attempts_exhausted[of cfg env controllerPodName command envVars w0 None]
    by (auto simp: attempts_def)
next
  assume ?R
  then obtain k where
    k: "k < nat (MAX_RETRIES cfg) \<and> attempt_ok env cfg controllerPodName command envVars
          (test_world env cfg controllerPodName command envVars w0 k)"
    by blast
  define P where "P j \<longleftrightarrow> j < nat (MAX_RETRIES cfg) \<and> attempt_ok env cfg controllerPodName command envVars
          (test_world env cfg controllerPodName command envVars w0 j)" for j
  from k have "\<exists>j. P j" by (auto simp: P_def)
  then obtain m where m: "P m" "\<forall>j<m. \<not> P j" by (auto simp: exists_least_iff[of P])
  have "int m < MAX_RETRIES cfg" using m(1) by (auto simp: P_def)
  moreover have "\<forall>j<m. \<not> attempt_ok env cfg controllerPodName command envVars
                  (test_world env cfg controllerPodName command envVars w0 j)"
    using m by (auto simp: P_def)
  moreover have "attempt_ok env cfg controllerPodName command envVars
         (test_world env cfg controllerPodName command envVars w0 m)"
    using m(1) by (simp add: P_def)
  ultimately show ?L
    using executeTests_attempts_success[of m cfg env controllerPodName command envVars w0 None]
    by (simp add: attempts_def)
qed

lemma py_in_lower_iff:
  "py_in needle (py_lower s) \<longleftrightarrow> (\<exists>pre mid post. s = pre @ mid @ post \<and> py_lower mid = needle)"
proof
  assume "py_in needle (py_lower s)"
  then obtain a b where "map py_lower_char s = a @ needle @ b" by (auto simp: py_in_iff py_lower_def)
  then obtain pre rest where p: "s = pre @ rest" "needle @ b = map py_lower_char rest"
    by (auto simp: map_eq_append_conv)
  then obtain mid post where "rest = mid @ post" "map py_lower_char mid = needle"
    by (auto simp: append_eq_map_conv)
  with p show "\<exists>pre mid post. s = pre @ mid @ post \<and> py_lower mid = needle"
    by (auto simp: py_lower_def)
next
  assume "\<exists>pre mid post. s = pre @ mid @ post \<and> py_lower mid = needle"
  then obtain pre mid post where "s = pre @ mid @ post" "py_lower mid = needle" by blast
  then have "py_lower s = py_lower pre @ needle @ py_lower post" by (auto simp: py_lower_def)
  then show "py_in needle (py_lower s)" unfolding py_in_iff by blast
qed

lemma executeTests_loop:
  assumes "getPodName env cfg (CONTROLLER_POD_LABEL cfg) w = (Some controllerPodName, w1)"
    and "controllerPodName \<noteq> []"
    and "getAvailableChromeNode env cfg w1 = (Some availableNode, w2)"
    and "availableNode \<noteq> []"
  shows "executeTests env cfg testPath specificTests w
           = executeTests_attempts env cfg controllerPodName (testCommand testPath specificTests)
               [(''HEADLESS'', ''true''), (''REMOTE_URL'', ''http://'' @ availableNode @ '':4444'')]
               (attempts cfg) None w2"
  using assms by (simp add: executeTests_def)

text \<open>
  C5. Let \<open>executeTests\<close> find the controller pod and a free worker; it then runs the
  test command in the controller pod, with the head-less flag and the address of the
  worker in the environment, up to \<open>MAX_RETRIES\<close> times. Take attempt \<open>k + 1\<close>, reached
  because the attempts before it failed, and any result (exit code, output, errors) of
  its exec. If the exit code is zero, or the output contains \<open>passed\<close> and does not
  contain \<open>failed\<close> in any letter case, \<open>executeTests\<close> returns success with that output.
  Otherwise the attempt is a failure: when another attempt is left, \<open>executeTests\<close>
  sleeps for \<open>RETRY_DELAY\<close> and goes on with the attempts that remain; when none is left,
  it returns failure with the output of this attempt, or its errors when the output is
  empty. So \<open>executeTests\<close> reports success exactly when one of the \<open>MAX_RETRIES\<close> attempts
  succeeds in this sense.
\<close>

theorem executeTests_attempt_success_iff:
  assumes "getPodName env cfg (CONTROLLER_POD_LABEL cfg) w = (Some controllerPodName, w1)"
    and "controllerPodName \<noteq> []"
    and "getAvailableChromeNode env cfg w1 = (Some availableNode, w2)"
    and "availableNode \<noteq> []"
    and "command = testCommand testPath specificTests"
    and "envVars = [(''HEADLESS'', ''true''), (''REMOTE_URL'', ''http://'' @ availableNode @ '':4444'')]"
  shows
    "(\<forall>k returnCode out err w'.
        int k < MAX_RETRIES cfg
        \<and> (\<forall>j<k. \<not> attempt_ok env cfg controllerPodName command envVars
                      (test_world env cfg controllerPodName command envVars w2 j))
        \<and> execInPod env cfg controllerPodName command None (Some envVars)
             (test_world env cfg controllerPodName command envVars w2 k) = ((returnCode, out, err), w')
      \<longrightarrow> executeTests env cfg testPath specificTests w
            = (if returnCode = 0 \<or> (py_in ''passed'' (py_lower out) \<and> \<not> py_in ''failed'' (py_lower out))
               then (Inr (True, out), w')
               else if int k + 1 < MAX_RETRIES cfg
               then executeTests_attempts env cfg controllerPodName command envVars [int k + 2..MAX_RETRIES cfg]
                      (Some (out, err)) (sleep env (RETRY_DELAY cfg) w')
               else (Inr (False, if out \<noteq> [] then out else err), w')))
     \<and> (\<forall>w0. attempt_ok env cfg controllerPodName command envVars w0
           \<longleftrightarrow> (\<exists>returnCode out err w'.
                  execInPod env cfg controllerPodName command None (Some envVars) w0 = ((returnCode, out, err), w')
                  \<and> (returnCode = 0 \<or> (py_in ''passed'' (py_lower out) \<and> \<not> py_in ''failed'' (py_lower out)))))
     \<and> (\<forall>out. py_in ''passed'' (py_lower out)
           \<longleftrightarrow> (\<exists>pre mid post. out = pre @ mid @ post \<and> py_lower mid = ''passed''))
     \<and> (\<forall>out. py_in ''failed'' (py_lower out)
           \<longleftrightarrow> (\<exists>pre mid post. out = pre @ mid @ post \<and> py_lower mid = ''failed''))
     \<and> ((\<exists>payload. fst (executeTests env cfg testPath specificTests w) = Inr (True, payload))
          \<longleftrightarrow> (\<exists>k<nat (MAX_RETRIES cfg).
                 attempt_ok env cfg controllerPodName command envVars
                   (test_world env cfg controllerPodName command envVars w2 k)))"
proof -
  have run: "executeTests env cfg testPath specificTests w
               = executeTests_attempts env cfg controllerPodName command envVars (attempts cfg) None w2"
    unfolding assms(5,6) using assms(1-4) by (rule executeTests_loop)
  have at: "\<forall>k returnCode out err w'.
        int k < MAX_RETRIES cfg
        \<and> (\<forall>j<k. \<not> attempt_ok env cfg controllerPodName command envVars
                      (test_world env cfg controllerPodName command envVars w2 j))
        \<and> execInPod env cfg controllerPodName command None (Some envVars)
             (test_world env cfg controllerPodName command envVars w2 k) = ((returnCode, out, err), w')
      \<longrightarrow> executeTests env cfg testPath specificTests w
            = (if returnCode = 0 \<or> (py_in ''passed'' (py_lower out) \<and> \<not> py_in ''failed'' (py_lower out))
               then (Inr (True, out), w')
               else if int k + 1 < MAX_RETRIES cfg
               then executeTests_attempts env cfg controllerPodName command envVars [int k + 2..MAX_RETRIES cfg]
                      (Some (out, err)) (sleep env (RETRY_DELAY cfg) w')
               else (Inr (False, if out \<noteq> [] then out else err), w'))"
    unfolding run attempts_def attempt_succeeds_def[symmetric]
    using executeTests_attempts_at[of _ cfg env controllerPodName command envVars w2 _ _ _ _ None]
    by blast
  have ok: "\<forall>w0. attempt_ok env cfg controllerPodName command envVars w0
           \<longleftrightarrow> (\<exists>returnCode out err w'.
                  execInPod env cfg controllerPodName command None (Some envVars) w0 = ((returnCode, out, err), w')
                  \<and> (returnCode = 0 \<or> (py_in ''passed'' (py_lower out) \<and> \<not> py_in ''failed'' (py_lower out))))"
    by (auto simp: attempt_ok_def attempt_succeeds_def split: prod.splits)
  have passed: "\<forall>out. py_in ''passed'' (py_lower out)
           \<longleftrightarrow> (\<exists>pre mid post. out = pre @ mid @ post \<and> py_lower mid = ''passed'')"
    and failed: "\<forall>out. py_in ''failed'' (py_lower out)
           \<longleftrightarrow> (\<exists>pre mid post. out = pre @ mid @ post \<and> py_lower mid = ''failed'')"
    by (simp_all only: py_in_lower_iff simp_thms)
  have iff: "(\<exists>payload. fst (executeTests env cfg testPath specificTests w) = Inr (True, payload))
          \<longleftrightarrow> (\<exists>k<nat (MAX_RETRIES cfg).
                 attempt_ok env cfg controllerPodName command envVars
                   (test_world env cfg controllerPodName command envVars w2 k))"
    unfolding run by (rule executeTests_attempts_iff)
  from at ok passed failed iff show ?thesis by (intro conjI)
qed

lemma attempts_default: "attempts default_config = [1, 2, 3]"
  by (simp add: attempts_def default_config_def upto.simps)

lemmas tests_defs =
  tests_env_def test_line_def test_env_vars_def testCommand_def executeTests_def
  getAvailableChromeNode_def attempts_def retry_pause_def py_lower_simps

lemma tests_env_exec:
  "execInPod (tests_env reply) default_config ''test-case-controller-0'' (testCommand ''tests/'' None)
      None (Some (test_env_vars ''chrome-node-1'')) ()
     = (case reply of
          Exec_Done rc out err \<Rightarrow> (((case rc of None \<Rightarrow> 0 | Some c \<Rightarrow> c), out, err), ())
        | Exec_Raised e \<Rightarrow> ((1, [], e), ()))"
  by (cases reply) (simp_all add: tests_defs scenario_defs)

lemma tests_env_found:
  "getPodName (tests_env reply) default_config (CONTROLLER_POD_LABEL default_config) ()
     = (Some ''test-case-controller-0'', ())"
  "getAvailableChromeNode (tests_env reply) default_config ()
     = (Some ''chrome-node-1.chrome-node-headless.insider-testops.svc.cluster.local'', ())"
  by (simp_all add: getAvailableChromeNode_def tests_env_def scenario_defs)

lemma test_env_vars_worker:
  "test_env_vars ''chrome-node-1''
     = [(''HEADLESS'', ''true''),
        (''REMOTE_URL'', ''http://'' @ ''chrome-node-1.chrome-node-headless.insider-testops.svc.cluster.local'' @ '':4444'')]"
  by (simp add: test_env_vars_def getChromeNodeDns_def default_config_def)

theorem executeTests_attempt_success_iff_witness:
  "getPodName (tests_env (Exec_Done (Some 1) ''3 passed in 1.20s'' [])) default_config
      (CONTROLLER_POD_LABEL default_config) ()
     = (Some ''test-case-controller-0'', ())
   \<and> getAvailableChromeNode (tests_env (Exec_Done (Some 1) ''3 passed in 1.20s'' [])) default_config ()
     = (Some ''chrome-node-1.chrome-node-headless.insider-testops.svc.cluster.local'', ())
   \<and> execInPod (tests_env (Exec_Done (Some 1) ''3 passed in 1.20s'' [])) default_config
        ''test-case-controller-0'' (testCommand ''tests/'' None) None (Some (test_env_vars ''chrome-node-1'')) ()
     = ((1, ''3 passed in 1.20s'', []), ())
   \<and> executeTests (tests_env (Exec_Done (Some 1) ''3 passed in 1.20s'' [])) default_config ''tests/'' None ()
     = (Inr (True, ''3 passed in 1.20s''), ())
   \<and> execInPod (tests_env (Exec_Done (Some 1) ''1 failed, 2 passed in 1.20s'' ''E'')) default_config
        ''test-case-controller-0'' (testCommand ''tests/'' None) None (Some (test_env_vars ''chrome-node-1'')) ()
     = ((1, ''1 failed, 2 passed in 1.20s'', ''E''), ())
   \<and> executeTests (tests_env (Exec_Done (Some 1) ''1 failed, 2 passed in 1.20s'' ''E'')) default_config
        ''tests/'' None ()
     = (Inr (False, ''1 failed, 2 passed in 1.20s''), ())"
proof -
  let ?good = "tests_env (Exec_Done (Some 1) ''3 passed in 1.20s'' [])"
  let ?bad = "tests_env (Exec_Done (Some 1) ''1 failed, 2 passed in 1.20s'' ''E'')"
  let ?node = "''chrome-node-1.chrome-node-headless.insider-testops.svc.cluster.local''"
  have M: "MAX_RETRIES default_config = 3" by (simp add: default_config_def)
  have c: "''test-case-controller-0'' \<noteq> []" and n: "?node \<noteq> []" by simp_all
  have eg: "execInPod ?good default_config ''test-case-controller-0'' (testCommand ''tests/'' None)
              None (Some (test_env_vars ''chrome-node-1'')) w0 = ((1, ''3 passed in 1.20s'', []), ())" for w0
    by (simp add: tests_env_exec)
  have eb: "execInPod ?bad default_config ''test-case-controller-0'' (testCommand ''tests/'' None)
              None (Some (test_env_vars ''chrome-node-1'')) w0 = ((1, ''1 failed, 2 passed in 1.20s'', ''E''), ())" for w0
    by (simp add: tests_env_exec)
  have no: "\<not> attempt_ok ?bad default_config ''test-case-controller-0'' (testCommand ''tests/'' None)
                (test_env_vars ''chrome-node-1'') w0" for w0
    by (simp add: attempt_ok_def eb attempt_succeeds_def py_lower_simps)
  have hg: "int 0 < MAX_RETRIES default_config
        \<and> (\<forall>j<0. \<not> attempt_ok ?good default_config ''test-case-controller-0'' (testCommand ''tests/'' None)
                      (test_env_vars ''chrome-node-1'')
                      (test_world ?good default_config ''test-case-controller-0'' (testCommand ''tests/'' None)
                         (test_env_vars ''chrome-node-1'') () j))
        \<and> execInPod ?good default_config ''test-case-controller-0'' (testCommand ''tests/'' None) None
             (Some (test_env_vars ''chrome-node-1''))
             (test_world ?good default_config ''test-case-controller-0'' (testCommand ''tests/'' None)
                (test_env_vars ''chrome-node-1'') () 0) = ((1, ''3 passed in 1.20s'', []), ())"
    by (simp add: M eg)
  have hb: "int 2 < MAX_RETRIES default_config
        \<and> (\<forall>j<2. \<not> attempt_ok ?bad default_config ''test-case-controller-0'' (testCommand ''tests/'' None)
                      (test_env_vars ''chrome-node-1'')
                      (test_world ?bad default_config ''test-case-controller-0'' (testCommand ''tests/'' None)
                         (test_env_vars ''chrome-node-1'') () j))
        \<and> execInPod ?bad default_config ''test-case-controller-0'' (testCommand ''tests/'' None) None
             (Some (test_env_vars ''chrome-node-1''))
             (test_world ?bad default_config ''test-case-controller-0'' (testCommand ''tests/'' None)
                (test_env_vars ''chrome-node-1'') () 2) = ((1, ''1 failed, 2 passed in 1.20s'', ''E''), ())"
    by (simp add: M eb no)
  note good = executeTests_attempt_success_iff[where env = ?good and cfg = default_config and w = "()"
      and controllerPodName = "''test-case-controller-0''" and ?w1.0 = "()" and availableNode = ?node
      and ?w2.0 = "()" and command = "testCommand ''tests/'' None" and testPath = "''tests/''"
      and specificTests = None and envVars = "test_env_vars ''chrome-node-1''",
      OF tests_env_found(1) c tests_env_found(2) n refl test_env_vars_worker,
      THEN conjunct1, THEN spec[where x = 0], THEN spec[where x = 1],
      THEN spec[where x = "''3 passed in 1.20s''"], THEN spec[where x = "[]"], THEN spec[where x = "()"],
      THEN mp, OF hg]
  note bad = executeTests_attempt_success_iff[where env = ?bad and cfg = default_config and w = "()"
      and controllerPodName = "''test-case-controller-0''" and ?w1.0 = "()" and availableNode = ?node
      and ?w2.0 = "()" and command = "testCommand ''tests/'' None" and testPath = "''tests/''"
      and specificTests = None and envVars = "test_env_vars ''chrome-node-1''",
      OF tests_env_found(1) c tests_env_found(2) n refl test_env_vars_worker,
      THEN conjunct1, THEN spec[where x = 2], THEN spec[where x = 1],
      THEN spec[where x = "''1 failed, 2 passed in 1.20s''"], THEN spec[where x = "''E''"],
      THEN spec[where x = "()"], THEN mp, OF hb]
  have g: "executeTests ?good default_config ''tests/'' None () = (Inr (True, ''3 passed in 1.20s''), ())"
    using good by (simp add: py_lower_simps)
  have b: "executeTests ?bad default_config ''tests/'' None () = (Inr (False, ''1 failed, 2 passed in 1.20s''), ())"
    using bad by (simp add: M py_lower_simps)
  from tests_env_found[of "Exec_Done (Some 1) ''3 passed in 1.20s'' []"] eg[of "()"] g eb[of "()"] b
  show ?thesis by (intro conjI)
qed

lemma zero_failed_contains_failed:
  assumes "py_in ''Tests passed, 0 failed'' out"
  shows "py_in ''failed'' (py_lower out)"
proof -
  have "py_in (py_lower ''Tests passed, 0 failed'') (py_lower out)"
    using assms by (rule py_in_lower)
  moreover have "py_in ''failed'' (py_lower ''Tests passed, 0 failed'')"
    by (simp add: py_lower_simps)
  ultimately show ?thesis by (rule py_in_trans[rotated])
qed

text \<open>
  C6, as amended. Let the test command exit non-zero. If its output contains \<open>passed\<close>
  and does not contain \<open>failed\<close>, in any letter case (as in \<open>3 passed in 1.20s\<close>), the
  attempt reports success with that output: this is the textual fallback, the exit code
  path being closed. If its output contains \<open>Tests passed, 0 failed\<close>, it contains
  \<open>failed\<close>, and the attempt is a failure: the loop goes on with the next attempt.
\<close>

theorem executeTests_text_fallback:
  assumes "execInPod env cfg controllerPodName command None (Some envVars) w = ((returnCode, out, err), w')"
    and "returnCode \<noteq> 0"
  shows
    "(py_in ''passed'' (py_lower out) \<and> \<not> py_in ''failed'' (py_lower out)
        \<longrightarrow> executeTests_attempts env cfg controllerPodName command envVars (attempt # rest) prev w
              = (Inr (True, out), w'))
     \<and> (py_in ''Tests passed, 0 failed'' out
        \<longrightarrow> executeTests_attempts env cfg controllerPodName command envVars (attempt # rest) prev w
              = executeTests_attempts env cfg controllerPodName command envVars rest (Some (out, err))
                  (if attempt < MAX_RETRIES cfg then sleep env (RETRY_DELAY cfg) w' else w'))"
proof -
  note step = executeTests_attempts_step[OF assms(1), of attempt rest prev]
  have a: "py_in ''passed'' (py_lower out) \<and> \<not> py_in ''failed'' (py_lower out)
        \<longrightarrow> executeTests_attempts env cfg controllerPodName command envVars (attempt # rest) prev w
              = (Inr (True, out), w')"
    using step by (simp add: attempt_succeeds_def)
  have b: "py_in ''Tests passed, 0 failed'' out
        \<longrightarrow> executeTests_attempts env cfg controllerPodName command envVars (attempt # rest) prev w
              = executeTests_attempts env cfg controllerPodName command envVars rest (Some (out, err))
                  (if attempt < MAX_RETRIES cfg then sleep env (RETRY_DELAY cfg) w' else w')"
    using step assms(2) zero_failed_contains_failed[of out]
    by (auto simp: attempt_succeeds_def retry_pause_def)
  from a b show ?thesis by blast
qed

theorem executeTests_text_fallback_witness:
  "execInPod (tests_env (Exec_Done (Some 2) ''collected 3 items: 3 PASSED'' [])) default_config
      ''test-case-controller-0'' (testCommand ''tests/'' None) None (Some (test_env_vars ''chrome-node-1'')) ()
     = ((2, ''collected 3 items: 3 PASSED'', []), ())
   \<and> py_in ''passed'' (py_lower ''collected 3 items: 3 PASSED'')
   \<and> \<not> py_in ''failed'' (py_lower ''collected 3 items: 3 PASSED'')
   \<and> executeTests_attempts (tests_env (Exec_Done (Some 2) ''collected 3 items: 3 PASSED'' [])) default_config
        ''test-case-controller-0'' (testCommand ''tests/'' None) (test_env_vars ''chrome-node-1'')
        [1, 2, 3] None ()
     = (Inr (True, ''collected 3 items: 3 PASSED''), ())"
proof -
  have e: "execInPod (tests_env (Exec_Done (Some 2) ''collected 3 items: 3 PASSED'' [])) default_config
      ''test-case-controller-0'' (testCommand ''tests/'' None) None (Some (test_env_vars ''chrome-node-1'')) ()
     = ((2, ''collected 3 items: 3 PASSED'', []), ())"
    by (simp add: tests_env_exec)
  have n: "(2::int) \<noteq> 0" by simp
  have p: "py_in ''passed'' (py_lower ''collected 3 items: 3 PASSED'')
           \<and> \<not> py_in ''failed'' (py_lower ''collected 3 items: 3 PASSED'')"
    by (simp add: py_lower_simps)
  from executeTests_text_fallback[OF e n, of 1 "[2, 3]" None, THEN conjunct1, THEN mp, OF p] e p
  show ?thesis by simp
qed

text \<open>
  C6 as stated fails: the command exits with code 1 and prints \<open>Tests passed, 0 failed\<close>
  on each of the three attempts, and \<open>executeTests\<close> reports failure.
\<close>

theorem executeTests_zero_failed_is_failure:
  "execInPod (tests_env (Exec_Done (Some 1) ''Tests passed, 0 failed'' [])) default_config
      ''test-case-controller-0'' (testCommand ''tests/'' None) None (Some (test_env_vars ''chrome-node-1'')) ()
     = ((1, ''Tests passed, 0 failed'', []), ())
   \<and> py_in ''Tests passed, 0 failed'' ''Tests passed, 0 failed''
   \<and> executeTests (tests_env (Exec_Done (Some 1) ''Tests passed, 0 failed'' [])) default_config ''tests/'' None ()
     = (Inr (False, ''Tests passed, 0 failed''), ())"
proof -
  let ?env = "tests_env (Exec_Done (Some 1) ''Tests passed, 0 failed'' [])"
  have e: "execInPod ?env default_config ''test-case-controller-0'' (testCommand ''tests/'' None)
             None (Some (test_env_vars ''chrome-node-1'')) ()
           = ((1, ''Tests passed, 0 failed'', []), ())"
    by (simp add: tests_env_exec)
  have no: "\<not> attempt_succeeds 1 ''Tests passed, 0 failed''"
    by (simp add: attempt_succeeds_def py_lower_simps)
  have loop: "executeTests_attempts ?env default_config ''test-case-controller-0'' (testCommand ''tests/'' None)
                (test_env_vars ''chrome-node-1'') [1, 2, 3] None ()
              = (Inr (False, ''Tests passed, 0 failed''), ())"
    by (simp only: executeTests_attempts_step[OF e] no if_False unit_eq[of "retry_pause _ _ _ _"])
       (simp add: unit_eq[of "retry_pause _ _ _ _"])
  have ctrl: "getPodName ?env default_config (CONTROLLER_POD_LABEL default_config) ()
                = (Some ''test-case-controller-0'', ())"
    by (simp add: tests_env_def scenario_defs)
  have sel: "getAvailableChromeNode ?env default_config ()
               = (Some (getChromeNodeDns default_config ''chrome-node-1''), ())"
    by (simp add: getAvailableChromeNode_def tests_env_def scenario_defs)
  have "executeTests ?env default_config ''tests/'' None ()
          = (Inr (False, ''Tests passed, 0 failed''), ())"
    using loop by (simp add: executeTests_def ctrl sel attempts_default test_env_vars_def getChromeNodeDns_def)
  with e show ?thesis by simp
qed

subsection \<open>Test collection and the driver\<close>

lemma passTestCases_attempts_none:
  assumes "\<forall>name w0. collect_test_ids (fst (snd (fst (execInPod env cfg name collectCommand None None w0)))) = []"
  shows "fst (passTestCases_attempts env cfg as w) = []"
proof (induction as arbitrary: w)
  case Nil
  then show ?case by simp
next
  case (Cons attempt rest)
  obtain c w1 where c: "getPodName env cfg (CONTROLLER_POD_LABEL cfg) w = (c, w1)"
    by (cases "getPodName env cfg (CONTROLLER_POD_LABEL cfg) w")
  obtain rc out err w2 where e: "execInPod env cfg (name_of c) collectCommand None None w1 = ((rc, out, err), w2)"
    by (metis prod_cases3 surj_pair)
  from assms e have "collect_test_ids out = []"
    by (metis fst_conv snd_conv)
  with c e Cons.IH show ?case by (simp add: Let_def)
qed

lemma passTestCases_attempts_empty_round:
  assumes "i \<le> MAX_RETRIES cfg" "round_empty env cfg w"
  shows "passTestCases_attempts env cfg [i..MAX_RETRIES cfg] w
           = (if i < MAX_RETRIES cfg
              then passTestCases_attempts env cfg [i + 1..MAX_RETRIES cfg]
                     (sleep env (RETRY_DELAY cfg) (snd (collect_round env cfg w)))
              else ([], snd (collect_round env cfg w)))"
proof -
  have l: "[i..MAX_RETRIES cfg] = i # [i + 1..MAX_RETRIES cfg]"
    using assms(1) by (simp add: upto_rec1)
  obtain c w1 where c: "getPodName env cfg (CONTROLLER_POD_LABEL cfg) w = (c, w1)"
    by (cases "getPodName env cfg (CONTROLLER_POD_LABEL cfg) w")
  obtain rc out err w2 where e: "execInPod env cfg (name_of c) collectCommand None None w1 = ((rc, out, err), w2)"
    by (metis prod_cases3 surj_pair)
  show ?thesis
  proof (cases "name_missing c")
    case True
    with c show ?thesis unfolding l by (simp add: collect_round_def)
  next
    case False
    with assms(2) c e have "collect_test_ids out = []"
      by (simp add: round_empty_def collect_round_def)
    with False c e assms(1) show ?thesis
      unfolding l by (simp add: collect_round_def Let_def retry_pause_def)
  qed
qed

lemma passTestCases_attempts_found_round:
  assumes "i \<le> MAX_RETRIES cfg" "fst (collect_round env cfg w) = Some out" "collect_test_ids out \<noteq> []"
  shows "passTestCases_attempts env cfg [i..MAX_RETRIES cfg] w = (collect_test_ids out, snd (collect_round env cfg w))"
proof -
  have l: "[i..MAX_RETRIES cfg] = i # [i + 1..MAX_RETRIES cfg]"
    using assms(1) by (simp add: upto_rec1)
  obtain c w1 where c: "getPodName env cfg (CONTROLLER_POD_LABEL cfg) w = (c, w1)"
    by (cases "getPodName env cfg (CONTROLLER_POD_LABEL cfg) w")
  obtain rc out' err w2 where e: "execInPod env cfg (name_of c) collectCommand None None w1 = ((rc, out', err), w2)"
    by (metis prod_cases3 surj_pair)
  from assms(2) c e have "\<not> name_missing c" "out' = out"
    by (auto simp: collect_round_def split: if_splits)
  with c e assms(3) show ?thesis
    unfolding l by (simp add: collect_round_def Let_def)
qed

lemma passTestCases_attempts_skip:
  assumes "int k < MAX_RETRIES cfg"
    and "\<forall>j<k. round_empty env cfg (collect_world env cfg w j)"
  shows "passTestCases_attempts env cfg [1..MAX_RETRIES cfg] w
           = passTestCases_attempts env cfg [int k + 1..MAX_RETRIES cfg] (collect_world env cfg w k)"
  using assms
proof (induction k)
  case 0
  then show ?case by simp
next
  case (Suc k)
  have "passTestCases_attempts env cfg [1..MAX_RETRIES cfg] w
          = passTestCases_attempts env cfg [int k + 1..MAX_RETRIES cfg] (collect_world env cfg w k)"
    using Suc by simp
  also have "\<dots> = passTestCases_attempts env cfg [int k + 1 + 1..MAX_RETRIES cfg]
                     (sleep env (RETRY_DELAY cfg) (snd (collect_round env cfg (collect_world env cfg w k))))"
    using Suc.prems passTestCases_attempts_empty_round[of "int k + 1" cfg env "collect_world env cfg w k"]
    by simp
  finally show ?case by (simp add: add.commute)
qed

lemma passTestCases_found_at:
  assumes "int k < MAX_RETRIES cfg"
    and "\<forall>j<k. round_empty env cfg (collect_world env cfg w j)"
    and "fst (collect_round env cfg (collect_world env cfg w k)) = Some out"
    and "collect_test_ids out \<noteq> []"
  shows "passTestCases env cfg w
           = (collect_test_ids out, snd (collect_round env cfg (collect_world env cfg w k)))"
proof -
  have "passTestCases env cfg w
          = passTestCases_attempts env cfg [int k + 1..MAX_RETRIES cfg] (collect_world env cfg w k)"
    using passTestCases_attempts_skip[OF assms(1,2)] by (simp add: passTestCases_def attempts_def)
  also have "\<dots> = (collect_test_ids out, snd (collect_round env cfg (collect_world env cfg w k)))"
    using assms(1) by (intro passTestCases_attempts_found_round assms(3,4)) simp
  finally show ?thesis .
qed

lemma passTestCases_all_empty:
  assumes "\<forall>j<nat (MAX_RETRIES cfg). round_empty env cfg (collect_world env cfg w j)"
  shows "passTestCases env cfg w
           = ([], if MAX_RETRIES cfg \<le> 0 then w
                  else snd (collect_round env cfg (collect_world env cfg w (nat (MAX_RETRIES cfg) - 1))))"
proof (cases "MAX_RETRIES cfg \<le> 0")
  case True
  then show ?thesis by (simp add: passTestCases_def attempts_def)
next
  case False
  define k where "k = nat (MAX_RETRIES cfg) - 1"
  have k: "int k < MAX_RETRIES cfg" "int k + 1 = MAX_RETRIES cfg" "k < nat (MAX_RETRIES cfg)"
    using False by (auto simp: k_def)
  have prefix: "\<forall>j<k. round_empty env cfg (collect_world env cfg w j)"
    using assms k(3) by auto
  have last: "round_empty env cfg (collect_world env cfg w k)"
    using assms k(3) by blast
  have "passTestCases env cfg w
          = passTestCases_attempts env cfg [MAX_RETRIES cfg..MAX_RETRIES cfg] (collect_world env cfg w k)"
    using passTestCases_attempts_skip[OF k(1) prefix] k(2) by (simp add: passTestCases_def attempts_def)
  also have "\<dots> = ([], snd (collect_round env cfg (collect_world env cfg w k)))"
    using passTestCases_attempts_empty_round[of "MAX_RETRIES cfg" cfg env "collect_world env cfg w k"] last
    by simp
  finally show ?thesis using False by (simp add: k_def)
qed


text \<open>
  C7. A test identifier is an output line of the collection command, stripped of the
  white space at its two ends, that contains \<open>::\<close> and does not start with \<open>=\<close>, \<open>-\<close>
  or a space; \<open>collect_test_ids\<close> gives these lines in the order of the output. The
  lines are the pieces of the output between line feeds, and stripping removes the
  longest runs of white space (code points 9 to 13, 28 to 32, 133 and 160) at the two
  ends. Test collection retries until a round finds a test identifier or the attempts are
  used up: if the rounds before round \<open>k + 1\<close> find none and round \<open>k + 1\<close>, one of the
  \<open>MAX_RETRIES\<close> attempts, prints at least one qualifying line, \<open>passTestCases\<close> returns
  the identifiers of that round; if none of the \<open>MAX_RETRIES\<close> rounds prints a qualifying
  line, \<open>passTestCases\<close> returns the empty list. When the first three stages of \<open>run\<close>
  have gone through and the collection returns the empty list, \<open>run\<close> goes on: its result
  is the result of \<open>executeTests\<close> on the path \<open>tests/\<close> with no specific tests, whose
  command runs the whole \<open>tests/\<close> directory.
\<close>

theorem collection_failure_falls_back:
  "collect_test_ids printed
     = filter (\<lambda>line. (\<exists>pre post. line = pre @ ''::'' @ post)
                     \<and> (\<forall>rest. line \<noteq> CHR ''='' # rest \<and> line \<noteq> CHR ''-'' # rest \<and> line \<noteq> CHR '' '' # rest))
         (map py_strip (py_split_lines printed))
   \<and> py_join [CHR 0x0A] (py_split_lines printed) = printed
   \<and> (\<forall>l\<in>set (py_split_lines printed). CHR 0x0A \<notin> set l)
   \<and> (\<exists>l r. line = l @ py_strip line @ r
         \<and> (\<forall>c\<in>set l. py_isspace c) \<and> (\<forall>c\<in>set r. py_isspace c)
         \<and> (py_strip line \<noteq> [] \<longrightarrow> \<not> py_isspace (hd (py_strip line)) \<and> \<not> py_isspace (last (py_strip line))))
   \<and> (py_isspace c \<longleftrightarrow> of_char c \<in> {9, 10, 11, 12, 13, 28, 29, 30, 31, 32, 133, 160 :: nat})
   \<and> (\<forall>k out. int k < MAX_RETRIES cfg
       \<and> (\<forall>j<k. round_empty env cfg (collect_world env cfg w j))
       \<and> fst (collect_round env cfg (collect_world env cfg w k)) = Some out
       \<and> collect_test_ids out \<noteq> []
     \<longrightarrow> passTestCases env cfg w
           = (collect_test_ids out, snd (collect_round env cfg (collect_world env cfg w k))))
   \<and> ((\<forall>j<nat (MAX_RETRIES cfg). round_empty env cfg (collect_world env cfg w j))
     \<longrightarrow> fst (passTestCases env cfg w) = [])
   \<and> (\<forall>w1 w2 w3 status w4 w5.
       run_deploy env cfg helmChartPath (effectiveNodeCount nodeCount) skipDeploy valuesFile w = (True, w1)
       \<and> checkReadiness env cfg (CHROME_NODE_POD_LABEL cfg) (effectiveNodeCount nodeCount) w1 = Some (True, w2)
       \<and> checkReadiness env cfg (CONTROLLER_POD_LABEL cfg) 1 w2 = Some (True, w3)
       \<and> getPodStatus env cfg w3 = (status, w4)
       \<and> passTestCases env cfg w4 = ([], w5)
     \<longrightarrow> run env cfg helmChartPath nodeCount skipDeploy valuesFile w
           = Some (case executeTests env cfg ''tests/'' None w5 of
                     (Inl e, w6) \<Rightarrow> (Inl e, w6)
                   | (Inr (success, out), w6) \<Rightarrow> (Inr success, w6)))
   \<and> testCommand ''tests/'' None
       = [''python'', ''-m'', ''pytest'', ''tests/'', ''-v'', ''--tb=short'', ''-p'', ''no:cacheprovider'']"
proof -
  have ids: "collect_test_ids printed
     = filter (\<lambda>line. (\<exists>pre post. line = pre @ ''::'' @ post)
                     \<and> (\<forall>rest. line \<noteq> CHR ''='' # rest \<and> line \<noteq> CHR ''-'' # rest \<and> line \<noteq> CHR '' '' # rest))
         (map py_strip (py_split_lines printed))"
    by (rule collect_test_ids_spec)
  have lines: "py_join [CHR 0x0A] (py_split_lines printed) = printed"
    "\<forall>l\<in>set (py_split_lines printed). CHR 0x0A \<notin> set l"
    using py_split_lines_spec[of printed] by simp_all
  note strip = py_strip_spec[of line]
  note space = py_isspace_codes[of c]
  have found: "\<forall>k out. int k < MAX_RETRIES cfg
       \<and> (\<forall>j<k. round_empty env cfg (collect_world env cfg w j))
       \<and> fst (collect_round env cfg (collect_world env cfg w k)) = Some out
       \<and> collect_test_ids out \<noteq> []
     \<longrightarrow> passTestCases env cfg w
           = (collect_test_ids out, snd (collect_round env cfg (collect_world env cfg w k)))"
    using passTestCases_found_at[of _ cfg env w] by blast
  have none: "(\<forall>j<nat (MAX_RETRIES cfg). round_empty env cfg (collect_world env cfg w j))
     \<longrightarrow> fst (passTestCases env cfg w) = []"
    using passTestCases_all_empty[of cfg env w] by simp
  have goes_on: "\<forall>w1 w2 w3 status w4 w5.
       run_deploy env cfg helmChartPath (effectiveNodeCount nodeCount) skipDeploy valuesFile w = (True, w1)
       \<and> checkReadiness env cfg (CHROME_NODE_POD_LABEL cfg) (effectiveNodeCount nodeCount) w1 = Some (True, w2)
       \<and> checkReadiness env cfg (CONTROLLER_POD_LABEL cfg) 1 w2 = Some (True, w3)
       \<and> getPodStatus env cfg w3 = (status, w4)
       \<and> passTestCases env cfg w4 = ([], w5)
     \<longrightarrow> run env cfg helmChartPath nodeCount skipDeploy valuesFile w
           = Some (case executeTests env cfg ''tests/'' None w5 of
                     (Inl e, w6) \<Rightarrow> (Inl e, w6)
                   | (Inr (success, out), w6) \<Rightarrow> (Inr success, w6))"
    by (auto simp: run_def run_tests_def)
  have cmd: "testCommand ''tests/'' None
       = [''python'', ''-m'', ''pytest'', ''tests/'', ''-v'', ''--tb=short'', ''-p'', ''no:cacheprovider'']"
    by (simp add: testCommand_def)
  from ids lines strip space found none goes_on cmd show ?thesis by (intro conjI)
qed

lemma run_env_exec:
  "execInPod (run_env collected tested) default_config name collectCommand None None w
     = (case collected of
          Exec_Done rc out err \<Rightarrow> (((case rc of None \<Rightarrow> 0 | Some c \<Rightarrow> c), out, err), w)
        | Exec_Raised e \<Rightarrow> ((1, [], e), w))"
  "execInPod (run_env collected tested) default_config name (testCommand ''tests/'' None)
      None (Some (test_env_vars ''chrome-node-1'')) w
     = (case tested of
          Exec_Done rc out err \<Rightarrow> (((case rc of None \<Rightarrow> 0 | Some c \<Rightarrow> c), out, err), w)
        | Exec_Raised e \<Rightarrow> ((1, [], e), w))"
  by (cases collected; simp add: run_env_def collectCommand_def tests_defs scenario_defs)
     (cases tested; simp add: run_env_def collectCommand_def tests_defs scenario_defs)

lemma run_env_stages:
  "run_deploy (run_env collected tested) default_config (Some ''./helm/insider-testops'') 1 False None ()
     = (True, ())"
  "checkReadiness (run_env collected tested) default_config (CHROME_NODE_POD_LABEL default_config) 1 ()
     = Some (True, ())"
  "checkReadiness (run_env collected tested) default_config (CONTROLLER_POD_LABEL default_config) 1 ()
     = Some (True, ())"
  "getPodName (run_env collected tested) default_config (CONTROLLER_POD_LABEL default_config) ()
     = (Some ''test-case-controller-0'', ())"
  "getAvailableChromeNode (run_env collected tested) default_config ()
     = (Some (getChromeNodeDns default_config ''chrome-node-1''), ())"
proof -
  let ?env = "run_env collected tested"
  have "deploy ?env default_config ''./helm/insider-testops'' 1 None () = (True, ())"
    by (simp add: deploy_def validateNodeCount_def MIN_NODE_COUNT_def MAX_NODE_COUNT_def
          run_env_def fleet_env_def attempts_default runCommand_def)
  then have "handleErrors ?env default_config
               (deploy_operation ?env default_config ''./helm/insider-testops'' 1 None) ()
             = ((True, PBool True), ())"
    by (simp add: handleErrors_def attempts_default deploy_operation_def)
  then show "run_deploy ?env default_config (Some ''./helm/insider-testops'') 1 False None () = (True, ())"
    by (simp add: run_deploy_def)
  have now0: "now ?env w = 0" for w by (simp add: run_env_def fleet_env_def)
  have win: "in_window ?env default_config 0 ()"
    by (simp add: in_window_def now0 default_config_def)
  have "ready_count ?env default_config (CHROME_NODE_POD_LABEL default_config) () = 1"
    by (simp add: ready_count_def run_env_def scenario_defs)
  with win show "checkReadiness ?env default_config (CHROME_NODE_POD_LABEL default_config) 1 () = Some (True, ())"
    unfolding checkReadiness_def now0
    by (subst checkReadiness_loop_unfold) simp
  have "ready_count ?env default_config (CONTROLLER_POD_LABEL default_config) () = 1"
    by (simp add: ready_count_def run_env_def scenario_defs)
  with win show "checkReadiness ?env default_config (CONTROLLER_POD_LABEL default_config) 1 () = Some (True, ())"
    unfolding checkReadiness_def now0
    by (subst checkReadiness_loop_unfold) simp
  show "getPodName ?env default_config (CONTROLLER_POD_LABEL default_config) ()
     = (Some ''test-case-controller-0'', ())"
    by (simp add: run_env_def scenario_defs)
  show "getAvailableChromeNode ?env default_config ()
     = (Some (getChromeNodeDns default_config ''chrome-node-1''), ())"
    by (simp add: getAvailableChromeNode_def run_env_def scenario_defs)
qed

lemma run_env_tests_pass:
  "executeTests (run_env collected (Exec_Done (Some 0) ''1 passed in 2.31s'' [])) default_config ''tests/'' None ()
     = (Inr (True, ''1 passed in 2.31s''), ())"
proof -
  let ?env = "run_env collected (Exec_Done (Some 0) ''1 passed in 2.31s'' [])"
  have e: "execInPod ?env default_config ''test-case-controller-0'' (testCommand ''tests/'' None)
             None (Some (test_env_vars ''chrome-node-1'')) ()
           = ((0, ''1 passed in 2.31s'', []), ())"
    by (simp add: run_env_exec)
  have "executeTests_attempts ?env default_config ''test-case-controller-0'' (testCommand ''tests/'' None)
          (test_env_vars ''chrome-node-1'') [1, 2, 3] None ()
        = (Inr (True, ''1 passed in 2.31s''), ())"
    by (simp only: executeTests_attempts_step[OF e]) (simp add: attempt_succeeds_def)
  then show ?thesis
    by (simp add: executeTests_def run_env_stages attempts_default test_env_vars_def getChromeNodeDns_def)
qed

lemma run_env_no_tests:
  "passTestCases (run_env (Exec_Done (Some 5) ''no tests ran in 0.01s'' []) tested) default_config ()
     = ([], ())"
proof -
  let ?env = "run_env (Exec_Done (Some 5) ''no tests ran in 0.01s'' []) tested"
  have "collect_test_ids ''no tests ran in 0.01s'' = []"
    by (simp add: collect_test_ids_def py_strip_def py_isspace_def)
  then have "\<forall>name w0. collect_test_ids (fst (snd (fst (execInPod ?env default_config name collectCommand None None w0)))) = []"
    by (simp add: run_env_exec)
  from passTestCases_attempts_none[OF this, of "attempts default_config" "()"]
  show ?thesis by (simp add: passTestCases_def prod_eq_iff)
qed

lemma run_env_collect_round:
  "collect_round (run_env (Exec_Done rc out err) tested) default_config w = (Some out, w)"
  by (simp add: collect_round_def run_env_stages(4) run_env_exec)

theorem collection_failure_falls_back_witness:
  "collect_test_ids (CHR 0xA0 # ''=== a::b ==='') = []
   \<and> collect_test_ids (CHR 0x85 # ''tests/a.py::t '' @ [CHR 0x0A] @ ''-- Docs: x::y'') = [''tests/a.py::t'']
   \<and> passTestCases
     (run_env (Exec_Done (Some 0)
                 (''tests/test_insider.py::TestInsider::test_flow'' @ [CHR 0x0A] @ ''1 test collected in 0.02s'') [])
        (Exec_Done (Some 0) ''1 passed in 2.31s'' [])) default_config ()
     = ([''tests/test_insider.py::TestInsider::test_flow''], ())
   \<and> fst (passTestCases (run_env (Exec_Done (Some 5) ''no tests ran in 0.01s'' [])
                    (Exec_Done (Some 0) ''1 passed in 2.31s'' [])) default_config ())
     = []
   \<and> run (run_env (Exec_Done (Some 5) ''no tests ran in 0.01s'' []) (Exec_Done (Some 0) ''1 passed in 2.31s'' []))
        default_config (Some ''./helm/insider-testops'') (Some 1) False None ()
     = Some (Inr True, ())"
proof -
  let ?env = "run_env (Exec_Done (Some 5) ''no tests ran in 0.01s'' []) (Exec_Done (Some 0) ''1 passed in 2.31s'' [])"
  let ?out = "''tests/test_insider.py::TestInsider::test_flow'' @ [CHR 0x0A] @ ''1 test collected in 0.02s''"
  let ?found = "run_env (Exec_Done (Some 0) ?out []) (Exec_Done (Some 0) ''1 passed in 2.31s'' [])"
  have M: "MAX_RETRIES default_config = 3" by (simp add: default_config_def)
  have ids: "collect_test_ids ?out = [''tests/test_insider.py::TestInsider::test_flow'']"
    by (simp add: collect_test_ids_def py_strip_def py_isspace_def)
  have h1: "int 0 < MAX_RETRIES default_config
       \<and> (\<forall>j<0. round_empty ?found default_config (collect_world ?found default_config () j))
       \<and> fst (collect_round ?found default_config (collect_world ?found default_config () 0)) = Some ?out
       \<and> collect_test_ids ?out \<noteq> []"
    unfolding ids by (simp add: M run_env_collect_round)
  note t1 = collection_failure_falls_back[where env = ?found and cfg = default_config and w = "()",
              THEN conjunct2, THEN conjunct2, THEN conjunct2, THEN conjunct2, THEN conjunct2,
              THEN conjunct1, THEN spec[where x = 0], THEN spec[where x = ?out], THEN mp, OF h1]
  have found: "passTestCases ?found default_config () = ([''tests/test_insider.py::TestInsider::test_flow''], ())"
    using t1 unfolding ids by simp
  have "collect_test_ids ''no tests ran in 0.01s'' = []"
    by (simp add: collect_test_ids_def py_strip_def py_isspace_def)
  then have h2: "\<forall>j<nat (MAX_RETRIES default_config).
                  round_empty ?env default_config (collect_world ?env default_config () j)"
    by (simp add: round_empty_def run_env_collect_round)
  note none = collection_failure_falls_back[where env = ?env and cfg = default_config and w = "()",
                THEN conjunct2, THEN conjunct2, THEN conjunct2, THEN conjunct2, THEN conjunct2,
                THEN conjunct2, THEN conjunct1, THEN mp, OF h2]
  obtain status where st: "getPodStatus ?env default_config () = (status, ())"
    by (cases "getPodStatus ?env default_config ()") simp
  have n: "effectiveNodeCount (Some 1) = 1" by simp
  have hyp: "run_deploy ?env default_config (Some ''./helm/insider-testops'') (effectiveNodeCount (Some 1)) False None ()
               = (True, ())
       \<and> checkReadiness ?env default_config (CHROME_NODE_POD_LABEL default_config) (effectiveNodeCount (Some 1)) ()
           = Some (True, ())
       \<and> checkReadiness ?env default_config (CONTROLLER_POD_LABEL default_config) 1 () = Some (True, ())
       \<and> getPodStatus ?env default_config () = (status, ())
       \<and> passTestCases ?env default_config () = ([], ())"
    unfolding n using run_env_stages(1-3) st run_env_no_tests by (intro conjI)
  from collection_failure_falls_back[where env = ?env and cfg = default_config and w = "()"
         and helmChartPath = "Some ''./helm/insider-testops''" and nodeCount = "Some 1"
         and skipDeploy = False and valuesFile = None,
         THEN conjunct2, THEN conjunct2, THEN conjunct2, THEN conjunct2, THEN conjunct2,
         THEN conjunct2, THEN conjunct2, THEN conjunct1,
         THEN spec[where x = "()"], THEN spec[where x = "()"], THEN spec[where x = "()"],
         THEN spec[where x = status], THEN spec[where x = "()"], THEN spec[where x = "()"], THEN mp, OF hyp]
  have "run ?env default_config (Some ''./helm/insider-testops'') (Some 1) False None () = Some (Inr True, ())"
    by (simp add: run_env_tests_pass)
  moreover have "collect_test_ids (CHR 0xA0 # ''=== a::b ==='') = []"
    by (simp add: collect_test_ids_def py_strip_def py_isspace_def)
  moreover have "collect_test_ids (CHR 0x85 # ''tests/a.py::t '' @ [CHR 0x0A] @ ''-- Docs: x::y'') = [''tests/a.py::t'']"
    by (simp add: collect_test_ids_def py_strip_def py_isspace_def)
  ultimately show ?thesis using found none by (intro conjI)
qed

subsection \<open>The stages of the driver\<close>











subsection \<open>The commands of a deployment\<close>

lemma logging_env_simps:
  "subprocess_run (logging_env env) command (w, cmds)
     = (fst (subprocess_run env command w), (snd (subprocess_run env command w), cmds @ [command]))"
  "list_namespaced_pod (logging_env env) ns label (w, cmds)
     = (fst (list_namespaced_pod env ns label w), (snd (list_namespaced_pod env ns label w), cmds))"
  "pod_exec (logging_env env) name ns command container (w, cmds)
     = (fst (pod_exec env name ns command container w), (snd (pod_exec env name ns command container w), cmds))"
  "path_exists (logging_env env) path (w, cmds) = path_exists env path w"
  "now (logging_env env) (w, cmds) = now env w"
  "sleep (logging_env env) d (w, cmds) = (sleep env d w, cmds)"
  "json_loads (logging_env env) = json_loads env"
  by (simp_all add: logging_env_def case_prod_unfold)

lemma runCommand_logged:
  "runCommand (logging_env env) command (w, cmds)
     = (fst (runCommand env command w), (snd (runCommand env command w), cmds @ [command]))"
  by (cases "subprocess_run env command w"; cases "fst (subprocess_run env command w)")
     (simp_all add: runCommand_def logging_env_simps)

lemma retry_pause_logged:
  "retry_pause (logging_env env) cfg attempt (w, cmds) = (retry_pause env cfg attempt w, cmds)"
  by (simp add: retry_pause_def logging_env_simps)

lemma deploy_attempts_logged:
  "\<exists>k. k \<le> length as \<and> (as \<noteq> [] \<longrightarrow> 1 \<le> k)
       \<and> deploy_attempts (logging_env env) cfg command as (w, cmds)
           = (fst (deploy_attempts env cfg command as w),
              (snd (deploy_attempts env cfg command as w), cmds @ replicate k command))"
proof (induction as arbitrary: w cmds)
  case Nil
  then show ?case by simp
next
  case (Cons attempt rest)
  obtain rc out err w' where r: "runCommand env command w = ((rc, out, err), w')"
    by (metis prod_cases3 surj_pair)
  show ?case
  proof (cases "rc = 0")
    case True
    with r have "deploy_attempts (logging_env env) cfg command (attempt # rest) (w, cmds)
           = (fst (deploy_attempts env cfg command (attempt # rest) w),
              (snd (deploy_attempts env cfg command (attempt # rest) w), cmds @ replicate 1 command))"
      by (simp add: runCommand_logged)
    then show ?thesis by (intro exI[of _ 1]) simp
  next
    case False
    from Cons.IH[of "retry_pause env cfg attempt w'" "cmds @ [command]"] obtain k where
      k: "k \<le> length rest"
      and l: "deploy_attempts (logging_env env) cfg command rest (retry_pause env cfg attempt w', cmds @ [command])
           = (fst (deploy_attempts env cfg command rest (retry_pause env cfg attempt w')),
              (snd (deploy_attempts env cfg command rest (retry_pause env cfg attempt w')),
               (cmds @ [command]) @ replicate k command))"
      by blast
    have "(cmds @ [command]) @ replicate k command = cmds @ replicate (Suc k) command" by simp
    with False r l have "deploy_attempts (logging_env env) cfg command (attempt # rest) (w, cmds)
           = (fst (deploy_attempts env cfg command (attempt # rest) w),
              (snd (deploy_attempts env cfg command (attempt # rest) w), cmds @ replicate (Suc k) command))"
      by (simp add: runCommand_logged retry_pause_logged del: replicate_Suc)
    with k show ?thesis by (intro exI[of _ "Suc k"]) simp
  qed
qed

lemma deploy_logged:
  "\<exists>k valuesArg.
      k \<le> nat (MAX_RETRIES cfg)
      \<and> (path_exists env helmChartPath w \<and> 1 \<le> MAX_RETRIES cfg \<longrightarrow> 1 \<le> k)
      \<and> deploy (logging_env env) cfg helmChartPath nodeCount valuesFile (w, cmds)
          = (fst (deploy env cfg helmChartPath nodeCount valuesFile w),
             (snd (deploy env cfg helmChartPath nodeCount valuesFile w),
              cmds @ replicate k (helmCommand cfg helmChartPath valuesArg (fst (validateNodeCount nodeCount)))))"
proof (cases "path_exists env helmChartPath w")
  case False
  then have "deploy (logging_env env) cfg helmChartPath nodeCount valuesFile (w, cmds)
          = (fst (deploy env cfg helmChartPath nodeCount valuesFile w),
             (snd (deploy env cfg helmChartPath nodeCount valuesFile w),
              cmds @ replicate 0 (helmCommand cfg helmChartPath None (fst (validateNodeCount nodeCount)))))"
    by (simp add: deploy_def logging_env_simps)
  with False show ?thesis by (intro exI[of _ 0] exI[of _ None]) simp
next
  case True
  define f where "f = (if name_missing valuesFile then HELM_VALUES_FILE cfg else name_of valuesFile)"
  define valuesArg where "valuesArg = (if f \<noteq> [] \<and> path_exists env f w then Some f else None)"
  define command where "command = helmCommand cfg helmChartPath valuesArg (fst (validateNodeCount nodeCount))"
  have d: "deploy env cfg helmChartPath nodeCount valuesFile w = deploy_attempts env cfg command (attempts cfg) w"
    using True by (simp add: deploy_def command_def valuesArg_def f_def)
  have dl: "deploy (logging_env env) cfg helmChartPath nodeCount valuesFile (w, cmds)
              = deploy_attempts (logging_env env) cfg command (attempts cfg) (w, cmds)"
    using True by (simp add: deploy_def command_def valuesArg_def f_def logging_env_simps)
  from deploy_attempts_logged[of "attempts cfg" env cfg command w cmds] obtain k where
    k: "k \<le> length (attempts cfg)" "attempts cfg \<noteq> [] \<longrightarrow> 1 \<le> k"
    and l: "deploy_attempts (logging_env env) cfg command (attempts cfg) (w, cmds)
           = (fst (deploy_attempts env cfg command (attempts cfg) w),
              (snd (deploy_attempts env cfg command (attempts cfg) w), cmds @ replicate k command))"
    by blast
  have len: "length (attempts cfg) = nat (MAX_RETRIES cfg)" by (simp add: attempts_def)
  have ne: "1 \<le> MAX_RETRIES cfg \<longrightarrow> attempts cfg \<noteq> []" by (simp add: attempts_def upto_rec1)
  from k len ne l show ?thesis
    unfolding d dl command_def by (intro exI[of _ k] exI[of _ valuesArg]) auto
qed

lemma helmCommand_sets:
  "helmCommand cfg helmChartPath valuesArg nodeCount
     = [''helm'', ''upgrade'', ''--install'', HELM_RELEASE_NAME cfg, helmChartPath,
        ''--namespace'', NAMESPACE cfg, ''--create-namespace'']
       @ (case valuesArg of None \<Rightarrow> [] | Some f \<Rightarrow> [''-f'', f])
       @ [''--set'', ''chromeNode.replicaCount='' @ str_int nodeCount,
          ''--set'', ''chromeNode.autoscaling.minReplicas='' @ str_int nodeCount,
          ''--set'', ''chromeNode.autoscaling.maxReplicas=5'',
          ''--wait'', ''--timeout'', ''5m'']"
  by (simp add: helmCommand_def MAX_NODE_COUNT_def str_int_def digit_char_def)

lemma str_int_validated:
  "str_int (fst (validateNodeCount n)) \<in> {''1'', ''2'', ''3'', ''4'', ''5''}"
proof -
  have "1 \<le> fst (validateNodeCount n) \<and> fst (validateNodeCount n) \<le> 5"
    by (simp add: validateNodeCount_def MIN_NODE_COUNT_def MAX_NODE_COUNT_def)
  then have "fst (validateNodeCount n) \<in> {1, 2, 3, 4, 5}" by auto
  then show ?thesis by (auto simp: str_int_def digit_char_def)
qed

lemma deploy_operation_logged:
  "\<exists>k valuesArg.
      (path_exists env helmChartPath w \<and> 1 \<le> MAX_RETRIES cfg \<longrightarrow> 1 \<le> k)
      \<and> deploy_operation (logging_env env) cfg helmChartPath nodeCount valuesFile (w, cmds)
          = (fst (deploy_operation env cfg helmChartPath nodeCount valuesFile w),
             (snd (deploy_operation env cfg helmChartPath nodeCount valuesFile w),
              cmds @ replicate k (helmCommand cfg helmChartPath valuesArg (fst (validateNodeCount nodeCount)))))"
proof -
  from deploy_logged[of cfg env helmChartPath w nodeCount valuesFile cmds] obtain k valuesArg where
    k: "path_exists env helmChartPath w \<and> 1 \<le> MAX_RETRIES cfg \<longrightarrow> 1 \<le> k"
    and d: "deploy (logging_env env) cfg helmChartPath nodeCount valuesFile (w, cmds)
          = (fst (deploy env cfg helmChartPath nodeCount valuesFile w),
             (snd (deploy env cfg helmChartPath nodeCount valuesFile w),
              cmds @ replicate k (helmCommand cfg helmChartPath valuesArg (fst (validateNodeCount nodeCount)))))"
    by blast
  from d have "deploy_operation (logging_env env) cfg helmChartPath nodeCount valuesFile (w, cmds)
          = (fst (deploy_operation env cfg helmChartPath nodeCount valuesFile w),
             (snd (deploy_operation env cfg helmChartPath nodeCount valuesFile w),
              cmds @ replicate k (helmCommand cfg helmChartPath valuesArg (fst (validateNodeCount nodeCount)))))"
    by (simp add: deploy_operation_def case_prod_unfold)
  with k show ?thesis by blast
qed

lemma handleErrors_deploy_logged:
  "\<exists>more.
      (\<forall>cmd\<in>set more. \<exists>valuesArg. cmd = helmCommand cfg helmChartPath valuesArg (fst (validateNodeCount nodeCount)))
      \<and> (as \<noteq> [] \<and> path_exists env helmChartPath w \<and> 1 \<le> MAX_RETRIES cfg \<longrightarrow> more \<noteq> [])
      \<and> handleErrors_attempts (logging_env env) cfg
           (deploy_operation (logging_env env) cfg helmChartPath nodeCount valuesFile) as (w, cmds)
          = (fst (handleErrors_attempts env cfg (deploy_operation env cfg helmChartPath nodeCount valuesFile) as w),
             (snd (handleErrors_attempts env cfg (deploy_operation env cfg helmChartPath nodeCount valuesFile) as w),
              cmds @ more))"
proof (induction as arbitrary: w cmds)
  case Nil
  show ?case by (intro exI[of _ "[]"]) simp
next
  case (Cons attempt rest)
  let ?op = "deploy_operation env cfg helmChartPath nodeCount valuesFile"
  let ?opl = "deploy_operation (logging_env env) cfg helmChartPath nodeCount valuesFile"
  let ?v = "fst (validateNodeCount nodeCount)"
  from deploy_operation_logged[of env helmChartPath w cfg nodeCount valuesFile cmds] obtain k valuesArg where
    k: "path_exists env helmChartPath w \<and> 1 \<le> MAX_RETRIES cfg \<longrightarrow> 1 \<le> k"
    and d: "?opl (w, cmds) = (fst (?op w), (snd (?op w), cmds @ replicate k (helmCommand cfg helmChartPath valuesArg ?v)))"
    by blast
  let ?first = "replicate k (helmCommand cfg helmChartPath valuesArg ?v)"
  have first: "\<forall>cmd\<in>set ?first. \<exists>valuesArg. cmd = helmCommand cfg helmChartPath valuesArg ?v"
    by auto
  have ne: "path_exists env helmChartPath w \<and> 1 \<le> MAX_RETRIES cfg \<longrightarrow> ?first \<noteq> []"
    using k by auto
  show ?case
  proof (cases "try_round (fst (?op w))")
    case (Some r)
    with d have "handleErrors_attempts (logging_env env) cfg ?opl (attempt # rest) (w, cmds)
          = (fst (handleErrors_attempts env cfg ?op (attempt # rest) w),
             (snd (handleErrors_attempts env cfg ?op (attempt # rest) w), cmds @ ?first))"
      by (simp add: case_prod_unfold)
    with first ne show ?thesis by (intro exI[of _ ?first]) simp
  next
    case None
    let ?w = "retry_pause env cfg attempt (snd (?op w))"
    from Cons.IH[of ?w "cmds @ ?first"] obtain more where
      m: "\<forall>cmd\<in>set more. \<exists>valuesArg. cmd = helmCommand cfg helmChartPath valuesArg ?v"
      and l: "handleErrors_attempts (logging_env env) cfg ?opl rest (?w, cmds @ ?first)
          = (fst (handleErrors_attempts env cfg ?op rest ?w),
             (snd (handleErrors_attempts env cfg ?op rest ?w), (cmds @ ?first) @ more))"
      by blast
    from None d l have "handleErrors_attempts (logging_env env) cfg ?opl (attempt # rest) (w, cmds)
          = (fst (handleErrors_attempts env cfg ?op (attempt # rest) w),
             (snd (handleErrors_attempts env cfg ?op (attempt # rest) w), cmds @ (?first @ more)))"
      by (simp add: case_prod_unfold retry_pause_logged)
    moreover have "\<forall>cmd\<in>set (?first @ more). \<exists>valuesArg. cmd = helmCommand cfg helmChartPath valuesArg ?v"
      using first m by auto
    moreover have "path_exists env helmChartPath w \<and> 1 \<le> MAX_RETRIES cfg \<longrightarrow> ?first @ more \<noteq> []"
      using ne by simp
    ultimately show ?thesis by (intro exI[of _ "?first @ more"]) simp
  qed
qed

lemma run_deploy_logged:
  "\<exists>more.
      (\<forall>cmd\<in>set more. \<exists>valuesArg. cmd = helmCommand cfg (name_of helmChartPath) valuesArg (fst (validateNodeCount nodeCount)))
      \<and> (\<not> skipDeploy \<and> \<not> name_missing helmChartPath \<and> path_exists env (name_of helmChartPath) w
            \<and> 1 \<le> MAX_RETRIES cfg \<longrightarrow> more \<noteq> [])
      \<and> run_deploy (logging_env env) cfg helmChartPath nodeCount skipDeploy valuesFile (w, cmds)
          = (fst (run_deploy env cfg helmChartPath nodeCount skipDeploy valuesFile w),
             (snd (run_deploy env cfg helmChartPath nodeCount skipDeploy valuesFile w), cmds @ more))"
proof (cases "\<not> skipDeploy \<and> \<not> name_missing helmChartPath")
  case False
  then have "run_deploy (logging_env env) cfg helmChartPath nodeCount skipDeploy valuesFile (w, cmds)
          = (fst (run_deploy env cfg helmChartPath nodeCount skipDeploy valuesFile w),
             (snd (run_deploy env cfg helmChartPath nodeCount skipDeploy valuesFile w), cmds @ []))"
    by (auto simp: run_deploy_def)
  with False show ?thesis by (intro exI[of _ "[]"]) auto
next
  case True
  from handleErrors_deploy_logged[of cfg "name_of helmChartPath" nodeCount "attempts cfg" env w valuesFile cmds]
  obtain more where
    m: "\<forall>cmd\<in>set more. \<exists>valuesArg. cmd = helmCommand cfg (name_of helmChartPath) valuesArg (fst (validateNodeCount nodeCount))"
    and ne: "attempts cfg \<noteq> [] \<and> path_exists env (name_of helmChartPath) w \<and> 1 \<le> MAX_RETRIES cfg \<longrightarrow> more \<noteq> []"
    and l: "handleErrors_attempts (logging_env env) cfg
           (deploy_operation (logging_env env) cfg (name_of helmChartPath) nodeCount valuesFile) (attempts cfg) (w, cmds)
          = (fst (handleErrors_attempts env cfg (deploy_operation env cfg (name_of helmChartPath) nodeCount valuesFile) (attempts cfg) w),
             (snd (handleErrors_attempts env cfg (deploy_operation env cfg (name_of helmChartPath) nodeCount valuesFile) (attempts cfg) w),
              cmds @ more))"
    by blast
  have a: "1 \<le> MAX_RETRIES cfg \<longrightarrow> attempts cfg \<noteq> []" by (simp add: attempts_def upto_rec1)
  from True l have "run_deploy (logging_env env) cfg helmChartPath nodeCount skipDeploy valuesFile (w, cmds)
          = (fst (run_deploy env cfg helmChartPath nodeCount skipDeploy valuesFile w),
             (snd (run_deploy env cfg helmChartPath nodeCount skipDeploy valuesFile w), cmds @ more))"
    by (simp add: run_deploy_def handleErrors_def case_prod_unfold)
  with m ne a show ?thesis by (intro exI[of _ more]) auto
qed

lemma poll_world_logged:
  "poll_world (logging_env env) cfg labelSelector (w, cmds) j = (poll_world env cfg labelSelector w j, cmds)"
  by (induction j) (simp_all add: logging_env_simps getPodsByLabel_def case_prod_unfold split: list_outcome.splits)

lemma in_window_logged:
  "in_window (logging_env env) cfg startTime (w, cmds) = in_window env cfg startTime w"
  by (simp add: in_window_def logging_env_simps)

lemma ready_count_logged:
  "ready_count (logging_env env) cfg labelSelector (w, cmds) = ready_count env cfg labelSelector w"
  by (simp add: ready_count_def logging_env_simps getPodsByLabel_def case_prod_unfold split: list_outcome.splits)

lemma helm_clock_env_rounds:
  "poll_world (helm_clock_env pods) cfg labelSelector w j = w + int j * READINESS_CHECK_INTERVAL cfg"
  by (induction j) (simp_all add: helm_clock_env_def getPodsByLabel_def algebra_simps)

lemma helm_clock_env_times_out:
  assumes "int (length (filter isPodReady pods)) < minReady"
  shows "checkReadiness (logging_env (helm_clock_env pods)) default_config labelSelector minReady (0, cmds)
           = Some (False, (300, cmds))"
proof -
  let ?env = "logging_env (helm_clock_env pods)"
  have T: "READINESS_TIMEOUT default_config = 300" and I: "READINESS_CHECK_INTERVAL default_config = 5"
    by (simp_all add: default_config_def)
  have now: "now (helm_clock_env pods) w = real_of_int w" for w
    by (simp add: helm_clock_env_def)
  have rc: "ready_count (helm_clock_env pods) default_config labelSelector w = int (length (filter isPodReady pods))" for w
    by (simp add: ready_count_def helm_clock_env_def getPodsByLabel_def)
  have start: "now ?env (0, cmds) = 0" by (simp add: logging_env_simps now)
  have rounds: "\<forall>j<60. in_window ?env default_config 0 (poll_world ?env default_config labelSelector (0, cmds) j)
                   \<and> ready_count ?env default_config labelSelector
                        (poll_world ?env default_config labelSelector (0, cmds) j) < minReady"
    and out: "\<not> in_window ?env default_config 0 (poll_world ?env default_config labelSelector (0, cmds) 60)"
    unfolding poll_world_logged in_window_logged ready_count_logged
    unfolding helm_clock_env_rounds in_window_def now T I rc
    using assms by auto
  have "checkReadiness_loop ?env default_config labelSelector minReady 0 (0, cmds)
          = Some (False, poll_world ?env default_config labelSelector (0, cmds) 60)"
    using rounds out by (rule checkReadiness_loop_false)
  then show ?thesis
    unfolding poll_world_logged helm_clock_env_rounds I by (simp add: checkReadiness_def start)
qed

lemma checkReadiness_True_count:
  assumes "checkReadiness env cfg labelSelector minReady w = Some (True, w')"
  shows "\<exists>w0. ready_count env cfg labelSelector w0 \<ge> minReady"
proof -
  from assms have "checkReadiness_loop env cfg labelSelector minReady (now env w) w = Some (True, w')"
    by (simp add: checkReadiness_def)
  from checkReadiness_loop_result[OF this] obtain k where
    "ready_count env cfg labelSelector (poll_world env cfg labelSelector w k) \<ge> minReady"
    by (auto simp: poll_outcome_def)
  then show ?thesis by (rule exI)
qed

lemma run_True_workers_ready:
  assumes "run env cfg helmChartPath nodeCount skipDeploy valuesFile w = Some (Inr True, w')"
  shows "\<exists>w1 w2. checkReadiness env cfg (CHROME_NODE_POD_LABEL cfg) (effectiveNodeCount nodeCount) w1
                    = Some (True, w2)"
proof -
  obtain b w1 where d: "run_deploy env cfg helmChartPath (effectiveNodeCount nodeCount) skipDeploy valuesFile w = (b, w1)"
    by (cases "run_deploy env cfg helmChartPath (effectiveNodeCount nodeCount) skipDeploy valuesFile w")
  show ?thesis
  proof (cases "checkReadiness env cfg (CHROME_NODE_POD_LABEL cfg) (effectiveNodeCount nodeCount) w1")
    case None
    with assms d show ?thesis by (cases b) (simp_all add: run_def)
  next
    case (Some y)
    obtain c w2 where y: "y = (c, w2)" by (cases y)
    show ?thesis
    proof (cases c)
      case True
      with Some y have "checkReadiness env cfg (CHROME_NODE_POD_LABEL cfg) (effectiveNodeCount nodeCount) w1
                          = Some (True, w2)"
        by simp
      then show ?thesis by (intro exI)
    next
      case False
      with assms d Some y show ?thesis by (cases b) (simp_all add: run_def)
    qed
  qed
qed

text \<open>
  C10. In \<open>run\<close> the node count in effect is the one the caller gives, with 1 in the place
  of none and of 0; it is not clamped. It is the threshold of the readiness check of the
  workers: when that check, called with it, reports failure, \<open>run\<close> fails. The deploy
  stage works with the clamped value: for a requested count above 5, every command that
  the deploy stage of \<open>run\<close> hands to \<open>subprocess.run\<close> (at least one when the stage is not
  skipped, the chart exists and an attempt is allowed) is the Helm command for 5
  replicas, which sets \<open>chromeNode.replicaCount=5\<close>. So the deployment asks for 5
  replicas, fewer than the readiness stage waits for: if no poll ever finds more than 5
  ready worker pods, \<open>run\<close> does not report success.
\<close>

theorem run_readiness_threshold_unclamped:
  "effectiveNodeCount None = 1 \<and> effectiveNodeCount (Some 0) = 1
   \<and> (n \<noteq> 0 \<longrightarrow> effectiveNodeCount (Some n) = n)
   \<and> (run_deploy env cfg helmChartPath (effectiveNodeCount nodeCount) skipDeploy valuesFile w = (True, w1)
       \<and> checkReadiness env cfg (CHROME_NODE_POD_LABEL cfg) (effectiveNodeCount nodeCount) w1 = Some (False, w2)
     \<longrightarrow> run env cfg helmChartPath nodeCount skipDeploy valuesFile w = Some (Inr False, w2))
   \<and> (5 < n
     \<longrightarrow> fst (validateNodeCount (effectiveNodeCount (Some n))) = 5
         \<and> fst (validateNodeCount (effectiveNodeCount (Some n))) < effectiveNodeCount (Some n)
         \<and> deploy env cfg path (effectiveNodeCount (Some n)) valuesFile w = deploy env cfg path 5 valuesFile w
         \<and> helmCommand cfg path valuesArg (fst (validateNodeCount (effectiveNodeCount (Some n))))
             = helmCommand cfg path valuesArg 5
         \<and> ((\<forall>w0. ready_count env cfg (CHROME_NODE_POD_LABEL cfg) w0 \<le> 5)
              \<longrightarrow> (\<forall>w'. run env cfg helmChartPath (Some n) skipDeploy valuesFile w \<noteq> Some (Inr True, w')))
         \<and> (\<exists>more.
               (\<forall>cmd\<in>set more. \<exists>valuesArg. cmd = helmCommand cfg (name_of helmChartPath) valuesArg 5)
               \<and> (\<not> skipDeploy \<and> \<not> name_missing helmChartPath \<and> path_exists env (name_of helmChartPath) w
                     \<and> 1 \<le> MAX_RETRIES cfg \<longrightarrow> more \<noteq> [])
               \<and> run_deploy (logging_env env) cfg helmChartPath (effectiveNodeCount (Some n)) skipDeploy valuesFile
                    (w, cmds)
                   = (fst (run_deploy env cfg helmChartPath (effectiveNodeCount (Some n)) skipDeploy valuesFile w),
                      (snd (run_deploy env cfg helmChartPath (effectiveNodeCount (Some n)) skipDeploy valuesFile w),
                       cmds @ more)))
         \<and> helmCommand cfg path valuesArg 5
             = [''helm'', ''upgrade'', ''--install'', HELM_RELEASE_NAME cfg, path,
                ''--namespace'', NAMESPACE cfg, ''--create-namespace'']
               @ (case valuesArg of None \<Rightarrow> [] | Some f \<Rightarrow> [''-f'', f])
               @ [''--set'', ''chromeNode.replicaCount=5'',
                  ''--set'', ''chromeNode.autoscaling.minReplicas=5'',
                  ''--set'', ''chromeNode.autoscaling.maxReplicas=5'',
                  ''--wait'', ''--timeout'', ''5m''])"
proof -
  have eff: "effectiveNodeCount None = 1 \<and> effectiveNodeCount (Some 0) = 1
             \<and> (n \<noteq> 0 \<longrightarrow> effectiveNodeCount (Some n) = n)"
    by (simp add: DEFAULT_NODE_COUNT_def)
  have threshold: "run_deploy env cfg helmChartPath (effectiveNodeCount nodeCount) skipDeploy valuesFile w = (True, w1)
       \<and> checkReadiness env cfg (CHROME_NODE_POD_LABEL cfg) (effectiveNodeCount nodeCount) w1 = Some (False, w2)
     \<longrightarrow> run env cfg helmChartPath nodeCount skipDeploy valuesFile w = Some (Inr False, w2)"
    by (simp add: run_def)
  have above: "fst (validateNodeCount (effectiveNodeCount (Some n))) = 5
         \<and> fst (validateNodeCount (effectiveNodeCount (Some n))) < effectiveNodeCount (Some n)
         \<and> deploy env cfg path (effectiveNodeCount (Some n)) valuesFile w = deploy env cfg path 5 valuesFile w
         \<and> helmCommand cfg path valuesArg (fst (validateNodeCount (effectiveNodeCount (Some n))))
             = helmCommand cfg path valuesArg 5
         \<and> ((\<forall>w0. ready_count env cfg (CHROME_NODE_POD_LABEL cfg) w0 \<le> 5)
              \<longrightarrow> (\<forall>w'. run env cfg helmChartPath (Some n) skipDeploy valuesFile w \<noteq> Some (Inr True, w')))
         \<and> (\<exists>more.
               (\<forall>cmd\<in>set more. \<exists>valuesArg. cmd = helmCommand cfg (name_of helmChartPath) valuesArg 5)
               \<and> (\<not> skipDeploy \<and> \<not> name_missing helmChartPath \<and> path_exists env (name_of helmChartPath) w
                     \<and> 1 \<le> MAX_RETRIES cfg \<longrightarrow> more \<noteq> [])
               \<and> run_deploy (logging_env env) cfg helmChartPath (effectiveNodeCount (Some n)) skipDeploy valuesFile
                    (w, cmds)
                   = (fst (run_deploy env cfg helmChartPath (effectiveNodeCount (Some n)) skipDeploy valuesFile w),
                      (snd (run_deploy env cfg helmChartPath (effectiveNodeCount (Some n)) skipDeploy valuesFile w),
                       cmds @ more)))
         \<and> helmCommand cfg path valuesArg 5
             = [''helm'', ''upgrade'', ''--install'', HELM_RELEASE_NAME cfg, path,
                ''--namespace'', NAMESPACE cfg, ''--create-namespace'']
               @ (case valuesArg of None \<Rightarrow> [] | Some f \<Rightarrow> [''-f'', f])
               @ [''--set'', ''chromeNode.replicaCount=5'',
                  ''--set'', ''chromeNode.autoscaling.minReplicas=5'',
                  ''--set'', ''chromeNode.autoscaling.maxReplicas=5'',
                  ''--wait'', ''--timeout'', ''5m'']"
    if n: "5 < n"
  proof -
    have e: "effectiveNodeCount (Some n) = n" using n by simp
    have v: "fst (validateNodeCount n) = 5"
      using n by (simp add: validateNodeCount_def MIN_NODE_COUNT_def MAX_NODE_COUNT_def)
    have v5: "fst (validateNodeCount 5) = 5"
      by (simp add: validateNodeCount_def MIN_NODE_COUNT_def MAX_NODE_COUNT_def)
    have d: "deploy env cfg path n valuesFile w = deploy env cfg path 5 valuesFile w"
      by (simp only: deploy_def v v5)
    have never: "run env cfg helmChartPath (Some n) skipDeploy valuesFile w \<noteq> Some (Inr True, w')"
      if le: "\<forall>w0. ready_count env cfg (CHROME_NODE_POD_LABEL cfg) w0 \<le> 5" for w'
    proof
      assume "run env cfg helmChartPath (Some n) skipDeploy valuesFile w = Some (Inr True, w')"
      from run_True_workers_ready[OF this] obtain w1 w2 where
        "checkReadiness env cfg (CHROME_NODE_POD_LABEL cfg) (effectiveNodeCount (Some n)) w1 = Some (True, w2)"
        by blast
      from checkReadiness_True_count[OF this] obtain w0 where
        "ready_count env cfg (CHROME_NODE_POD_LABEL cfg) w0 \<ge> n"
        unfolding e by blast
      with le n show False by (metis not_le order_trans)
    qed
    have commands: "\<exists>more.
               (\<forall>cmd\<in>set more. \<exists>valuesArg. cmd = helmCommand cfg (name_of helmChartPath) valuesArg 5)
               \<and> (\<not> skipDeploy \<and> \<not> name_missing helmChartPath \<and> path_exists env (name_of helmChartPath) w
                     \<and> 1 \<le> MAX_RETRIES cfg \<longrightarrow> more \<noteq> [])
               \<and> run_deploy (logging_env env) cfg helmChartPath (effectiveNodeCount (Some n)) skipDeploy valuesFile
                    (w, cmds)
                   = (fst (run_deploy env cfg helmChartPath (effectiveNodeCount (Some n)) skipDeploy valuesFile w),
                      (snd (run_deploy env cfg helmChartPath (effectiveNodeCount (Some n)) skipDeploy valuesFile w),
                       cmds @ more))"
      using run_deploy_logged[of cfg helmChartPath n skipDeploy env w valuesFile cmds]
      unfolding e v .
    have five: "helmCommand cfg path valuesArg 5
             = [''helm'', ''upgrade'', ''--install'', HELM_RELEASE_NAME cfg, path,
                ''--namespace'', NAMESPACE cfg, ''--create-namespace'']
               @ (case valuesArg of None \<Rightarrow> [] | Some f \<Rightarrow> [''-f'', f])
               @ [''--set'', ''chromeNode.replicaCount=5'',
                  ''--set'', ''chromeNode.autoscaling.minReplicas=5'',
                  ''--set'', ''chromeNode.autoscaling.maxReplicas=5'',
                  ''--wait'', ''--timeout'', ''5m'']"
      unfolding helmCommand_sets by (simp add: str_int_def digit_char_def)
    have f1: "fst (validateNodeCount (effectiveNodeCount (Some n))) = 5"
      and f2: "fst (validateNodeCount (effectiveNodeCount (Some n))) < effectiveNodeCount (Some n)"
      and f3: "deploy env cfg path (effectiveNodeCount (Some n)) valuesFile w = deploy env cfg path 5 valuesFile w"
      and f4: "helmCommand cfg path valuesArg (fst (validateNodeCount (effectiveNodeCount (Some n))))
                 = helmCommand cfg path valuesArg 5"
      using e v d n by simp_all
    have second: "(\<forall>w0. ready_count env cfg (CHROME_NODE_POD_LABEL cfg) w0 \<le> 5)
              \<longrightarrow> (\<forall>w'. run env cfg helmChartPath (Some n) skipDeploy valuesFile w \<noteq> Some (Inr True, w'))"
      using never by blast
    from f1 f2 f3 f4 second commands five show ?thesis by (intro conjI)
  qed
  from eff threshold above show ?thesis by blast
qed

theorem run_readiness_threshold_unclamped_witness:
  "effectiveNodeCount (Some 7) = 7
   \<and> fst (validateNodeCount (effectiveNodeCount (Some 7))) = 5
   \<and> ready_count (logging_env (helm_clock_env (replicate 5 (worker ''chrome-node'' True)))) default_config
        (CHROME_NODE_POD_LABEL default_config) (0, []) = 5
   \<and> run_deploy (logging_env (helm_clock_env (replicate 5 (worker ''chrome-node'' True)))) default_config
        (Some ''./helm/insider-testops'') (effectiveNodeCount (Some 7)) False None (0, [])
       = (True, (0, [[''helm'', ''upgrade'', ''--install'', ''insider-testops'', ''./helm/insider-testops'',
                      ''--namespace'', ''insider-testops'', ''--create-namespace'',
                      ''--set'', ''chromeNode.replicaCount=5'',
                      ''--set'', ''chromeNode.autoscaling.minReplicas=5'',
                      ''--set'', ''chromeNode.autoscaling.maxReplicas=5'',
                      ''--wait'', ''--timeout'', ''5m'']]))
   \<and> run (logging_env (helm_clock_env (replicate 5 (worker ''chrome-node'' True)))) default_config
        (Some ''./helm/insider-testops'') (Some 7) False None (0, [])
       = Some (Inr False,
               (300, [[''helm'', ''upgrade'', ''--install'', ''insider-testops'', ''./helm/insider-testops'',
                       ''--namespace'', ''insider-testops'', ''--create-namespace'',
                       ''--set'', ''chromeNode.replicaCount=5'',
                       ''--set'', ''chromeNode.autoscaling.minReplicas=5'',
                       ''--set'', ''chromeNode.autoscaling.maxReplicas=5'',
                       ''--wait'', ''--timeout'', ''5m'']]))
   \<and> (\<forall>w'. run (logging_env (helm_clock_env (replicate 5 (worker ''chrome-node'' True)))) default_config
              (Some ''./helm/insider-testops'') (Some 7) False None (0, [])
             \<noteq> Some (Inr True, w'))"
proof -
  let ?pods = "replicate 5 (worker ''chrome-node'' True)"
  let ?env = "logging_env (helm_clock_env ?pods)"
  let ?cmd = "[''helm'', ''upgrade'', ''--install'', ''insider-testops'', ''./helm/insider-testops'',
               ''--namespace'', ''insider-testops'', ''--create-namespace'',
               ''--set'', ''chromeNode.replicaCount=5'',
               ''--set'', ''chromeNode.autoscaling.minReplicas=5'',
               ''--set'', ''chromeNode.autoscaling.maxReplicas=5'',
               ''--wait'', ''--timeout'', ''5m'']"
  have rc: "ready_count (helm_clock_env ?pods) default_config (CHROME_NODE_POD_LABEL default_config) w0 = 5" for w0
    by (simp add: ready_count_def helm_clock_env_def getPodsByLabel_def worker_def isPodReady_def)
  have five: "ready_count ?env default_config (CHROME_NODE_POD_LABEL default_config) w0 = 5" for w0
    by (cases w0) (simp add: ready_count_logged rc)
  have n: "(5::int) < 7" by simp
  have e: "effectiveNodeCount (Some 7) = 7" by simp
  note t = run_readiness_threshold_unclamped[where n = 7 and env = ?env and cfg = default_config
             and helmChartPath = "Some ''./helm/insider-testops''" and nodeCount = "Some 7"
             and skipDeploy = False and valuesFile = None
             and w = "(0, [])" and ?w1.0 = "(0, [?cmd])" and ?w2.0 = "(300, [?cmd])"]
  note above = t[THEN conjunct2, THEN conjunct2, THEN conjunct2, THEN conjunct2, THEN mp, OF n]
  have le: "\<forall>w0. ready_count ?env default_config (CHROME_NODE_POD_LABEL default_config) w0 \<le> 5"
    by (simp add: five)
  have cfgs: "HELM_VALUES_FILE default_config = []" "MAX_RETRIES default_config = 3"
    "HELM_RELEASE_NAME default_config = ''insider-testops''" "NAMESPACE default_config = ''insider-testops''"
    by (simp_all add: default_config_def)
  have "deploy ?env default_config ''./helm/insider-testops'' 7 None (0, []) = (True, (0, [?cmd]))"
    by (simp add: deploy_def validateNodeCount_def MIN_NODE_COUNT_def MAX_NODE_COUNT_def
          logging_env_simps helm_clock_env_def attempts_default runCommand_def
          helmCommand_def cfgs str_int_def digit_char_def)
  then have "handleErrors ?env default_config
               (deploy_operation ?env default_config ''./helm/insider-testops'' 7 None) (0, [])
             = ((True, PBool True), (0, [?cmd]))"
    by (simp add: handleErrors_def attempts_default deploy_operation_def)
  then have d: "run_deploy ?env default_config (Some ''./helm/insider-testops'') (effectiveNodeCount (Some 7))
                  False None (0, []) = (True, (0, [?cmd]))"
    by (simp add: run_deploy_def)
  have c: "checkReadiness ?env default_config (CHROME_NODE_POD_LABEL default_config)
             (effectiveNodeCount (Some 7)) (0, [?cmd]) = Some (False, (300, [?cmd]))"
    unfolding e by (rule helm_clock_env_times_out) (simp add: worker_def isPodReady_def)
  note fails = t[THEN conjunct2, THEN conjunct2, THEN conjunct2, THEN conjunct1, THEN mp, OF conjI[OF d c]]
  note never = above[THEN conjunct2, THEN conjunct2, THEN conjunct2, THEN conjunct2, THEN conjunct1, THEN mp, OF le]
  from e above[THEN conjunct1] five[of "(0, [])"] d fails never show ?thesis by (intro conjI)
qed

subsection \<open>Replica count validation\<close>

lemma validate_idem:
  "fst (validateNodeCount (fst (validateNodeCount n))) = fst (validateNodeCount n)"
  by (simp add: validateNodeCount_def MIN_NODE_COUNT_def MAX_NODE_COUNT_def)

lemma str_int_bounds: "str_int 1 = ''1''" "str_int 5 = ''5''"
  by (simp_all add: str_int_def digit_char_def)

text \<open>
  C9. For every integer replica count the validated value lies in the closed range from
  1 to 5. A count below 1 becomes 1 and a count above 5 becomes 5, each with exactly one
  warning and no error; a count within the range comes back unchanged and without a
  warning. \<open>deploy\<close> works on the validated value: deploying with a count and deploying
  with its validated value are the same run, and every command that \<open>deploy\<close> hands to
  \<open>subprocess.run\<close> (at least one when the chart exists and an attempt is allowed, at most
  \<open>MAX_RETRIES\<close>) is the Helm command built from the validated value, which sets the
  replica count and the minimum of the autoscaler to that value, printed as one of the
  digits 1 to 5.
\<close>

theorem validateNodeCount_clamps:
  "1 \<le> fst (validateNodeCount n) \<and> fst (validateNodeCount n) \<le> 5
   \<and> (n < 1 \<longrightarrow> validateNodeCount n = (1, [''node_count '' @ str_int n @ '' below minimum, using 1'']))
   \<and> (5 < n \<longrightarrow> validateNodeCount n = (5, [''node_count '' @ str_int n @ '' above maximum, using 5'']))
   \<and> (1 \<le> n \<and> n \<le> 5 \<longrightarrow> validateNodeCount n = (n, []))
   \<and> deploy env cfg helmChartPath n valuesFile w
       = deploy env cfg helmChartPath (fst (validateNodeCount n)) valuesFile w
   \<and> (\<exists>k valuesArg.
         k \<le> nat (MAX_RETRIES cfg)
         \<and> (path_exists env helmChartPath w \<and> 1 \<le> MAX_RETRIES cfg \<longrightarrow> 1 \<le> k)
         \<and> deploy (logging_env env) cfg helmChartPath n valuesFile (w, cmds)
             = (fst (deploy env cfg helmChartPath n valuesFile w),
                (snd (deploy env cfg helmChartPath n valuesFile w),
                 cmds @ replicate k (helmCommand cfg helmChartPath valuesArg (fst (validateNodeCount n))))))
   \<and> (\<forall>valuesArg.
         helmCommand cfg helmChartPath valuesArg (fst (validateNodeCount n))
           = [''helm'', ''upgrade'', ''--install'', HELM_RELEASE_NAME cfg, helmChartPath,
              ''--namespace'', NAMESPACE cfg, ''--create-namespace'']
             @ (case valuesArg of None \<Rightarrow> [] | Some f \<Rightarrow> [''-f'', f])
             @ [''--set'', ''chromeNode.replicaCount='' @ str_int (fst (validateNodeCount n)),
                ''--set'', ''chromeNode.autoscaling.minReplicas='' @ str_int (fst (validateNodeCount n)),
                ''--set'', ''chromeNode.autoscaling.maxReplicas=5'',
                ''--wait'', ''--timeout'', ''5m''])
   \<and> str_int (fst (validateNodeCount n)) \<in> {''1'', ''2'', ''3'', ''4'', ''5''}"
proof -
  have range: "1 \<le> fst (validateNodeCount n) \<and> fst (validateNodeCount n) \<le> 5"
    by (simp add: validateNodeCount_def MIN_NODE_COUNT_def MAX_NODE_COUNT_def)
  have cases:
    "(n < 1 \<longrightarrow> validateNodeCount n = (1, [''node_count '' @ str_int n @ '' below minimum, using 1'']))
     \<and> (5 < n \<longrightarrow> validateNodeCount n = (5, [''node_count '' @ str_int n @ '' above maximum, using 5'']))
     \<and> (1 \<le> n \<and> n \<le> 5 \<longrightarrow> validateNodeCount n = (n, []))"
    by (simp add: validateNodeCount_def MIN_NODE_COUNT_def MAX_NODE_COUNT_def str_int_bounds)
  have dep: "deploy env cfg helmChartPath n valuesFile w
       = deploy env cfg helmChartPath (fst (validateNodeCount n)) valuesFile w"
    by (simp only: deploy_def validate_idem)
  have runs: "\<exists>k valuesArg.
         k \<le> nat (MAX_RETRIES cfg)
         \<and> (path_exists env helmChartPath w \<and> 1 \<le> MAX_RETRIES cfg \<longrightarrow> 1 \<le> k)
         \<and> deploy (logging_env env) cfg helmChartPath n valuesFile (w, cmds)
             = (fst (deploy env cfg helmChartPath n valuesFile w),
                (snd (deploy env cfg helmChartPath n valuesFile w),
                 cmds @ replicate k (helmCommand cfg helmChartPath valuesArg (fst (validateNodeCount n)))))"
    by (rule deploy_logged)
  have command: "\<forall>valuesArg.
         helmCommand cfg helmChartPath valuesArg (fst (validateNodeCount n))
           = [''helm'', ''upgrade'', ''--install'', HELM_RELEASE_NAME cfg, helmChartPath,
              ''--namespace'', NAMESPACE cfg, ''--create-namespace'']
             @ (case valuesArg of None \<Rightarrow> [] | Some f \<Rightarrow> [''-f'', f])
             @ [''--set'', ''chromeNode.replicaCount='' @ str_int (fst (validateNodeCount n)),
                ''--set'', ''chromeNode.autoscaling.minReplicas='' @ str_int (fst (validateNodeCount n)),
                ''--set'', ''chromeNode.autoscaling.maxReplicas=5'',
                ''--wait'', ''--timeout'', ''5m'']"
    by (intro allI helmCommand_sets)
  note digit = str_int_validated[of n]
  from range cases dep runs command digit show ?thesis by blast
qed

theorem validateNodeCount_clamps_witness:
  "validateNodeCount 7 = (5, [''node_count 7 above maximum, using 5''])
   \<and> validateNodeCount (-3) = (1, [''node_count -3 below minimum, using 1''])
   \<and> validateNodeCount 3 = (3, [])
   \<and> path_exists (helm_clock_env []) ''./helm/insider-testops'' 0
   \<and> 1 \<le> MAX_RETRIES default_config
   \<and> helmCommand default_config ''./helm/insider-testops'' None (fst (validateNodeCount 7))
       = [''helm'', ''upgrade'', ''--install'', ''insider-testops'', ''./helm/insider-testops'',
          ''--namespace'', ''insider-testops'', ''--create-namespace'',
          ''--set'', ''chromeNode.replicaCount=5'',
          ''--set'', ''chromeNode.autoscaling.minReplicas=5'',
          ''--set'', ''chromeNode.autoscaling.maxReplicas=5'',
          ''--wait'', ''--timeout'', ''5m'']
   \<and> deploy (logging_env (helm_clock_env [])) default_config ''./helm/insider-testops'' 7 None (0, [])
       = (True, (0, [helmCommand default_config ''./helm/insider-testops'' None (fst (validateNodeCount 7))]))"
proof -
  note t = validateNodeCount_clamps[where n = 7 and env = "helm_clock_env []" and cfg = default_config
             and helmChartPath = "''./helm/insider-testops''" and valuesFile = None and w = 0 and cmds = "[]"]
  note above = t[THEN conjunct2, THEN conjunct2, THEN conjunct2, THEN conjunct1]
  note below = validateNodeCount_clamps [of "-3", THEN conjunct2, THEN conjunct2, THEN conjunct1]
  note inside = validateNodeCount_clamps [of 3, THEN conjunct2, THEN conjunct2, THEN conjunct2, THEN conjunct2, THEN conjunct1]
  note command = t[THEN conjunct2, THEN conjunct2, THEN conjunct2, THEN conjunct2, THEN conjunct2,
                   THEN conjunct2, THEN conjunct2, THEN conjunct1, THEN spec[where x = None]]
  have a: "validateNodeCount 7 = (5, [''node_count 7 above maximum, using 5''])"
    using above by (simp add: str_int_def digit_char_def)
  have b: "validateNodeCount (-3) = (1, [''node_count -3 below minimum, using 1''])"
    using below by (simp add: str_int_def digit_char_def)
  have c: "validateNodeCount 3 = (3, [])"
    using inside by simp
  have p: "path_exists (helm_clock_env []) ''./helm/insider-testops'' 0"
    and m: "1 \<le> MAX_RETRIES default_config"
    by (simp_all add: helm_clock_env_def default_config_def)
  have h: "helmCommand default_config ''./helm/insider-testops'' None (fst (validateNodeCount 7))
       = [''helm'', ''upgrade'', ''--install'', ''insider-testops'', ''./helm/insider-testops'',
          ''--namespace'', ''insider-testops'', ''--create-namespace'',
          ''--set'', ''chromeNode.replicaCount=5'',
          ''--set'', ''chromeNode.autoscaling.minReplicas=5'',
          ''--set'', ''chromeNode.autoscaling.maxReplicas=5'',
          ''--wait'', ''--timeout'', ''5m'']"
    unfolding command by (simp add: a default_config_def str_int_def digit_char_def)
  have cfgs: "HELM_VALUES_FILE default_config = []" "MAX_RETRIES default_config = 3"
    by (simp_all add: default_config_def)
  have direct: "deploy (logging_env (helm_clock_env [])) default_config ''./helm/insider-testops'' 7 None (0, [])
       = (True, (0, [helmCommand default_config ''./helm/insider-testops'' None (fst (validateNodeCount 7))]))"
    by (simp add: deploy_def logging_env_simps helm_clock_env_def attempts_default runCommand_def cfgs)
  from a b c p m h direct show ?thesis by (intro conjI)
qed

end
